theory Spec2Isabelle
  imports Complex_Main
begin

section \<open>Python values\<close>

text \<open>
  The script \<^verbatim>\<open>SurfaceMaskFilter_InclusionList.py\<close> is a flat sequence of calls into the
  editor (the \<^verbatim>\<open>azlmbr\<close> modules), into helper modules of the test framework
  (\<^verbatim>\<open>hydra\<close>, \<^verbatim>\<open>dynveg\<close>, \<^verbatim>\<open>EditorTestHelper\<close>) and into the standard library.
  None of those is part of the script, so each of them is an external call that the
  environment answers; the script only passes values on, compares two of them with
  \<^verbatim>\<open>==\<close>, and combines booleans with \<^verbatim>\<open>and\<close>.

  A Python value is \<^verbatim>\<open>None\<close>, a bool, an (unbounded) int, a float, a string, a list, or an
  object owned by the environment (an entity, a component, a vector, a bounding box),
  known by its identity only. A float is represented by the rational number it denotes;
  the script does no float arithmetic, it only writes float literals.
\<close>

datatype pyval =
    PyNone
  | PyBool bool
  | PyInt int
  | PyFloat rat
  | PyStr string
  | PyList "pyval list"
  | PyObj nat

text \<open>The numeric value of a bool, int or float (\<^verbatim>\<open>True\<close> is 1, \<^verbatim>\<open>False\<close> is 0).\<close>

fun py_num :: "pyval \<Rightarrow> rat option" where
  "py_num (PyBool b) = Some (if b then 1 else 0)"
| "py_num (PyInt n) = Some (of_int n)"
| "py_num (PyFloat r) = Some r"
| "py_num _ = None"

text \<open>
  Python's \<^verbatim>\<open>a == b\<close>: numbers compare by value across bool, int and float, strings and
  lists structurally, \<^verbatim>\<open>None\<close> equals only itself, and an object of the environment
  equals only itself.
\<close>

fun py_eq :: "pyval \<Rightarrow> pyval \<Rightarrow> bool"
  and py_eq_list :: "pyval list \<Rightarrow> pyval list \<Rightarrow> bool" where
  "py_eq PyNone b = (b = PyNone)"
| "py_eq (PyBool x) b = (case py_num b of Some y \<Rightarrow> (if x then 1 else 0) = y | None \<Rightarrow> False)"
| "py_eq (PyInt x) b = (case py_num b of Some y \<Rightarrow> of_int x = y | None \<Rightarrow> False)"
| "py_eq (PyFloat x) b = (case py_num b of Some y \<Rightarrow> x = y | None \<Rightarrow> False)"
| "py_eq (PyStr x) b = (b = PyStr x)"
| "py_eq (PyList xs) b = (case b of PyList ys \<Rightarrow> py_eq_list xs ys | _ \<Rightarrow> False)"
| "py_eq (PyObj x) b = (b = PyObj x)"
| "py_eq_list [] ys = (ys = [])"
| "py_eq_list (x # xs) ys = (case ys of [] \<Rightarrow> False | y # ys' \<Rightarrow> py_eq x y \<and> py_eq_list xs ys')"

text \<open>Python's truth value of a value, as \<^verbatim>\<open>if\<close> and \<^verbatim>\<open>and\<close> test it.\<close>

fun py_truthy :: "pyval \<Rightarrow> bool" where
  "py_truthy PyNone = False"
| "py_truthy (PyBool b) = b"
| "py_truthy (PyInt n) = (n \<noteq> 0)"
| "py_truthy (PyFloat r) = (r \<noteq> 0)"
| "py_truthy (PyStr s) = (s \<noteq> [])"
| "py_truthy (PyList xs) = (xs \<noteq> [])"
| "py_truthy (PyObj _) = True"

text \<open>Python's \<^verbatim>\<open>a and b\<close> on values already computed: \<^verbatim>\<open>a\<close> if it is falsy, else \<^verbatim>\<open>b\<close>.\<close>

definition py_and :: "pyval \<Rightarrow> pyval \<Rightarrow> pyval" where
  "py_and a b = (if py_truthy a then b else a)"

text \<open>
  The float literal \<^verbatim>\<open>0.9\<close> denotes the double nearest to nine tenths, which is
  \<open>8106479329266893 / 2 ^ 53\<close>. Every other float literal of the script is a whole number.
\<close>

definition float_0_9 :: rat where
  "float_0_9 = 8106479329266893 / 9007199254740992"

section \<open>External calls, events and the environment\<close>

datatype bus = EditorComponentAPIBus | ShapeComponentRequestsBus | AreaSystemRequestBus

datatype bus_kind = Broadcast | Event

text \<open>
  The functions the script calls. A method call passes its receiver as the first
  argument; \<open>Entity_components_getitem\<close> is the read \<^verbatim>\<open>Entity.components[component_index]\<close>
  and \<open>Entity_id\<close> the read \<^verbatim>\<open>spawner_entity.id\<close>, both on an object the environment owns.
\<close>

datatype api_fn =
    Self_create_level
  | General_set_current_view_position
  | General_idle_wait
  | Math_Vector3
  | Os_path_join
  | Surface_data_SurfaceTag
  | Dynveg_create_vegetation_area
  | Dynveg_create_surface_entity
  | Entity_add_component
  | Entity_components_getitem
  | Entity_id
  | Hydra_get_set_test
  | Hydra_get_component_property_value

text \<open>
  An f-string is kept as its literal parts and the values interpolated between them
  (the text that \<^verbatim>\<open>str\<close> gives for a value is the environment's business).
\<close>

datatype frag = Lit string | Interp pyval

datatype api_call =
    Call api_fn "pyval list" "(string \<times> pyval) list"
  | BusCall bus bus_kind string "pyval list"
  | Print "frag list"
  | Self_log "frag list"

datatype exn = KeyError string | ApiError string

text \<open>
  What the script does that is visible from outside: an external call together with the
  environment's answer (a returned value, or a raised exception), and a store to
  \<^verbatim>\<open>self.test_success\<close>.
\<close>

datatype event =
    Api api_call "exn + pyval"
  | Assign_test_success pyval

text \<open>
  The environment answers a call from the events so far: any editor, deterministic or
  not from the script's point of view, is such a function.
\<close>

type_synonym engine = "event list \<Rightarrow> api_call \<Rightarrow> exn + pyval"

record state =
  trace :: "event list"
  test_success :: pyval
  args :: "string \<rightharpoonup> pyval"

section \<open>Sequencing with exceptions\<close>

text \<open>
  A statement maps the state to an outcome (\<open>Inl\<close> an uncaught exception, \<open>Inr\<close> the value)
  and the state it leaves. The state is kept when an exception is raised, so the events
  of an aborted run can be read too.
\<close>

type_synonym 'a prog = "state \<Rightarrow> (exn + 'a) \<times> state"

definition ret :: "'a \<Rightarrow> 'a prog" where
  "ret v s = (Inr v, s)"

definition raise :: "exn \<Rightarrow> 'a prog" where
  "raise e s = (Inl e, s)"

text \<open>Statement sequencing: an exception of the first part skips the rest.\<close>

definition bnd :: "'a prog \<Rightarrow> ('a \<Rightarrow> 'b prog) \<Rightarrow> 'b prog" where
  "bnd p f s = (case p s of (Inl e, s') \<Rightarrow> (Inl e, s') | (Inr v, s') \<Rightarrow> f v s')"

text \<open>An external call: the environment answers, the call and its answer are recorded.\<close>

definition api :: "engine \<Rightarrow> api_call \<Rightarrow> pyval prog" where
  "api E c s = (E (trace s) c, s\<lparr>trace := trace s @ [Api c (E (trace s) c)]\<rparr>)"

text \<open>\<^verbatim>\<open>self.test_success = v\<close>\<close>

definition assign_test_success :: "pyval \<Rightarrow> unit prog" where
  "assign_test_success v s =
     (Inr (), s\<lparr>test_success := v, trace := trace s @ [Assign_test_success v]\<rparr>)"

text \<open>the read of \<^verbatim>\<open>self.test_success\<close>\<close>

definition read_test_success :: "pyval prog" where
  "read_test_success s = (Inr (test_success s), s)"

text \<open>\<^verbatim>\<open>self.args[key]\<close>, a dictionary lookup that raises \<^verbatim>\<open>KeyError\<close> on a missing key\<close>

definition self_args :: "string \<Rightarrow> pyval prog" where
  "self_args key s = (case args s key of None \<Rightarrow> (Inl (KeyError key), s) | Some v \<Rightarrow> (Inr v, s))"

text \<open>a lookup in a dictionary of the script itself\<close>

definition dict_get :: "(string \<rightharpoonup> pyval) \<Rightarrow> string \<Rightarrow> pyval prog" where
  "dict_get d key = (case d key of None \<Rightarrow> raise (KeyError key) | Some v \<Rightarrow> ret v)"

section \<open>The script\<close>

text \<open>
  \<^verbatim>\<open>update_surface_tag_inclusion_list(Entity, component_index, surface_tag)\<close>, lines 59 to 75.
\<close>

definition update_surface_tag_inclusion_list ::
    "engine \<Rightarrow> pyval \<Rightarrow> pyval \<Rightarrow> pyval \<Rightarrow> unit prog" where
  "update_surface_tag_inclusion_list E Entity component_index surface_tag =
     bnd (api E (Call Surface_data_SurfaceTag [] [])) (\<lambda>tag.
     bnd (api E (Call Hydra_get_set_test
            [Entity, component_index, PyStr ''Configuration|Inclusion|Surface Tags'', PyList [tag]] [])) (\<lambda>_.
     bnd (api E (Call Entity_components_getitem [Entity, component_index] [])) (\<lambda>component.
     bnd (api E (BusCall EditorComponentAPIBus Broadcast ''SetComponentProperty''
            [component, PyStr ''Configuration|Inclusion|Surface Tags|[0]|Surface Tag'', surface_tag])) (\<lambda>_.
     bnd (api E (Call Hydra_get_component_property_value
            [component, PyStr ''Configuration|Inclusion|Surface Tags|[0]|Surface Tag''] [])) (\<lambda>new_value.
     bnd (if py_eq new_value surface_tag
          then api E (Print [Lit ''Inclusive surface mask filter of terrainHole is added successfully''])
          else api E (Print [Lit ''Failed to add an Inclusive surface mask filter of terrainHole''])) (\<lambda>_.
     bnd (api E (Call General_idle_wait [PyFloat 2] [])) (\<lambda>_.
     ret ())))))))"

text \<open>
  \<^verbatim>\<open>update_generated_surface_tag(Entity, component_index, surface_tag)\<close>, lines 77 to 92.
\<close>

definition update_generated_surface_tag ::
    "engine \<Rightarrow> pyval \<Rightarrow> pyval \<Rightarrow> pyval \<Rightarrow> unit prog" where
  "update_generated_surface_tag E Entity component_index surface_tag =
     bnd (api E (Call Surface_data_SurfaceTag [] [])) (\<lambda>tag.
     bnd (api E (Call Hydra_get_set_test
            [Entity, component_index, PyStr ''Configuration|Generated Tags'', PyList [tag]] [])) (\<lambda>_.
     bnd (api E (Call Entity_components_getitem [Entity, component_index] [])) (\<lambda>component.
     bnd (api E (BusCall EditorComponentAPIBus Broadcast ''SetComponentProperty''
            [component, PyStr ''Configuration|Generated Tags|[0]|Surface Tag'', surface_tag])) (\<lambda>_.
     bnd (api E (Call Hydra_get_component_property_value
            [component, PyStr ''Configuration|Generated Tags|[0]|Surface Tag''] [])) (\<lambda>new_value.
     bnd (if py_eq new_value surface_tag
          then api E (Self_log [Lit ''Generated surface tag of '', Interp surface_tag,
                                Lit '' is added successfully''])
          else api E (Self_log [Lit ''Failed to add Generated surface tag of '', Interp surface_tag])) (\<lambda>_.
     ret ()))))))"

text \<open>\<^verbatim>\<open>surface_tags: dict = {"terrainHole": 1327698037, "terrain": 3363197873}\<close>, line 117\<close>

definition surface_tags :: "string \<rightharpoonup> pyval" where
  "surface_tags = [''terrainHole'' \<mapsto> PyInt 1327698037, ''terrain'' \<mapsto> PyInt 3363197873]"

text \<open>
  The body of \<^verbatim>\<open>run_test\<close> follows, one definition for each numbered step of the source.
  Step 1, lines 95 to 103: create a new level, store the result in
  \<^verbatim>\<open>self.test_success\<close>, and set the view position.
\<close>

definition step1 :: "engine \<Rightarrow> unit prog" where
  "step1 E =
     bnd (self_args ''level'') (\<lambda>level.
     bnd (api E (Call Self_create_level [level]
            [(''heightmap_resolution'', PyInt 1024),
             (''heightmap_meters_per_pixel'', PyInt 1),
             (''terrain_texture_resolution'', PyInt 4096),
             (''use_terrain'', PyBool False)])) (\<lambda>created.
     bnd (assign_test_success created) (\<lambda>_.
     bnd (api E (Call General_set_current_view_position [PyFloat 512, PyFloat 480, PyFloat 38] [])) (\<lambda>_.
     ret ()))))"

text \<open>
  Step 2, lines 106 to 111: create the entity with the components "Vegetation Layer
  Spawner", "Vegetation Asset List" and "Box Shape". The result is \<^verbatim>\<open>spawner_entity\<close>.
\<close>

definition step2 :: "engine \<Rightarrow> pyval prog" where
  "step2 E =
     bnd (api E (Call Math_Vector3 [PyFloat 512, PyFloat 512, PyFloat 32] [])) (\<lambda>entity_position.
     bnd (api E (Call Os_path_join [PyStr ''Slices'', PyStr ''PurpleFlower.dynamicslice''] [])) (\<lambda>asset_path.
     api E (Call Dynveg_create_vegetation_area
            [PyStr ''Instance Spawner'', entity_position, PyFloat 10, PyFloat 10, PyFloat 10, asset_path] [])))"

text \<open>Step 3, line 114: add a Vegetation Surface Mask Filter component to the entity.\<close>

definition step3 :: "engine \<Rightarrow> pyval \<Rightarrow> unit prog" where
  "step3 E spawner_entity =
     bnd (api E (Call Entity_add_component [spawner_entity, PyStr ''Vegetation Surface Mask Filter''] [])) (\<lambda>_.
     ret ())"

text \<open>
  Step 4, lines 117 to 128: create the two surface entities and give each its generated
  surface tag.
\<close>

definition step4 :: "engine \<Rightarrow> unit prog" where
  "step4 E =
     bnd (api E (Call Math_Vector3 [PyFloat 510, PyFloat 512, PyFloat 32] [])) (\<lambda>entity_position.
     bnd (api E (Call Dynveg_create_surface_entity
            [PyStr ''Surface Entity 1'', entity_position, PyFloat 10, PyFloat 10, PyFloat 1] [])) (\<lambda>surface_entity_1.
     bnd (dict_get surface_tags ''terrainHole'') (\<lambda>tag1.
     bnd (update_generated_surface_tag E surface_entity_1 (PyInt 1) tag1) (\<lambda>_.
     bnd (api E (Call Math_Vector3 [PyFloat 520, PyFloat 512, PyFloat 32] [])) (\<lambda>entity_position.
     bnd (api E (Call Dynveg_create_surface_entity
            [PyStr ''Surface Entity 2'', entity_position, PyFloat 10, PyFloat 10, PyFloat 1] [])) (\<lambda>surface_entity_2.
     bnd (dict_get surface_tags ''terrain'') (\<lambda>tag2.
     update_generated_surface_tag E surface_entity_2 (PyInt 1) tag2)))))))"

text \<open>Step 5, line 131: add an inclusion list tag to the filter and set it to "terrainHole".\<close>

definition step5 :: "engine \<Rightarrow> pyval \<Rightarrow> unit prog" where
  "step5 E spawner_entity =
     bnd (dict_get surface_tags ''terrainHole'') (\<lambda>tag.
     update_surface_tag_inclusion_list E spawner_entity (PyInt 3) tag)"

text \<open>
  Step 6, lines 134 to 139: check the spawn count with the default inclusion weights. The
  result is \<^verbatim>\<open>box\<close>, which step 7 uses again.
\<close>

definition step6 :: "engine \<Rightarrow> pyval \<Rightarrow> pyval prog" where
  "step6 E spawner_entity =
     bnd (api E (Call General_idle_wait [PyFloat 2] [])) (\<lambda>_.
     bnd (api E (Call Entity_id [spawner_entity] [])) (\<lambda>spawner_id.
     bnd (api E (BusCall ShapeComponentRequestsBus Event ''GetEncompassingAabb'' [spawner_id])) (\<lambda>box.
     bnd (api E (BusCall AreaSystemRequestBus Broadcast ''GetInstanceCountInAabb'' [box])) (\<lambda>num_found.
     bnd (api E (Self_log [Lit ''Expected '', Interp (PyInt 130), Lit '' instances - Found '',
                           Interp num_found, Lit '' instances''])) (\<lambda>_.
     bnd read_test_success (\<lambda>old.
     bnd (assign_test_success (py_and old (PyBool (py_eq num_found (PyInt 130))))) (\<lambda>_.
     ret box)))))))"

text \<open>Step 7, lines 142 to 147: check the spawn count with Inclusion Weight Max set below 1.0.\<close>

definition step7 :: "engine \<Rightarrow> pyval \<Rightarrow> pyval \<Rightarrow> unit prog" where
  "step7 E spawner_entity box =
     bnd (api E (Call Hydra_get_set_test
            [spawner_entity, PyInt 3, PyStr ''Configuration|Inclusion|Weight Max'', PyFloat float_0_9] [])) (\<lambda>_.
     bnd (api E (Call General_idle_wait [PyFloat 2] [])) (\<lambda>_.
     bnd (api E (BusCall AreaSystemRequestBus Broadcast ''GetInstanceCountInAabb'' [box])) (\<lambda>num_found.
     bnd (api E (Self_log [Lit ''Expected '', Interp (PyInt 0), Lit '' instances - Found '',
                           Interp num_found, Lit '' instances''])) (\<lambda>_.
     bnd read_test_success (\<lambda>old.
     assign_test_success (py_and old (PyBool (py_eq num_found (PyInt 0)))))))))"

text \<open>\<^verbatim>\<open>run_test(self)\<close>, lines 33 to 147\<close>

definition run_test :: "engine \<Rightarrow> unit prog" where
  "run_test E =
     bnd (step1 E) (\<lambda>_.
     bnd (step2 E) (\<lambda>spawner_entity.
     bnd (step3 E spawner_entity) (\<lambda>_.
     bnd (step4 E) (\<lambda>_.
     bnd (step5 E spawner_entity) (\<lambda>_.
     bnd (step6 E spawner_entity) (\<lambda>box.
     step7 E spawner_entity box))))))"

section \<open>Observing a run\<close>

text \<open>The events a statement added to the trace, from the state before and the state after.\<close>

definition new_events :: "state \<Rightarrow> state \<Rightarrow> event list" where
  "new_events s s' = drop (length (trace s)) (trace s')"

text \<open>The values stored to \<^verbatim>\<open>self.test_success\<close>, in the order of the stores.\<close>

fun assigns :: "event list \<Rightarrow> pyval list" where
  "assigns [] = []"
| "assigns (Assign_test_success v # es) = v # assigns es"
| "assigns (Api c r # es) = assigns es"

fun is_assign :: "event \<Rightarrow> bool" where
  "is_assign (Assign_test_success v) = True"
| "is_assign (Api c r) = False"

text \<open>A query of \<^verbatim>\<open>GetInstanceCountInAabb\<close> on the area system bus.\<close>

fun is_count_query :: "event \<Rightarrow> bool" where
  "is_count_query (Api (BusCall AreaSystemRequestBus k m a) r) = (m = ''GetInstanceCountInAabb'')"
| "is_count_query _ = False"

text \<open>A query of \<^verbatim>\<open>GetEncompassingAabb\<close> on the shape bus.\<close>

fun is_aabb_query :: "event \<Rightarrow> bool" where
  "is_aabb_query (Api (BusCall ShapeComponentRequestsBus k m a) r) = (m = ''GetEncompassingAabb'')"
| "is_aabb_query _ = False"

text \<open>A call of \<^verbatim>\<open>general.idle_wait(2.0)\<close> that returned.\<close>

fun is_idle_wait_2 :: "event \<Rightarrow> bool" where
  "is_idle_wait_2 (Api (Call General_idle_wait a k) (Inr v)) = (a = [PyFloat 2] \<and> k = [])"
| "is_idle_wait_2 _ = False"

text \<open>The read of \<^verbatim>\<open>spawner_entity.id\<close>.\<close>

fun is_id_read :: "event \<Rightarrow> bool" where
  "is_id_read (Api (Call Entity_id a k) r) = True"
| "is_id_read _ = False"

text \<open>The positional arguments of a call.\<close>

fun call_args :: "event \<Rightarrow> pyval list" where
  "call_args (Api (Call f a k) r) = a"
| "call_args (Api (BusCall b k m a) r) = a"
| "call_args _ = []"

text \<open>
  A call that sets the component property at a path: \<^verbatim>\<open>hydra.get_set_test\<close> with that path,
  or \<^verbatim>\<open>SetComponentProperty\<close> on the editor component bus with that path.
\<close>

fun sets_property :: "string \<Rightarrow> event \<Rightarrow> bool" where
  "sets_property path (Api (Call Hydra_get_set_test a k) r) =
     (case a of [e, i, p, v] \<Rightarrow> p = PyStr path | _ \<Rightarrow> False)"
| "sets_property path (Api (BusCall EditorComponentAPIBus bk m a) r) =
     (m = ''SetComponentProperty'' \<and> (case a of [c, p, v] \<Rightarrow> p = PyStr path | _ \<Rightarrow> False))"
| "sets_property path _ = False"

text \<open>A call that creates an entity, and a call that sets a component property.\<close>

fun is_create :: "event \<Rightarrow> bool" where
  "is_create (Api (Call Dynveg_create_vegetation_area a k) r) = True"
| "is_create (Api (Call Dynveg_create_surface_entity a k) r) = True"
| "is_create _ = False"

fun is_set_property :: "event \<Rightarrow> bool" where
  "is_set_property (Api (BusCall EditorComponentAPIBus k m a) r) = (m = ''SetComponentProperty'')"
| "is_set_property _ = False"

text \<open>
  A call that sets a component property, whatever the path: \<^verbatim>\<open>hydra.get_set_test\<close>, or
  \<^verbatim>\<open>SetComponentProperty\<close> on the editor component bus.
\<close>

fun is_property_write :: "event \<Rightarrow> bool" where
  "is_property_write (Api (Call Hydra_get_set_test a k) r) = True"
| "is_property_write (Api (BusCall EditorComponentAPIBus bk m a) r) = (m = ''SetComponentProperty'')"
| "is_property_write _ = False"

text \<open>
  How far the events just before the current one have come: nothing that counts, an
  \<^verbatim>\<open>idle_wait(2.0)\<close> that returned, that wait followed by the read of the id, or that wait
  followed by the read of the id and by the bounding box query.
\<close>

datatype phase = Unsettled | Waited | Waited_id | Waited_box

text \<open>
  The first count query of a list of events is preceded by exactly an \<^verbatim>\<open>idle_wait(2.0)\<close>,
  the read of the id and the bounding box query, in this order with nothing between
  them; every later count query is preceded immediately by an \<^verbatim>\<open>idle_wait(2.0)\<close>. The
  flag says whether the first count query is still to come.
\<close>

fun settled :: "bool \<Rightarrow> phase \<Rightarrow> event list \<Rightarrow> bool" where
  "settled first ph [] = True"
| "settled first ph (e # es) =
     (if is_count_query e
      then ph = (if first then Waited_box else Waited) \<and> settled False Unsettled es
      else if is_idle_wait_2 e then settled first Waited es
      else if is_id_read e \<and> first \<and> ph = Waited then settled first Waited_id es
      else if is_aabb_query e \<and> first \<and> ph = Waited_id then settled first Waited_box es
      else settled first Unsettled es)"

text \<open>
  The stricter reading: the event right before each count query is an \<^verbatim>\<open>idle_wait(2.0)\<close>.
  The flag says whether the event before was such a wait.
\<close>

fun immediate :: "bool \<Rightarrow> event list \<Rightarrow> bool" where
  "immediate w [] = True"
| "immediate w (e # es) =
     (if is_count_query e then w \<and> immediate False es
      else immediate (is_idle_wait_2 e) es)"

text \<open>A read-back of a component property with \<^verbatim>\<open>hydra.get_component_property_value\<close>.\<close>

fun is_readback :: "event \<Rightarrow> bool" where
  "is_readback (Api (Call Hydra_get_component_property_value a k) r) = True"
| "is_readback _ = False"

text \<open>
  Every store after the first one is the value before it, or that value conjoined with a
  bool by \<^verbatim>\<open>and\<close>.
\<close>

fun conj_writes :: "pyval \<Rightarrow> pyval list \<Rightarrow> bool" where
  "conj_writes v [] = True"
| "conj_writes v (w # ws) =
     ((w = py_and v (PyBool True) \<or> w = py_and v (PyBool False)) \<and> conj_writes w ws)"

subsection \<open>Properties of statements that sequencing preserves\<close>

text \<open>
  A statement only appends to the trace, leaves \<^verbatim>\<open>self.args\<close> alone, and leaves in
  \<^verbatim>\<open>self.test_success\<close> the last value it stored there, if it stored any.
\<close>

definition tracks :: "'a prog \<Rightarrow> bool" where
  "tracks p \<longleftrightarrow> (\<forall>s r s'. p s = (r, s') \<longrightarrow> (\<exists>evs. trace s' = trace s @ evs \<and>
      args s' = args s \<and> test_success s' = last (test_success s # assigns evs)))"

text \<open>A statement adds at most \<open>n\<close> events of one kind, however it ends.\<close>

definition at_most :: "(event \<Rightarrow> bool) \<Rightarrow> nat \<Rightarrow> 'a prog \<Rightarrow> bool" where
  "at_most P n p \<longleftrightarrow> (\<forall>s r s'. p s = (r, s') \<longrightarrow> (\<exists>evs. trace s' = trace s @ evs \<and>
      length (filter P evs) \<le> n))"

text \<open>A statement updates \<^verbatim>\<open>self.test_success\<close> by conjunction only, however it ends.\<close>

definition accum :: "'a prog \<Rightarrow> bool" where
  "accum p \<longleftrightarrow> (\<forall>s r s'. p s = (r, s') \<longrightarrow> (\<exists>evs. trace s' = trace s @ evs \<and>
      test_success s' = last (test_success s # assigns evs) \<and>
      conj_writes (test_success s) (assigns evs)))"

text \<open>
  A statement waits before each of its count queries, however it ends; when it returns,
  so does the statement followed by any events that wait before each of theirs. The flags
  say whether the first count query is still to come, before and after the statement.
\<close>

definition settles :: "bool \<Rightarrow> 'a prog \<Rightarrow> bool \<Rightarrow> bool" where
  "settles f p f' \<longleftrightarrow> (\<forall>s r s'. p s = (r, s') \<longrightarrow> (\<exists>evs. trace s' = trace s @ evs \<and>
      (\<forall>ph. settled f ph evs) \<and>
      (\<forall>u. r = Inr u \<longrightarrow> (\<forall>ph ys. (\<forall>ph'. settled f' ph' ys) \<longrightarrow> settled f ph (evs @ ys)))))"

text \<open>
  Every recorded answer is the environment's answer at that point of the trace, and a
  call that raised is the last event, its exception being the outcome of the statement.
\<close>

definition faithful :: "engine \<Rightarrow> 'a prog \<Rightarrow> bool" where
  "faithful E p \<longleftrightarrow> (\<forall>s r s'. p s = (r, s') \<longrightarrow> (\<exists>evs. trace s' = trace s @ evs \<and>
      (\<forall>i c x. i < length evs \<and> evs ! i = Api c x \<longrightarrow> x = E (trace s @ take i evs) c) \<and>
      (\<forall>i c e. i < length evs \<and> evs ! i = Api c (Inl e) \<longrightarrow> Suc i = length evs \<and> r = Inl e)))"

section \<open>Sample environments\<close>

text \<open>
  The answers of an editor in which every call returns: the level is created, a count
  query that comes right after the bounding box query finds 130 instances and any other
  count query finds none. With \<open>readback_ok\<close> a property reads back as the value just set,
  without it as \<^verbatim>\<open>None\<close>.
\<close>

definition demo_answer :: "bool \<Rightarrow> event list \<Rightarrow> api_call \<Rightarrow> pyval" where
  "demo_answer readback_ok h c =
     (case c of
        Call f a k \<Rightarrow>
          (case f of
             Self_create_level \<Rightarrow> PyBool True
           | Os_path_join \<Rightarrow> PyStr ''Slices/PurpleFlower.dynamicslice''
           | Math_Vector3 \<Rightarrow> PyObj 1
           | Surface_data_SurfaceTag \<Rightarrow> PyObj 2
           | Dynveg_create_vegetation_area \<Rightarrow> PyObj 10
           | Dynveg_create_surface_entity \<Rightarrow> PyObj 20
           | Entity_components_getitem \<Rightarrow> PyObj 30
           | Entity_id \<Rightarrow> PyObj 11
           | Hydra_get_component_property_value \<Rightarrow>
               (if readback_ok \<and> h \<noteq> []
                then (case call_args (last h) of [cmp, pth, v] \<Rightarrow> v | _ \<Rightarrow> PyNone)
                else PyNone)
           | _ \<Rightarrow> PyNone)
      | BusCall b k m a \<Rightarrow>
          (case b of
             ShapeComponentRequestsBus \<Rightarrow> PyObj 12
           | AreaSystemRequestBus \<Rightarrow> PyInt (if h \<noteq> [] \<and> is_aabb_query (last h) then 130 else 0)
           | EditorComponentAPIBus \<Rightarrow> PyNone)
      | Print m \<Rightarrow> PyNone
      | Self_log m \<Rightarrow> PyNone)"

definition demo_engine :: "bool \<Rightarrow> engine" where
  "demo_engine readback_ok h c = Inr (demo_answer readback_ok h c)"

text \<open>The same editor, except that every call on the area system bus raises.\<close>

definition failing_engine :: engine where
  "failing_engine h c =
     (case c of
        BusCall AreaSystemRequestBus k m a \<Rightarrow> Inl (ApiError ''area system unavailable'')
      | _ \<Rightarrow> Inr (demo_answer True h c))"

definition demo_state :: state where
  "demo_state = \<lparr>trace = [], test_success = PyNone, args = [''level'' \<mapsto> PyStr ''tmp_level'']\<rparr>"

text \<open>
  A statement returns from every state in which \<^verbatim>\<open>self.args\<close> has the key "level", and
  leaves \<^verbatim>\<open>self.args\<close> as it was.
\<close>

definition returns :: "'a prog \<Rightarrow> bool" where
  "returns p \<longleftrightarrow> (\<forall>s. args s ''level'' \<noteq> None \<longrightarrow>
      (\<exists>v s'. p s = (Inr v, s') \<and> args s' = args s))"

text \<open>The run of the script in the sample editor, from the sample state.\<close>

definition demo_run :: "bool \<Rightarrow> (exn + unit) \<times> state" where
  "demo_run readback_ok = run_test (demo_engine readback_ok) demo_state"

definition demo_events :: "bool \<Rightarrow> event list" where
  "demo_events readback_ok = new_events demo_state (snd (demo_run readback_ok))"

section \<open>Basic facts\<close>

lemma assigns_append: "assigns (xs @ ys) = assigns xs @ assigns ys"
  by (induction xs rule: assigns.induct) simp_all

lemma assigns_filter: "filter is_assign evs = [] \<Longrightarrow> assigns evs = []"
  by (induction evs rule: assigns.induct) simp_all

lemma last_Cons_append: "last (v # (xs @ ys)) = last (last (v # xs) # ys)"
  by (cases ys) (simp_all add: last_append)

lemma conj_writes_append:
  "conj_writes v (xs @ ys) \<longleftrightarrow> conj_writes v xs \<and> conj_writes (last (v # xs)) ys"
  by (induction xs arbitrary: v) auto

lemma bnd_cases:
  assumes "bnd p f s = (r, s')"
  obtains (fails) e where "p s = (Inl e, s')" "r = Inl e"
        | (continues) v s1 where "p s = (Inr v, s1)" "f v s1 = (r, s')"
  using assms by (auto simp: bnd_def split: prod.splits sum.splits)

lemma bnd_Inr: "bnd p f s = (Inr v, s') \<longleftrightarrow> (\<exists>u s1. p s = (Inr u, s1) \<and> f u s1 = (Inr v, s'))"
  by (auto simp: bnd_def split: prod.splits sum.splits)

lemma bnd_Inr_eval: "p s = (Inr v, s1) \<Longrightarrow> bnd p f s = f v s1"
  by (simp add: bnd_def)

lemma bnd_Inl_eval: "p s = (Inl e, s1) \<Longrightarrow> bnd p f s = (Inl e, s1)"
  by (simp add: bnd_def)

lemma api_Inr: "api E c s = (Inr v, s') \<longleftrightarrow>
    E (trace s) c = Inr v \<and> s' = s\<lparr>trace := trace s @ [Api c (Inr v)]\<rparr>"
  by (auto simp: api_def)

lemma ret_Inr: "ret x s = (Inr v, s') \<longleftrightarrow> v = x \<and> s' = s"
  by (auto simp: ret_def)

lemmas script_defs = step1_def step2_def step3_def step4_def step5_def step6_def step7_def
  update_generated_surface_tag_def update_surface_tag_inclusion_list_def

subsection \<open>Answers are the environment's, and a raising call ends the statement\<close>

lemma faithful_ret: "faithful E (ret v)"
  by (simp add: faithful_def ret_def)

lemma faithful_raise: "faithful E (raise e)"
  by (simp add: faithful_def raise_def)

lemma faithful_api: "faithful E (api E c)"
  by (auto simp: faithful_def api_def)

lemma faithful_assign: "faithful E (assign_test_success v)"
  by (auto simp: faithful_def assign_test_success_def)

lemma faithful_read: "faithful E read_test_success"
  by (auto simp: faithful_def read_test_success_def)

lemma faithful_self_args: "faithful E (self_args k)"
  unfolding faithful_def self_args_def
  by (intro allI impI exI[of _ "[]"]) (auto split: option.splits)

lemma faithful_dict_get: "faithful E (dict_get d k)"
  by (auto simp: dict_get_def faithful_ret faithful_raise split: option.splits)

lemma faithful_if: "faithful E p \<Longrightarrow> faithful E q \<Longrightarrow> faithful E (if b then p else q)"
  by simp

lemma faithful_bnd:
  assumes p: "faithful E p" and f: "\<And>v. faithful E (f v)"
  shows "faithful E (bnd p f)"
  unfolding faithful_def
proof (intro allI impI)
  fix s r s'
  assume run: "bnd p f s = (r, s')"
  obtain r1 s1 where ps: "p s = (r1, s1)" by (cases "p s")
  from p ps have "\<exists>evs. trace s1 = trace s @ evs \<and>
      (\<forall>i c x. i < length evs \<and> evs ! i = Api c x \<longrightarrow> x = E (trace s @ take i evs) c) \<and>
      (\<forall>i c e. i < length evs \<and> evs ! i = Api c (Inl e) \<longrightarrow> Suc i = length evs \<and> r1 = Inl e)"
    unfolding faithful_def by simp
  then obtain evs1 where t1: "trace s1 = trace s @ evs1"
    and l1: "\<And>i c x. i < length evs1 \<Longrightarrow> evs1 ! i = Api c x \<Longrightarrow> x = E (trace s @ take i evs1) c"
    and x1: "\<And>i c e. i < length evs1 \<Longrightarrow> evs1 ! i = Api c (Inl e) \<Longrightarrow> Suc i = length evs1 \<and> r1 = Inl e"
    by blast
  show "\<exists>evs. trace s' = trace s @ evs \<and>
      (\<forall>i c x. i < length evs \<and> evs ! i = Api c x \<longrightarrow> x = E (trace s @ take i evs) c) \<and>
      (\<forall>i c e. i < length evs \<and> evs ! i = Api c (Inl e) \<longrightarrow> Suc i = length evs \<and> r = Inl e)"
  proof (cases r1)
    case (Inl e1)
    with run ps have "r = Inl e1" "s' = s1" by (simp_all add: bnd_def)
    with t1 l1 x1 Inl show ?thesis by (intro exI[of _ evs1]) auto
  next
    case (Inr v)
    with run ps have fv: "f v s1 = (r, s')" by (simp add: bnd_def)
    from f[of v] fv have "\<exists>evs. trace s' = trace s1 @ evs \<and>
      (\<forall>i c x. i < length evs \<and> evs ! i = Api c x \<longrightarrow> x = E (trace s1 @ take i evs) c) \<and>
      (\<forall>i c e. i < length evs \<and> evs ! i = Api c (Inl e) \<longrightarrow> Suc i = length evs \<and> r = Inl e)"
      unfolding faithful_def by simp
    then obtain evs2 where t2: "trace s' = trace s1 @ evs2"
      and l2: "\<And>i c x. i < length evs2 \<Longrightarrow> evs2 ! i = Api c x \<Longrightarrow> x = E (trace s1 @ take i evs2) c"
      and x2: "\<And>i c e. i < length evs2 \<Longrightarrow> evs2 ! i = Api c (Inl e) \<Longrightarrow> Suc i = length evs2 \<and> r = Inl e"
      by blast
    have a: "trace s' = trace s @ (evs1 @ evs2)" using t1 t2 by simp
    have b: "x = E (trace s @ take i (evs1 @ evs2)) c"
      if "i < length (evs1 @ evs2)" "(evs1 @ evs2) ! i = Api c x" for i c x
    proof (cases "i < length evs1")
      case True
      with that l1[of i c x] show ?thesis by (simp add: nth_append)
    next
      case False
      with that l2[of "i - length evs1" c x] t1 show ?thesis by (simp add: nth_append)
    qed
    have c: "Suc i = length (evs1 @ evs2) \<and> r = Inl e"
      if "i < length (evs1 @ evs2)" "(evs1 @ evs2) ! i = Api c (Inl e)" for i c e
    proof (cases "i < length evs1")
      case True
      with that x1[of i c e] Inr show ?thesis by (simp add: nth_append)
    next
      case False
      with that have "i - length evs1 < length evs2" "evs2 ! (i - length evs1) = Api c (Inl e)"
        by (auto simp add: nth_append)
      from x2[OF this] False show ?thesis by auto
    qed
    from a b c show ?thesis by (intro exI[of _ "evs1 @ evs2"]) blast
  qed
qed

lemmas faithful_intros = faithful_bnd faithful_api faithful_ret faithful_raise faithful_assign
  faithful_read faithful_self_args faithful_dict_get faithful_if

lemma faithful_run_test: "faithful E (run_test E)"
  unfolding run_test_def script_defs by (intro faithful_intros)

lemma faithful_new_events:
  assumes "faithful E p" "p s = (r, s')"
  shows "\<forall>i c x. i < length (new_events s s') \<and> new_events s s' ! i = Api c x \<longrightarrow>
           x = E (trace s @ take i (new_events s s')) c \<and>
           (\<forall>e. x = Inl e \<longrightarrow> r = Inl e \<and> Suc i = length (new_events s s'))"
proof -
  from assms have "\<exists>evs. trace s' = trace s @ evs \<and>
      (\<forall>i c x. i < length evs \<and> evs ! i = Api c x \<longrightarrow> x = E (trace s @ take i evs) c) \<and>
      (\<forall>i c e. i < length evs \<and> evs ! i = Api c (Inl e) \<longrightarrow> Suc i = length evs \<and> r = Inl e)"
    unfolding faithful_def by simp
  then obtain evs where t: "trace s' = trace s @ evs"
    and l: "\<And>i c x. i < length evs \<Longrightarrow> evs ! i = Api c x \<Longrightarrow> x = E (trace s @ take i evs) c"
    and x: "\<And>i c e. i < length evs \<Longrightarrow> evs ! i = Api c (Inl e) \<Longrightarrow> Suc i = length evs \<and> r = Inl e"
    by blast
  from t have "new_events s s' = evs" by (simp add: new_events_def)
  with l x show ?thesis by blast
qed

subsection \<open>Statements that return\<close>

lemma returns_bnd: "returns p \<Longrightarrow> (\<And>v. returns (f v)) \<Longrightarrow> returns (bnd p f)"
  unfolding returns_def
proof (intro allI impI)
  fix s :: state
  assume p: "\<forall>s::state. args s ''level'' \<noteq> None \<longrightarrow> (\<exists>v s'. p s = (Inr v, s') \<and> args s' = args s)"
    and f: "\<And>v. \<forall>s::state. args s ''level'' \<noteq> None \<longrightarrow> (\<exists>w s'. f v s = (Inr w, s') \<and> args s' = args s)"
    and a: "args s ''level'' \<noteq> None"
  from p a obtain v s1 where 1: "p s = (Inr v, s1)" "args s1 = args s" by blast
  with a have "args s1 ''level'' \<noteq> None" by simp
  with f[of v] obtain w s2 where 2: "f v s1 = (Inr w, s2)" "args s2 = args s1" by blast
  from 1 2 show "\<exists>v s'. bnd p f s = (Inr v, s') \<and> args s' = args s"
    by (simp add: bnd_def)
qed

lemma returns_api: "(\<And>h. \<exists>v. E h c = Inr v) \<Longrightarrow> returns (api E c)"
  unfolding returns_def
proof (intro allI impI)
  fix s :: state
  assume "\<And>h. \<exists>v. E h c = Inr v"
  then obtain v where "E (trace s) c = Inr v" by blast
  then show "\<exists>v s'. api E c s = (Inr v, s') \<and> args s' = args s"
    by (simp add: api_def)
qed

lemma returns_ret: "returns (ret v)"
  by (simp add: returns_def ret_def)

lemma returns_assign: "returns (assign_test_success v)"
  by (simp add: returns_def assign_test_success_def)

lemma returns_read: "returns read_test_success"
  by (simp add: returns_def read_test_success_def)

lemma returns_self_args: "returns (self_args ''level'')"
  by (auto simp: returns_def self_args_def split: option.splits)

lemma returns_dict_get: "d k = Some v \<Longrightarrow> returns (dict_get d k)"
  by (simp add: dict_get_def returns_ret)

lemma returns_if: "returns p \<Longrightarrow> returns q \<Longrightarrow> returns (if b then p else q)"
  by simp

lemmas returns_intros = returns_bnd returns_api returns_ret returns_assign returns_read
  returns_self_args returns_dict_get returns_if

lemma returnsD:
  assumes "returns p" "args s ''level'' \<noteq> None"
  obtains v s' where "p s = (Inr v, s')" "args s' = args s"
  using assms unfolding returns_def by blast

lemma demo_engine_returns: "\<exists>v. demo_engine b h c = Inr v"
  by (simp add: demo_engine_def)

lemma returns_run_test_demo: "returns (run_test (demo_engine b))"
  unfolding run_test_def script_defs
  by (intro returns_intros demo_engine_returns) (simp_all add: surface_tags_def)

lemma failing_engine_call: "\<exists>v. failing_engine h (Call f a k) = Inr v"
  "\<exists>v. failing_engine h (Print m) = Inr v"
  "\<exists>v. failing_engine h (Self_log m) = Inr v"
  "\<exists>v. failing_engine h (BusCall EditorComponentAPIBus bk n a) = Inr v"
  by (simp_all add: failing_engine_def)

lemma returns_failing_steps:
  "returns (step1 failing_engine)"
  "returns (step2 failing_engine)"
  "returns (step3 failing_engine sp)"
  "returns (step4 failing_engine)"
  "returns (step5 failing_engine sp)"
  unfolding script_defs
  by (intro returns_intros failing_engine_call; simp add: surface_tags_def)+

lemma step6_failing:
  "step6 failing_engine sp s =
     (Inl (ApiError ''area system unavailable''),
      s\<lparr>trace := trace s @
        [Api (Call General_idle_wait [PyFloat 2] []) (Inr PyNone),
         Api (Call Entity_id [sp] []) (Inr (PyObj 11)),
         Api (BusCall ShapeComponentRequestsBus Event ''GetEncompassingAabb'' [PyObj 11]) (Inr (PyObj 12)),
         Api (BusCall AreaSystemRequestBus Broadcast ''GetInstanceCountInAabb'' [PyObj 12])
           (Inl (ApiError ''area system unavailable''))]\<rparr>)"
  by (simp add: step6_def bnd_def api_def failing_engine_def demo_answer_def)

lemma failing_run:
  "\<exists>s5. run_test failing_engine demo_state =
     (Inl (ApiError ''area system unavailable''),
      s5\<lparr>trace := trace s5 @
        [Api (Call General_idle_wait [PyFloat 2] []) (Inr PyNone),
         Api (Call Entity_id [PyObj 10] []) (Inr (PyObj 11)),
         Api (BusCall ShapeComponentRequestsBus Event ''GetEncompassingAabb'' [PyObj 11]) (Inr (PyObj 12)),
         Api (BusCall AreaSystemRequestBus Broadcast ''GetInstanceCountInAabb'' [PyObj 12])
           (Inl (ApiError ''area system unavailable''))]\<rparr>)"
proof -
  have a0: "args demo_state ''level'' \<noteq> None" by (simp add: demo_state_def)
  from returns_failing_steps(1) a0 obtain u1 s1
    where 1: "step1 failing_engine demo_state = (Inr u1, s1)" "args s1 = args demo_state"
    by (rule returnsD)
  from 1 a0 have a1: "args s1 ''level'' \<noteq> None" by simp
  from returns_failing_steps(2) a1 obtain sp s2
    where 2: "step2 failing_engine s1 = (Inr sp, s2)" "args s2 = args s1"
    by (rule returnsD)
  from 2 a1 have a2: "args s2 ''level'' \<noteq> None" by simp
  from returns_failing_steps(3) a2 obtain u3 s3
    where 3: "step3 failing_engine sp s2 = (Inr u3, s3)" "args s3 = args s2"
    by (rule returnsD)
  from 3 a2 have a3: "args s3 ''level'' \<noteq> None" by simp
  from returns_failing_steps(4) a3 obtain u4 s4
    where 4: "step4 failing_engine s3 = (Inr u4, s4)" "args s4 = args s3"
    by (rule returnsD)
  from 4 a3 have a4: "args s4 ''level'' \<noteq> None" by simp
  from returns_failing_steps(5) a4 obtain u5 s5
    where 5: "step5 failing_engine sp s4 = (Inr u5, s5)" "args s5 = args s4"
    by (rule returnsD)
  have sp: "sp = PyObj 10"
    using 2(1) by (simp add: step2_def bnd_def api_def failing_engine_def demo_answer_def)
  show ?thesis
    by (rule exI[of _ s5])
      (simp add: run_test_def bnd_def 1(1) 2(1) 3(1) 4(1) 5(1) step6_failing sp[symmetric])
qed

section \<open>Exceptions\<close>

text \<open>
  Claim C8. \<^verbatim>\<open>run_test\<close> handles no exception. In every run, each recorded answer is what
  the environment answered at that point, and a call that raised is the last thing the
  script did: its exception is the outcome of \<^verbatim>\<open>run_test\<close>, unchanged.
\<close>

theorem api_exceptions_propagate:
  assumes "run_test E s = (r, s')"
  shows "\<forall>i c x. i < length (new_events s s') \<and> new_events s s' ! i = Api c x \<longrightarrow>
           x = E (trace s @ take i (new_events s s')) c \<and>
           (\<forall>e. x = Inl e \<longrightarrow> r = Inl e \<and> Suc i = length (new_events s s'))"
  using faithful_run_test assms by (rule faithful_new_events)

theorem api_exceptions_propagate_witness:
  "fst (run_test failing_engine demo_state) = Inl (ApiError ''area system unavailable'') \<and>
   last (new_events demo_state (snd (run_test failing_engine demo_state))) =
     Api (BusCall AreaSystemRequestBus Broadcast ''GetInstanceCountInAabb'' [PyObj 12])
       (Inl (ApiError ''area system unavailable''))"
proof -
  define r where "r = fst (run_test failing_engine demo_state)"
  define s' where "s' = snd (run_test failing_engine demo_state)"
  have run: "run_test failing_engine demo_state = (r, s')"
    by (simp add: r_def s'_def)
  from failing_run obtain s5 where "s' = s5\<lparr>trace := trace s5 @
        [Api (Call General_idle_wait [PyFloat 2] []) (Inr PyNone),
         Api (Call Entity_id [PyObj 10] []) (Inr (PyObj 11)),
         Api (BusCall ShapeComponentRequestsBus Event ''GetEncompassingAabb'' [PyObj 11]) (Inr (PyObj 12)),
         Api (BusCall AreaSystemRequestBus Broadcast ''GetInstanceCountInAabb'' [PyObj 12])
           (Inl (ApiError ''area system unavailable''))]\<rparr>"
    unfolding s'_def by auto
  then have ev: "new_events demo_state s' = trace s5 @
        [Api (Call General_idle_wait [PyFloat 2] []) (Inr PyNone),
         Api (Call Entity_id [PyObj 10] []) (Inr (PyObj 11)),
         Api (BusCall ShapeComponentRequestsBus Event ''GetEncompassingAabb'' [PyObj 11]) (Inr (PyObj 12)),
         Api (BusCall AreaSystemRequestBus Broadcast ''GetInstanceCountInAabb'' [PyObj 12])
           (Inl (ApiError ''area system unavailable''))]"
    by (simp add: new_events_def demo_state_def)
  have i: "length (trace s5) + 3 < length (new_events demo_state s')"
    and x: "new_events demo_state s' ! (length (trace s5) + 3) =
      Api (BusCall AreaSystemRequestBus Broadcast ''GetInstanceCountInAabb'' [PyObj 12])
        (Inl (ApiError ''area system unavailable''))"
    by (simp_all add: ev nth_append)
  from api_exceptions_propagate[OF run] i x
  have "r = Inl (ApiError ''area system unavailable'')" by blast
  moreover from ev have "last (new_events demo_state s') =
      Api (BusCall AreaSystemRequestBus Broadcast ''GetInstanceCountInAabb'' [PyObj 12])
        (Inl (ApiError ''area system unavailable''))"
    by simp
  ultimately show ?thesis by (simp add: r_def s'_def)
qed

subsection \<open>The trace only grows, and \<^verbatim>\<open>self.test_success\<close> holds the last store\<close>

lemma tracks_bnd:
  assumes p: "tracks p" and f: "\<And>v. tracks (f v)"
  shows "tracks (bnd p f)"
  unfolding tracks_def
proof (intro allI impI)
  fix s r s'
  assume "bnd p f s = (r, s')"
  then show "\<exists>evs. trace s' = trace s @ evs \<and> args s' = args s \<and>
      test_success s' = last (test_success s # assigns evs)"
  proof (cases rule: bnd_cases)
    case (fails e)
    with p show ?thesis unfolding tracks_def by blast
  next
    case (continues v s1)
    from p continues(1) obtain evs1 where 1: "trace s1 = trace s @ evs1" "args s1 = args s"
      "test_success s1 = last (test_success s # assigns evs1)"
      unfolding tracks_def by blast
    from f[of v] continues(2) obtain evs2 where 2: "trace s' = trace s1 @ evs2" "args s' = args s1"
      "test_success s' = last (test_success s1 # assigns evs2)"
      unfolding tracks_def by blast
    from 1 2 show ?thesis
      by (intro exI[of _ "evs1 @ evs2"]) (simp add: assigns_append last_Cons_append)
  qed
qed

lemma tracks_api: "tracks (api E c)"
  by (simp add: tracks_def api_def assigns_append)

lemma tracks_ret: "tracks (ret v)"
  by (simp add: tracks_def ret_def)

lemma tracks_raise: "tracks (raise e)"
  by (simp add: tracks_def raise_def)

lemma tracks_assign: "tracks (assign_test_success v)"
  by (simp add: tracks_def assign_test_success_def assigns_append)

lemma tracks_read: "tracks read_test_success"
  by (simp add: tracks_def read_test_success_def)

lemma tracks_self_args: "tracks (self_args k)"
  unfolding tracks_def self_args_def
  by (intro allI impI exI[of _ "[]"]) (auto split: option.splits)

lemma tracks_dict_get: "tracks (dict_get d k)"
  by (simp add: dict_get_def tracks_ret tracks_raise split: option.splits)

lemma tracks_if: "tracks p \<Longrightarrow> tracks q \<Longrightarrow> tracks (if b then p else q)"
  by simp

lemmas tracks_intros = tracks_bnd tracks_api tracks_ret tracks_raise tracks_assign
  tracks_read tracks_self_args tracks_dict_get tracks_if

lemma tracks_script:
  "tracks (update_generated_surface_tag E a b c)"
  "tracks (update_surface_tag_inclusion_list E a b c)"
  "tracks (step1 E)" "tracks (step2 E)" "tracks (step3 E sp)" "tracks (step4 E)"
  "tracks (step5 E sp)" "tracks (step6 E sp)" "tracks (step7 E sp box)"
  unfolding script_defs by (intro tracks_intros)+

lemma tracks_run_test: "tracks (run_test E)"
  unfolding run_test_def by (intro tracks_intros tracks_script)

lemma tracksD:
  assumes "tracks p" "p s = (r, s')"
  shows "trace s' = trace s @ new_events s s'"
    and "args s' = args s"
    and "test_success s' = last (test_success s # assigns (new_events s s'))"
proof -
  from assms obtain evs where e: "trace s' = trace s @ evs" "args s' = args s"
    "test_success s' = last (test_success s # assigns evs)"
    unfolding tracks_def by blast
  then have "new_events s s' = evs" by (simp add: new_events_def)
  with e show "trace s' = trace s @ new_events s s'" "args s' = args s"
    "test_success s' = last (test_success s # assigns (new_events s s'))" by simp_all
qed

lemma new_events_eq: "trace s' = trace s @ evs \<Longrightarrow> new_events s s' = evs"
  by (simp add: new_events_def)

lemma new_events_trans:
  assumes "trace s1 = trace s @ new_events s s1" "trace s2 = trace s1 @ new_events s1 s2"
  shows "new_events s s2 = new_events s s1 @ new_events s1 s2"
    and "trace s2 = trace s @ new_events s s2"
proof -
  from assms have e: "trace s2 = trace s @ (new_events s s1 @ new_events s1 s2)"
    by (metis append.assoc)
  then show "new_events s s2 = new_events s s1 @ new_events s1 s2"
    by (rule new_events_eq)
  with e show "trace s2 = trace s @ new_events s s2" by simp
qed

subsection \<open>Counting events of one kind\<close>

lemma at_most_bnd:
  assumes p: "at_most P a p" and f: "\<And>v. at_most P b (f v)"
  shows "at_most P (a + b) (bnd p f)"
  unfolding at_most_def
proof (intro allI impI)
  fix s r s'
  assume "bnd p f s = (r, s')"
  then show "\<exists>evs. trace s' = trace s @ evs \<and> length (filter P evs) \<le> a + b"
  proof (cases rule: bnd_cases)
    case (fails e)
    with p obtain evs where "trace s' = trace s @ evs" "length (filter P evs) \<le> a"
      unfolding at_most_def by blast
    then show ?thesis by (intro exI[of _ evs]) simp
  next
    case (continues v s1)
    from p continues(1) obtain evs1 where 1: "trace s1 = trace s @ evs1" "length (filter P evs1) \<le> a"
      unfolding at_most_def by blast
    from f[of v] continues(2) obtain evs2 where 2: "trace s' = trace s1 @ evs2"
      "length (filter P evs2) \<le> b"
      unfolding at_most_def by blast
    from 1 2 show ?thesis by (intro exI[of _ "evs1 @ evs2"]) simp
  qed
qed

lemma none_bnd: "at_most P 0 p \<Longrightarrow> (\<And>v. at_most P 0 (f v)) \<Longrightarrow> at_most P 0 (bnd p f)"
  using at_most_bnd[of P 0 p 0 f] by simp

lemma none_api: "(\<And>r. \<not> P (Api c r)) \<Longrightarrow> at_most P 0 (api E c)"
  by (simp add: at_most_def api_def)

lemma one_api: "at_most P (Suc 0) (api E c)"
  by (simp add: at_most_def api_def)

lemma none_ret: "at_most P 0 (ret v)"
  by (simp add: at_most_def ret_def)

lemma none_raise: "at_most P 0 (raise e)"
  by (simp add: at_most_def raise_def)

lemma none_assign: "\<not> P (Assign_test_success v) \<Longrightarrow> at_most P 0 (assign_test_success v)"
  by (simp add: at_most_def assign_test_success_def)

lemma none_read: "at_most P 0 read_test_success"
  by (simp add: at_most_def read_test_success_def)

lemma none_self_args: "at_most P 0 (self_args k)"
  unfolding at_most_def self_args_def
  by (intro allI impI exI[of _ "[]"]) (auto split: option.splits)

lemma none_dict_get: "at_most P 0 (dict_get d k)"
  by (simp add: dict_get_def none_ret none_raise split: option.splits)

lemma none_if: "at_most P 0 p \<Longrightarrow> at_most P 0 q \<Longrightarrow> at_most P 0 (if b then p else q)"
  by simp

lemmas none_intros = none_bnd none_api none_ret none_raise none_assign none_read
  none_self_args none_dict_get none_if

lemma at_mostD:
  assumes "at_most P n p" "p s = (r, s')"
  shows "length (filter P (new_events s s')) \<le> n"
proof -
  from assms obtain evs where "trace s' = trace s @ evs" "length (filter P evs) \<le> n"
    unfolding at_most_def by blast
  then show ?thesis by (simp add: new_events_def)
qed

lemma no_count_script:
  "at_most is_count_query 0 (update_generated_surface_tag E a b c)"
  "at_most is_count_query 0 (update_surface_tag_inclusion_list E a b c)"
  "at_most is_count_query 0 (step1 E)" "at_most is_count_query 0 (step2 E)"
  "at_most is_count_query 0 (step3 E sp)" "at_most is_count_query 0 (step4 E)"
  "at_most is_count_query 0 (step5 E sp)"
  unfolding script_defs by (intro none_intros; simp)+

lemma no_assign_script:
  "at_most is_assign 0 (update_generated_surface_tag E a b c)"
  "at_most is_assign 0 (update_surface_tag_inclusion_list E a b c)"
  "at_most is_assign 0 (step2 E)"
  "at_most is_assign 0 (step3 E sp)" "at_most is_assign 0 (step4 E)"
  "at_most is_assign 0 (step5 E sp)"
  unfolding script_defs by (intro none_intros; simp)+

subsection \<open>The events of each part of the script when it returns\<close>

lemmas complete_simps = bnd_Inr api_Inr ret_Inr read_test_success_def assign_test_success_def
  self_args_def dict_get_def surface_tags_def new_events_def

lemma if_api: "(if b then api E c1 else api E c2) = api E (if b then c1 else c2)"
  by simp

lemma update_generated_complete:
  assumes "update_generated_surface_tag E ent idx tag s = (Inr u, s')"
  shows "\<exists>t g c w nv l. new_events s s' =
      [Api (Call Surface_data_SurfaceTag [] []) (Inr t),
       Api (Call Hydra_get_set_test [ent, idx, PyStr ''Configuration|Generated Tags'', PyList [t]] [])
         (Inr g),
       Api (Call Entity_components_getitem [ent, idx] []) (Inr c),
       Api (BusCall EditorComponentAPIBus Broadcast ''SetComponentProperty''
              [c, PyStr ''Configuration|Generated Tags|[0]|Surface Tag'', tag]) (Inr w),
       Api (Call Hydra_get_component_property_value
              [c, PyStr ''Configuration|Generated Tags|[0]|Surface Tag''] []) (Inr nv),
       Api (if py_eq nv tag
            then Self_log [Lit ''Generated surface tag of '', Interp tag, Lit '' is added successfully'']
            else Self_log [Lit ''Failed to add Generated surface tag of '', Interp tag]) (Inr l)]"
  using assms
  by (auto simp: update_generated_surface_tag_def complete_simps if_api split del: if_split)

lemma update_inclusion_complete:
  assumes "update_surface_tag_inclusion_list E ent idx tag s = (Inr u, s')"
  shows "\<exists>t g c w nv l d. new_events s s' =
      [Api (Call Surface_data_SurfaceTag [] []) (Inr t),
       Api (Call Hydra_get_set_test
              [ent, idx, PyStr ''Configuration|Inclusion|Surface Tags'', PyList [t]] []) (Inr g),
       Api (Call Entity_components_getitem [ent, idx] []) (Inr c),
       Api (BusCall EditorComponentAPIBus Broadcast ''SetComponentProperty''
              [c, PyStr ''Configuration|Inclusion|Surface Tags|[0]|Surface Tag'', tag]) (Inr w),
       Api (Call Hydra_get_component_property_value
              [c, PyStr ''Configuration|Inclusion|Surface Tags|[0]|Surface Tag''] []) (Inr nv),
       Api (if py_eq nv tag
            then Print [Lit ''Inclusive surface mask filter of terrainHole is added successfully'']
            else Print [Lit ''Failed to add an Inclusive surface mask filter of terrainHole'']) (Inr l),
       Api (Call General_idle_wait [PyFloat 2] []) (Inr d)]"
  using assms
  by (auto simp: update_surface_tag_inclusion_list_def complete_simps if_api split del: if_split)

lemma step1_complete:
  assumes "step1 E s = (Inr u, s')"
  shows "\<exists>level cl v. args s ''level'' = Some level \<and> new_events s s' =
      [Api (Call Self_create_level [level]
              [(''heightmap_resolution'', PyInt 1024),
               (''heightmap_meters_per_pixel'', PyInt 1),
               (''terrain_texture_resolution'', PyInt 4096),
               (''use_terrain'', PyBool False)]) (Inr cl),
       Assign_test_success cl,
       Api (Call General_set_current_view_position [PyFloat 512, PyFloat 480, PyFloat 38] []) (Inr v)]
     \<and> test_success s' = cl"
  using assms
  by (auto simp: step1_def complete_simps split: option.splits)

lemma step2_complete:
  assumes "step2 E s = (Inr sp, s')"
  shows "\<exists>pos path. new_events s s' =
      [Api (Call Math_Vector3 [PyFloat 512, PyFloat 512, PyFloat 32] []) (Inr pos),
       Api (Call Os_path_join [PyStr ''Slices'', PyStr ''PurpleFlower.dynamicslice''] []) (Inr path),
       Api (Call Dynveg_create_vegetation_area
              [PyStr ''Instance Spawner'', pos, PyFloat 10, PyFloat 10, PyFloat 10, path] []) (Inr sp)]"
  using assms
  by (auto simp: step2_def complete_simps)

lemma step3_complete:
  assumes "step3 E sp s = (Inr u, s')"
  shows "\<exists>v. new_events s s' =
      [Api (Call Entity_add_component [sp, PyStr ''Vegetation Surface Mask Filter''] []) (Inr v)]"
  using assms
  by (auto simp: step3_def complete_simps)

lemma step5_complete:
  assumes "step5 E sp s = (Inr u, s')"
  shows "\<exists>t g c w nv l d. new_events s s' =
      [Api (Call Surface_data_SurfaceTag [] []) (Inr t),
       Api (Call Hydra_get_set_test
              [sp, PyInt 3, PyStr ''Configuration|Inclusion|Surface Tags'', PyList [t]] []) (Inr g),
       Api (Call Entity_components_getitem [sp, PyInt 3] []) (Inr c),
       Api (BusCall EditorComponentAPIBus Broadcast ''SetComponentProperty''
              [c, PyStr ''Configuration|Inclusion|Surface Tags|[0]|Surface Tag'', PyInt 1327698037])
         (Inr w),
       Api (Call Hydra_get_component_property_value
              [c, PyStr ''Configuration|Inclusion|Surface Tags|[0]|Surface Tag''] []) (Inr nv),
       Api (if py_eq nv (PyInt 1327698037)
            then Print [Lit ''Inclusive surface mask filter of terrainHole is added successfully'']
            else Print [Lit ''Failed to add an Inclusive surface mask filter of terrainHole'']) (Inr l),
       Api (Call General_idle_wait [PyFloat 2] []) (Inr d)]"
proof -
  from assms have "update_surface_tag_inclusion_list E sp (PyInt 3) (PyInt 1327698037) s = (Inr u, s')"
    by (simp add: step5_def dict_get_def surface_tags_def bnd_Inr ret_Inr)
  then show ?thesis by (rule update_inclusion_complete)
qed

lemma step6_complete:
  assumes "step6 E sp s = (Inr box, s')"
  shows "\<exists>w i n l. new_events s s' =
      [Api (Call General_idle_wait [PyFloat 2] []) (Inr w),
       Api (Call Entity_id [sp] []) (Inr i),
       Api (BusCall ShapeComponentRequestsBus Event ''GetEncompassingAabb'' [i]) (Inr box),
       Api (BusCall AreaSystemRequestBus Broadcast ''GetInstanceCountInAabb'' [box]) (Inr n),
       Api (Self_log [Lit ''Expected '', Interp (PyInt 130), Lit '' instances - Found '',
                      Interp n, Lit '' instances'']) (Inr l),
       Assign_test_success (py_and (test_success s) (PyBool (py_eq n (PyInt 130))))]
     \<and> test_success s' = py_and (test_success s) (PyBool (py_eq n (PyInt 130)))"
  using assms
  by (auto simp: step6_def complete_simps)

lemma step7_complete:
  assumes "step7 E sp box s = (Inr u, s')"
  shows "\<exists>g w n l. new_events s s' =
      [Api (Call Hydra_get_set_test
              [sp, PyInt 3, PyStr ''Configuration|Inclusion|Weight Max'', PyFloat float_0_9] []) (Inr g),
       Api (Call General_idle_wait [PyFloat 2] []) (Inr w),
       Api (BusCall AreaSystemRequestBus Broadcast ''GetInstanceCountInAabb'' [box]) (Inr n),
       Api (Self_log [Lit ''Expected '', Interp (PyInt 0), Lit '' instances - Found '',
                      Interp n, Lit '' instances'']) (Inr l),
       Assign_test_success (py_and (test_success s) (PyBool (py_eq n (PyInt 0))))]
     \<and> test_success s' = py_and (test_success s) (PyBool (py_eq n (PyInt 0)))"
  using assms
  by (auto simp: step7_def complete_simps)

lemma step4_complete:
  assumes "step4 E s = (Inr u, s')"
  shows "\<exists>p1 e1 t1 g1 c1 w1 nv1 l1 p2 e2 t2 g2 c2 w2 nv2 l2. new_events s s' =
      [Api (Call Math_Vector3 [PyFloat 510, PyFloat 512, PyFloat 32] []) (Inr p1),
       Api (Call Dynveg_create_surface_entity
              [PyStr ''Surface Entity 1'', p1, PyFloat 10, PyFloat 10, PyFloat 1] []) (Inr e1),
       Api (Call Surface_data_SurfaceTag [] []) (Inr t1),
       Api (Call Hydra_get_set_test
              [e1, PyInt 1, PyStr ''Configuration|Generated Tags'', PyList [t1]] []) (Inr g1),
       Api (Call Entity_components_getitem [e1, PyInt 1] []) (Inr c1),
       Api (BusCall EditorComponentAPIBus Broadcast ''SetComponentProperty''
              [c1, PyStr ''Configuration|Generated Tags|[0]|Surface Tag'', PyInt 1327698037]) (Inr w1),
       Api (Call Hydra_get_component_property_value
              [c1, PyStr ''Configuration|Generated Tags|[0]|Surface Tag''] []) (Inr nv1),
       Api (if py_eq nv1 (PyInt 1327698037)
            then Self_log [Lit ''Generated surface tag of '', Interp (PyInt 1327698037),
                           Lit '' is added successfully'']
            else Self_log [Lit ''Failed to add Generated surface tag of '',
                           Interp (PyInt 1327698037)]) (Inr l1),
       Api (Call Math_Vector3 [PyFloat 520, PyFloat 512, PyFloat 32] []) (Inr p2),
       Api (Call Dynveg_create_surface_entity
              [PyStr ''Surface Entity 2'', p2, PyFloat 10, PyFloat 10, PyFloat 1] []) (Inr e2),
       Api (Call Surface_data_SurfaceTag [] []) (Inr t2),
       Api (Call Hydra_get_set_test
              [e2, PyInt 1, PyStr ''Configuration|Generated Tags'', PyList [t2]] []) (Inr g2),
       Api (Call Entity_components_getitem [e2, PyInt 1] []) (Inr c2),
       Api (BusCall EditorComponentAPIBus Broadcast ''SetComponentProperty''
              [c2, PyStr ''Configuration|Generated Tags|[0]|Surface Tag'', PyInt 3363197873]) (Inr w2),
       Api (Call Hydra_get_component_property_value
              [c2, PyStr ''Configuration|Generated Tags|[0]|Surface Tag''] []) (Inr nv2),
       Api (if py_eq nv2 (PyInt 3363197873)
            then Self_log [Lit ''Generated surface tag of '', Interp (PyInt 3363197873),
                           Lit '' is added successfully'']
            else Self_log [Lit ''Failed to add Generated surface tag of '',
                           Interp (PyInt 3363197873)]) (Inr l2)]"
  using assms
  by (auto simp: step4_def update_generated_surface_tag_def complete_simps if_api
      split del: if_split)

lemma run_test_complete:
  assumes "run_test E s = (Inr u, s')"
  obtains s1 sp s2 s3 s4 s5 box s6 where
    "step1 E s = (Inr (), s1)" "step2 E s1 = (Inr sp, s2)" "step3 E sp s2 = (Inr (), s3)"
    "step4 E s3 = (Inr (), s4)" "step5 E sp s4 = (Inr (), s5)" "step6 E sp s5 = (Inr box, s6)"
    "step7 E sp box s6 = (Inr (), s')"
    "new_events s s' = new_events s s1 @ new_events s1 s2 @ new_events s2 s3 @ new_events s3 s4 @
       new_events s4 s5 @ new_events s5 s6 @ new_events s6 s'"
proof -
  from assms obtain s1 sp s2 s3 s4 s5 box s6 where st:
    "step1 E s = (Inr (), s1)" "step2 E s1 = (Inr sp, s2)" "step3 E sp s2 = (Inr (), s3)"
    "step4 E s3 = (Inr (), s4)" "step5 E sp s4 = (Inr (), s5)" "step6 E sp s5 = (Inr box, s6)"
    "step7 E sp box s6 = (Inr (), s')"
    by (auto simp: run_test_def bnd_Inr)
  note t1 = tracksD(1)[OF tracks_script(3) st(1)]
  note t2 = new_events_trans[OF t1 tracksD(1)[OF tracks_script(4) st(2)]]
  note t3 = new_events_trans[OF t2(2) tracksD(1)[OF tracks_script(5) st(3)]]
  note t4 = new_events_trans[OF t3(2) tracksD(1)[OF tracks_script(6) st(4)]]
  note t5 = new_events_trans[OF t4(2) tracksD(1)[OF tracks_script(7) st(5)]]
  note t6 = new_events_trans[OF t5(2) tracksD(1)[OF tracks_script(8) st(6)]]
  note t7 = new_events_trans[OF t6(2) tracksD(1)[OF tracks_script(9) st(7)]]
  have "new_events s s' = new_events s s1 @ new_events s1 s2 @ new_events s2 s3 @ new_events s3 s4 @
       new_events s4 s5 @ new_events s5 s6 @ new_events s6 s'"
    by (simp add: t7(1) t6(1) t5(1) t4(1) t3(1) t2(1))
  with st show ?thesis by (rule that)
qed

lemma no_events:
  assumes "at_most P 0 p" "p s = (r, s')"
  shows "filter P (new_events s s') = []"
  using at_mostD[OF assms] by simp

lemma frame:
  assumes "at_most is_assign 0 p" "tracks p" "p s = (r, s')"
  shows "assigns (new_events s s') = []" and "test_success s' = test_success s"
proof -
  from no_events[OF assms(1,3)] show a: "assigns (new_events s s') = []"
    by (rule assigns_filter)
  from tracksD(3)[OF assms(2,3)] a show "test_success s' = test_success s" by simp
qed

lemma no_weight_max_script:
  "at_most (sets_property ''Configuration|Inclusion|Weight Max'') 0 (step1 E)"
  "at_most (sets_property ''Configuration|Inclusion|Weight Max'') 0 (step2 E)"
  "at_most (sets_property ''Configuration|Inclusion|Weight Max'') 0 (step3 E sp)"
  "at_most (sets_property ''Configuration|Inclusion|Weight Max'') 0 (step4 E)"
  "at_most (sets_property ''Configuration|Inclusion|Weight Max'') 0 (step5 E sp)"
  "at_most (sets_property ''Configuration|Inclusion|Weight Max'') 0 (step6 E sp)"
  unfolding script_defs by (intro none_intros; simp)+

lemma demo_run_returns:
  obtains s' where "run_test (demo_engine b) demo_state = (Inr (), s')"
    "snd (demo_run b) = s'" "fst (demo_run b) = Inr ()"
proof -
  have "args demo_state ''level'' \<noteq> None" by (simp add: demo_state_def)
  with returns_run_test_demo obtain v s'
    where "run_test (demo_engine b) demo_state = (Inr v, s')"
    by (rule returnsD)
  then show ?thesis by (intro that[of s']) (simp_all add: demo_run_def)
qed

lemma py_and_truthy: "py_truthy (py_and a (PyBool b)) \<longleftrightarrow> py_truthy a \<and> b"
  by (simp add: py_and_def)

lemma py_eq_int: "py_eq (PyInt m) (PyInt k) \<longleftrightarrow> m = k"
  by simp

section \<open>The two checks of the instance count\<close>

text \<open>
  Claim C1. In a run of \<^verbatim>\<open>run_test\<close> that returns, the events before the first count
  check are exactly the thirty listed below, and nothing else. The only calls among them
  that set a component property are the six of the second list: on each surface entity
  the generated tags, and on component 3 of the spawner, the surface mask filter added
  just before, first \<^verbatim>\<open>get_set_test\<close> of the inclusion list to one new \<^verbatim>\<open>SurfaceTag()\<close> and
  last \<^verbatim>\<open>SetComponentProperty\<close> of its element 0 to the terrainHole tag (1327698037).
  So at the first check the last write to the inclusion list is the terrainHole tag, and
  no Inclusion Weight (neither Weight Min nor Weight Max) has been set. The check itself:
  after an \<^verbatim>\<open>idle_wait(2.0)\<close> the script reads the spawner's id, queries
  \<^verbatim>\<open>GetEncompassingAabb\<close> for it, queries \<^verbatim>\<open>GetInstanceCountInAabb\<close> over the box it got,
  logs, and stores \<^verbatim>\<open>test_success and num_found == 130\<close>. The stored value is true exactly
  when the value before (the result of \<^verbatim>\<open>create_level\<close>) was true and the count equals 130.
\<close>

theorem first_count_check_expects_130:
  assumes "run_test E s = (Inr u, s')"
  shows "\<exists>pre post cl a sp c r0 w i box n l level v pos path ad p1 e1 t1 g1 c1 w1 nv1 l1
      p2 e2 t2 g2 c2 w2 nv2 l2 t3 g3 nv3 l3 d3.
     new_events s s' = pre @
       [Api (Call General_idle_wait [PyFloat 2] []) (Inr w),
        Api (Call Entity_id [sp] []) (Inr i),
        Api (BusCall ShapeComponentRequestsBus Event ''GetEncompassingAabb'' [i]) (Inr box),
        Api (BusCall AreaSystemRequestBus Broadcast ''GetInstanceCountInAabb'' [box]) (Inr n),
        Api (Self_log [Lit ''Expected '', Interp (PyInt 130), Lit '' instances - Found '',
                       Interp n, Lit '' instances'']) (Inr l),
        Assign_test_success (py_and cl (PyBool (py_eq n (PyInt 130))))] @ post
     \<and> pre =
      [Api (Call Self_create_level [level]
              [(''heightmap_resolution'', PyInt 1024),
               (''heightmap_meters_per_pixel'', PyInt 1),
               (''terrain_texture_resolution'', PyInt 4096),
               (''use_terrain'', PyBool False)]) (Inr cl),
       Assign_test_success cl,
       Api (Call General_set_current_view_position [PyFloat 512, PyFloat 480, PyFloat 38] []) (Inr v),
       Api (Call Math_Vector3 [PyFloat 512, PyFloat 512, PyFloat 32] []) (Inr pos),
       Api (Call Os_path_join [PyStr ''Slices'', PyStr ''PurpleFlower.dynamicslice''] []) (Inr path),
       Api (Call Dynveg_create_vegetation_area
              [PyStr ''Instance Spawner'', pos, PyFloat 10, PyFloat 10, PyFloat 10, path] []) (Inr sp),
       Api (Call Entity_add_component [sp, PyStr ''Vegetation Surface Mask Filter''] []) (Inr ad),
       Api (Call Math_Vector3 [PyFloat 510, PyFloat 512, PyFloat 32] []) (Inr p1),
       Api (Call Dynveg_create_surface_entity
              [PyStr ''Surface Entity 1'', p1, PyFloat 10, PyFloat 10, PyFloat 1] []) (Inr e1),
       Api (Call Surface_data_SurfaceTag [] []) (Inr t1),
       Api (Call Hydra_get_set_test
              [e1, PyInt 1, PyStr ''Configuration|Generated Tags'', PyList [t1]] []) (Inr g1),
       Api (Call Entity_components_getitem [e1, PyInt 1] []) (Inr c1),
       Api (BusCall EditorComponentAPIBus Broadcast ''SetComponentProperty''
              [c1, PyStr ''Configuration|Generated Tags|[0]|Surface Tag'', PyInt 1327698037]) (Inr w1),
       Api (Call Hydra_get_component_property_value
              [c1, PyStr ''Configuration|Generated Tags|[0]|Surface Tag''] []) (Inr nv1),
       Api (if py_eq nv1 (PyInt 1327698037)
            then Self_log [Lit ''Generated surface tag of '', Interp (PyInt 1327698037),
                           Lit '' is added successfully'']
            else Self_log [Lit ''Failed to add Generated surface tag of '',
                           Interp (PyInt 1327698037)]) (Inr l1),
       Api (Call Math_Vector3 [PyFloat 520, PyFloat 512, PyFloat 32] []) (Inr p2),
       Api (Call Dynveg_create_surface_entity
              [PyStr ''Surface Entity 2'', p2, PyFloat 10, PyFloat 10, PyFloat 1] []) (Inr e2),
       Api (Call Surface_data_SurfaceTag [] []) (Inr t2),
       Api (Call Hydra_get_set_test
              [e2, PyInt 1, PyStr ''Configuration|Generated Tags'', PyList [t2]] []) (Inr g2),
       Api (Call Entity_components_getitem [e2, PyInt 1] []) (Inr c2),
       Api (BusCall EditorComponentAPIBus Broadcast ''SetComponentProperty''
              [c2, PyStr ''Configuration|Generated Tags|[0]|Surface Tag'', PyInt 3363197873]) (Inr w2),
       Api (Call Hydra_get_component_property_value
              [c2, PyStr ''Configuration|Generated Tags|[0]|Surface Tag''] []) (Inr nv2),
       Api (if py_eq nv2 (PyInt 3363197873)
            then Self_log [Lit ''Generated surface tag of '', Interp (PyInt 3363197873),
                           Lit '' is added successfully'']
            else Self_log [Lit ''Failed to add Generated surface tag of '',
                           Interp (PyInt 3363197873)]) (Inr l2),
       Api (Call Surface_data_SurfaceTag [] []) (Inr t3),
       Api (Call Hydra_get_set_test
              [sp, PyInt 3, PyStr ''Configuration|Inclusion|Surface Tags'', PyList [t3]] []) (Inr g3),
       Api (Call Entity_components_getitem [sp, PyInt 3] []) (Inr c),
       Api (BusCall EditorComponentAPIBus Broadcast ''SetComponentProperty''
              [c, PyStr ''Configuration|Inclusion|Surface Tags|[0]|Surface Tag'', PyInt 1327698037])
         (Inr r0),
       Api (Call Hydra_get_component_property_value
              [c, PyStr ''Configuration|Inclusion|Surface Tags|[0]|Surface Tag''] []) (Inr nv3),
       Api (if py_eq nv3 (PyInt 1327698037)
            then Print [Lit ''Inclusive surface mask filter of terrainHole is added successfully'']
            else Print [Lit ''Failed to add an Inclusive surface mask filter of terrainHole'']) (Inr l3),
       Api (Call General_idle_wait [PyFloat 2] []) (Inr d3)]
     \<and> filter is_property_write pre =
      [Api (Call Hydra_get_set_test
              [e1, PyInt 1, PyStr ''Configuration|Generated Tags'', PyList [t1]] []) (Inr g1),
       Api (BusCall EditorComponentAPIBus Broadcast ''SetComponentProperty''
              [c1, PyStr ''Configuration|Generated Tags|[0]|Surface Tag'', PyInt 1327698037]) (Inr w1),
       Api (Call Hydra_get_set_test
              [e2, PyInt 1, PyStr ''Configuration|Generated Tags'', PyList [t2]] []) (Inr g2),
       Api (BusCall EditorComponentAPIBus Broadcast ''SetComponentProperty''
              [c2, PyStr ''Configuration|Generated Tags|[0]|Surface Tag'', PyInt 3363197873]) (Inr w2),
       Api (Call Hydra_get_set_test
              [sp, PyInt 3, PyStr ''Configuration|Inclusion|Surface Tags'', PyList [t3]] []) (Inr g3),
       Api (BusCall EditorComponentAPIBus Broadcast ''SetComponentProperty''
              [c, PyStr ''Configuration|Inclusion|Surface Tags|[0]|Surface Tag'', PyInt 1327698037])
         (Inr r0)]
     \<and> filter (sets_property ''Configuration|Inclusion|Weight Min'') pre = []
     \<and> assigns pre = [cl]
     \<and> filter is_count_query pre = []
     \<and> filter (sets_property ''Configuration|Inclusion|Weight Max'') pre = []
     \<and> Api (Call Dynveg_create_vegetation_area a []) (Inr sp) \<in> set pre
     \<and> Api (Call Entity_components_getitem [sp, PyInt 3] []) (Inr c) \<in> set pre
     \<and> Api (BusCall EditorComponentAPIBus Broadcast ''SetComponentProperty''
              [c, PyStr ''Configuration|Inclusion|Surface Tags|[0]|Surface Tag'', PyInt 1327698037])
           (Inr r0) \<in> set pre
     \<and> (py_truthy (py_and cl (PyBool (py_eq n (PyInt 130)))) \<longleftrightarrow>
          py_truthy cl \<and> py_eq n (PyInt 130))
     \<and> (\<forall>m. n = PyInt m \<longrightarrow> (py_eq n (PyInt 130) \<longleftrightarrow> m = 130))"
proof -
  from assms obtain s1 sp s2 s3 s4 s5 box s6 where st:
    "step1 E s = (Inr (), s1)" "step2 E s1 = (Inr sp, s2)" "step3 E sp s2 = (Inr (), s3)"
    "step4 E s3 = (Inr (), s4)" "step5 E sp s4 = (Inr (), s5)" "step6 E sp s5 = (Inr box, s6)"
    "step7 E sp box s6 = (Inr (), s')"
    and ev: "new_events s s' = new_events s s1 @ new_events s1 s2 @ new_events s2 s3 @
       new_events s3 s4 @ new_events s4 s5 @ new_events s5 s6 @ new_events s6 s'"
    by (rule run_test_complete)
  from step1_complete[OF st(1)] obtain level cl v where n1: "new_events s s1 =
      [Api (Call Self_create_level [level]
              [(''heightmap_resolution'', PyInt 1024),
               (''heightmap_meters_per_pixel'', PyInt 1),
               (''terrain_texture_resolution'', PyInt 4096),
               (''use_terrain'', PyBool False)]) (Inr cl),
       Assign_test_success cl,
       Api (Call General_set_current_view_position [PyFloat 512, PyFloat 480, PyFloat 38] []) (Inr v)]"
    and ts1: "test_success s1 = cl"
    by blast
  note f2 = frame[OF no_assign_script(3) tracks_script(4) st(2)]
  note f3 = frame[OF no_assign_script(4) tracks_script(5) st(3)]
  note f4 = frame[OF no_assign_script(5) tracks_script(6) st(4)]
  note f5 = frame[OF no_assign_script(6) tracks_script(7) st(5)]
  from ts1 f2(2) f3(2) f4(2) f5(2) have ts5: "test_success s5 = cl" by simp
  from step2_complete[OF st(2)] obtain pos path where n2: "new_events s1 s2 =
      [Api (Call Math_Vector3 [PyFloat 512, PyFloat 512, PyFloat 32] []) (Inr pos),
       Api (Call Os_path_join [PyStr ''Slices'', PyStr ''PurpleFlower.dynamicslice''] []) (Inr path),
       Api (Call Dynveg_create_vegetation_area
              [PyStr ''Instance Spawner'', pos, PyFloat 10, PyFloat 10, PyFloat 10, path] []) (Inr sp)]"
    by blast
  from step3_complete[OF st(3)] obtain ad where n3: "new_events s2 s3 =
      [Api (Call Entity_add_component [sp, PyStr ''Vegetation Surface Mask Filter''] []) (Inr ad)]"
    by blast
  from step4_complete[OF st(4)] obtain p1 e1 t1 g1 c1 w1 nv1 l1 p2 e2 t2 g2 c2 w2 nv2 l2
    where n4: "new_events s3 s4 =
      [Api (Call Math_Vector3 [PyFloat 510, PyFloat 512, PyFloat 32] []) (Inr p1),
       Api (Call Dynveg_create_surface_entity
              [PyStr ''Surface Entity 1'', p1, PyFloat 10, PyFloat 10, PyFloat 1] []) (Inr e1),
       Api (Call Surface_data_SurfaceTag [] []) (Inr t1),
       Api (Call Hydra_get_set_test
              [e1, PyInt 1, PyStr ''Configuration|Generated Tags'', PyList [t1]] []) (Inr g1),
       Api (Call Entity_components_getitem [e1, PyInt 1] []) (Inr c1),
       Api (BusCall EditorComponentAPIBus Broadcast ''SetComponentProperty''
              [c1, PyStr ''Configuration|Generated Tags|[0]|Surface Tag'', PyInt 1327698037]) (Inr w1),
       Api (Call Hydra_get_component_property_value
              [c1, PyStr ''Configuration|Generated Tags|[0]|Surface Tag''] []) (Inr nv1),
       Api (if py_eq nv1 (PyInt 1327698037)
            then Self_log [Lit ''Generated surface tag of '', Interp (PyInt 1327698037),
                           Lit '' is added successfully'']
            else Self_log [Lit ''Failed to add Generated surface tag of '',
                           Interp (PyInt 1327698037)]) (Inr l1),
       Api (Call Math_Vector3 [PyFloat 520, PyFloat 512, PyFloat 32] []) (Inr p2),
       Api (Call Dynveg_create_surface_entity
              [PyStr ''Surface Entity 2'', p2, PyFloat 10, PyFloat 10, PyFloat 1] []) (Inr e2),
       Api (Call Surface_data_SurfaceTag [] []) (Inr t2),
       Api (Call Hydra_get_set_test
              [e2, PyInt 1, PyStr ''Configuration|Generated Tags'', PyList [t2]] []) (Inr g2),
       Api (Call Entity_components_getitem [e2, PyInt 1] []) (Inr c2),
       Api (BusCall EditorComponentAPIBus Broadcast ''SetComponentProperty''
              [c2, PyStr ''Configuration|Generated Tags|[0]|Surface Tag'', PyInt 3363197873]) (Inr w2),
       Api (Call Hydra_get_component_property_value
              [c2, PyStr ''Configuration|Generated Tags|[0]|Surface Tag''] []) (Inr nv2),
       Api (if py_eq nv2 (PyInt 3363197873)
            then Self_log [Lit ''Generated surface tag of '', Interp (PyInt 3363197873),
                           Lit '' is added successfully'']
            else Self_log [Lit ''Failed to add Generated surface tag of '',
                           Interp (PyInt 3363197873)]) (Inr l2)]"
    by blast
  from step5_complete[OF st(5)] obtain t3 g3 c r0 nv3 l3 d3 where n5: "new_events s4 s5 =
      [Api (Call Surface_data_SurfaceTag [] []) (Inr t3),
       Api (Call Hydra_get_set_test
              [sp, PyInt 3, PyStr ''Configuration|Inclusion|Surface Tags'', PyList [t3]] []) (Inr g3),
       Api (Call Entity_components_getitem [sp, PyInt 3] []) (Inr c),
       Api (BusCall EditorComponentAPIBus Broadcast ''SetComponentProperty''
              [c, PyStr ''Configuration|Inclusion|Surface Tags|[0]|Surface Tag'', PyInt 1327698037])
         (Inr r0),
       Api (Call Hydra_get_component_property_value
              [c, PyStr ''Configuration|Inclusion|Surface Tags|[0]|Surface Tag''] []) (Inr nv3),
       Api (if py_eq nv3 (PyInt 1327698037)
            then Print [Lit ''Inclusive surface mask filter of terrainHole is added successfully'']
            else Print [Lit ''Failed to add an Inclusive surface mask filter of terrainHole'']) (Inr l3),
       Api (Call General_idle_wait [PyFloat 2] []) (Inr d3)]"
    by blast
  from step6_complete[OF st(6)] ts5 obtain w i n l where n6: "new_events s5 s6 =
       [Api (Call General_idle_wait [PyFloat 2] []) (Inr w),
        Api (Call Entity_id [sp] []) (Inr i),
        Api (BusCall ShapeComponentRequestsBus Event ''GetEncompassingAabb'' [i]) (Inr box),
        Api (BusCall AreaSystemRequestBus Broadcast ''GetInstanceCountInAabb'' [box]) (Inr n),
        Api (Self_log [Lit ''Expected '', Interp (PyInt 130), Lit '' instances - Found '',
                       Interp n, Lit '' instances'']) (Inr l),
        Assign_test_success (py_and cl (PyBool (py_eq n (PyInt 130))))]"
    by auto
  let ?a = "[PyStr ''Instance Spawner'', pos, PyFloat 10, PyFloat 10, PyFloat 10, path]"
  let ?pre = "[Api (Call Self_create_level [level]
              [(''heightmap_resolution'', PyInt 1024),
               (''heightmap_meters_per_pixel'', PyInt 1),
               (''terrain_texture_resolution'', PyInt 4096),
               (''use_terrain'', PyBool False)]) (Inr cl),
       Assign_test_success cl,
       Api (Call General_set_current_view_position [PyFloat 512, PyFloat 480, PyFloat 38] []) (Inr v),
       Api (Call Math_Vector3 [PyFloat 512, PyFloat 512, PyFloat 32] []) (Inr pos),
       Api (Call Os_path_join [PyStr ''Slices'', PyStr ''PurpleFlower.dynamicslice''] []) (Inr path),
       Api (Call Dynveg_create_vegetation_area
              [PyStr ''Instance Spawner'', pos, PyFloat 10, PyFloat 10, PyFloat 10, path] []) (Inr sp),
       Api (Call Entity_add_component [sp, PyStr ''Vegetation Surface Mask Filter''] []) (Inr ad),
       Api (Call Math_Vector3 [PyFloat 510, PyFloat 512, PyFloat 32] []) (Inr p1),
       Api (Call Dynveg_create_surface_entity
              [PyStr ''Surface Entity 1'', p1, PyFloat 10, PyFloat 10, PyFloat 1] []) (Inr e1),
       Api (Call Surface_data_SurfaceTag [] []) (Inr t1),
       Api (Call Hydra_get_set_test
              [e1, PyInt 1, PyStr ''Configuration|Generated Tags'', PyList [t1]] []) (Inr g1),
       Api (Call Entity_components_getitem [e1, PyInt 1] []) (Inr c1),
       Api (BusCall EditorComponentAPIBus Broadcast ''SetComponentProperty''
              [c1, PyStr ''Configuration|Generated Tags|[0]|Surface Tag'', PyInt 1327698037]) (Inr w1),
       Api (Call Hydra_get_component_property_value
              [c1, PyStr ''Configuration|Generated Tags|[0]|Surface Tag''] []) (Inr nv1),
       Api (if py_eq nv1 (PyInt 1327698037)
            then Self_log [Lit ''Generated surface tag of '', Interp (PyInt 1327698037),
                           Lit '' is added successfully'']
            else Self_log [Lit ''Failed to add Generated surface tag of '',
                           Interp (PyInt 1327698037)]) (Inr l1),
       Api (Call Math_Vector3 [PyFloat 520, PyFloat 512, PyFloat 32] []) (Inr p2),
       Api (Call Dynveg_create_surface_entity
              [PyStr ''Surface Entity 2'', p2, PyFloat 10, PyFloat 10, PyFloat 1] []) (Inr e2),
       Api (Call Surface_data_SurfaceTag [] []) (Inr t2),
       Api (Call Hydra_get_set_test
              [e2, PyInt 1, PyStr ''Configuration|Generated Tags'', PyList [t2]] []) (Inr g2),
       Api (Call Entity_components_getitem [e2, PyInt 1] []) (Inr c2),
       Api (BusCall EditorComponentAPIBus Broadcast ''SetComponentProperty''
              [c2, PyStr ''Configuration|Generated Tags|[0]|Surface Tag'', PyInt 3363197873]) (Inr w2),
       Api (Call Hydra_get_component_property_value
              [c2, PyStr ''Configuration|Generated Tags|[0]|Surface Tag''] []) (Inr nv2),
       Api (if py_eq nv2 (PyInt 3363197873)
            then Self_log [Lit ''Generated surface tag of '', Interp (PyInt 3363197873),
                           Lit '' is added successfully'']
            else Self_log [Lit ''Failed to add Generated surface tag of '',
                           Interp (PyInt 3363197873)]) (Inr l2),
       Api (Call Surface_data_SurfaceTag [] []) (Inr t3),
       Api (Call Hydra_get_set_test
              [sp, PyInt 3, PyStr ''Configuration|Inclusion|Surface Tags'', PyList [t3]] []) (Inr g3),
       Api (Call Entity_components_getitem [sp, PyInt 3] []) (Inr c),
       Api (BusCall EditorComponentAPIBus Broadcast ''SetComponentProperty''
              [c, PyStr ''Configuration|Inclusion|Surface Tags|[0]|Surface Tag'', PyInt 1327698037])
         (Inr r0),
       Api (Call Hydra_get_component_property_value
              [c, PyStr ''Configuration|Inclusion|Surface Tags|[0]|Surface Tag''] []) (Inr nv3),
       Api (if py_eq nv3 (PyInt 1327698037)
            then Print [Lit ''Inclusive surface mask filter of terrainHole is added successfully'']
            else Print [Lit ''Failed to add an Inclusive surface mask filter of terrainHole'']) (Inr l3),
       Api (Call General_idle_wait [PyFloat 2] []) (Inr d3)]"
  have e: "new_events s s' = ?pre @
       [Api (Call General_idle_wait [PyFloat 2] []) (Inr w),
        Api (Call Entity_id [sp] []) (Inr i),
        Api (BusCall ShapeComponentRequestsBus Event ''GetEncompassingAabb'' [i]) (Inr box),
        Api (BusCall AreaSystemRequestBus Broadcast ''GetInstanceCountInAabb'' [box]) (Inr n),
        Api (Self_log [Lit ''Expected '', Interp (PyInt 130), Lit '' instances - Found '',
                       Interp n, Lit '' instances'']) (Inr l),
        Assign_test_success (py_and cl (PyBool (py_eq n (PyInt 130))))] @ new_events s6 s'"
    unfolding ev n1 n2 n3 n4 n5 n6 by simp
  have pw: "filter is_property_write ?pre =
      [Api (Call Hydra_get_set_test
              [e1, PyInt 1, PyStr ''Configuration|Generated Tags'', PyList [t1]] []) (Inr g1),
       Api (BusCall EditorComponentAPIBus Broadcast ''SetComponentProperty''
              [c1, PyStr ''Configuration|Generated Tags|[0]|Surface Tag'', PyInt 1327698037]) (Inr w1),
       Api (Call Hydra_get_set_test
              [e2, PyInt 1, PyStr ''Configuration|Generated Tags'', PyList [t2]] []) (Inr g2),
       Api (BusCall EditorComponentAPIBus Broadcast ''SetComponentProperty''
              [c2, PyStr ''Configuration|Generated Tags|[0]|Surface Tag'', PyInt 3363197873]) (Inr w2),
       Api (Call Hydra_get_set_test
              [sp, PyInt 3, PyStr ''Configuration|Inclusion|Surface Tags'', PyList [t3]] []) (Inr g3),
       Api (BusCall EditorComponentAPIBus Broadcast ''SetComponentProperty''
              [c, PyStr ''Configuration|Inclusion|Surface Tags|[0]|Surface Tag'', PyInt 1327698037])
         (Inr r0)]"
    by simp
  have nm: "filter (sets_property ''Configuration|Inclusion|Weight Min'') ?pre = []"
    by simp
  have as: "assigns ?pre = [cl]"
    by simp
  have nc: "filter is_count_query ?pre = []"
    by simp
  have nw: "filter (sets_property ''Configuration|Inclusion|Weight Max'') ?pre = []"
    by simp
  have m1: "Api (Call Dynveg_create_vegetation_area ?a []) (Inr sp) \<in> set ?pre"
    by simp
  have m2: "Api (Call Entity_components_getitem [sp, PyInt 3] []) (Inr c) \<in> set ?pre"
    by simp
  have m3: "Api (BusCall EditorComponentAPIBus Broadcast ''SetComponentProperty''
              [c, PyStr ''Configuration|Inclusion|Surface Tags|[0]|Surface Tag'', PyInt 1327698037])
           (Inr r0) \<in> set ?pre"
    by simp
  have t: "py_truthy (py_and cl (PyBool (py_eq n (PyInt 130)))) \<longleftrightarrow>
          py_truthy cl \<and> py_eq n (PyInt 130)"
    by (rule py_and_truthy)
  have k: "\<forall>m. n = PyInt m \<longrightarrow> (py_eq n (PyInt 130) \<longleftrightarrow> m = 130)"
    by simp
  show ?thesis
    by (intro exI conjI)
      (rule e, rule refl, rule pw, rule nm, rule as, rule nc, rule nw, rule m1, rule m2, rule m3,
       rule t, rule k)
qed

theorem first_count_check_expects_130_witness:
  "fst (demo_run True) = Inr () \<and>
   (\<exists>box. Api (BusCall AreaSystemRequestBus Broadcast ''GetInstanceCountInAabb'' [box])
            (Inr (PyInt 130)) \<in> set (demo_events True)) \<and>
   (\<exists>cl. Assign_test_success (py_and cl (PyBool True)) \<in> set (demo_events True))"
proof -
  obtain s' where r: "run_test (demo_engine True) demo_state = (Inr (), s')"
    "snd (demo_run True) = s'" "fst (demo_run True) = Inr ()"
    by (rule demo_run_returns)
  from first_count_check_expects_130[OF r(1)] obtain pre post cl sp w i box n l
    where e: "new_events demo_state s' = pre @
       [Api (Call General_idle_wait [PyFloat 2] []) (Inr w),
        Api (Call Entity_id [sp] []) (Inr i),
        Api (BusCall ShapeComponentRequestsBus Event ''GetEncompassingAabb'' [i]) (Inr box),
        Api (BusCall AreaSystemRequestBus Broadcast ''GetInstanceCountInAabb'' [box]) (Inr n),
        Api (Self_log [Lit ''Expected '', Interp (PyInt 130), Lit '' instances - Found '',
                       Interp n, Lit '' instances'']) (Inr l),
        Assign_test_success (py_and cl (PyBool (py_eq n (PyInt 130))))] @ post"
    by (elim exE conjE) (erule that)
  have "length pre + 3 < length (new_events demo_state s')"
    and "new_events demo_state s' ! (length pre + 3) =
      Api (BusCall AreaSystemRequestBus Broadcast ''GetInstanceCountInAabb'' [box]) (Inr n)"
    by (simp_all add: e nth_append)
  with faithful_new_events[OF faithful_run_test r(1)]
  have "Inr n = demo_engine True (trace demo_state @ take (length pre + 3) (new_events demo_state s'))
      (BusCall AreaSystemRequestBus Broadcast ''GetInstanceCountInAabb'' [box])"
    by blast
  then have n: "n = PyInt 130"
    by (simp add: e demo_engine_def demo_answer_def)
  from e n have "Api (BusCall AreaSystemRequestBus Broadcast ''GetInstanceCountInAabb'' [box])
            (Inr (PyInt 130)) \<in> set (new_events demo_state s')"
    and "Assign_test_success (py_and cl (PyBool True)) \<in> set (new_events demo_state s')"
    by simp_all
  with r show ?thesis unfolding demo_events_def by auto
qed

text \<open>
  Claim C2. In a run of \<^verbatim>\<open>run_test\<close> that returns, the last five events are: the call
  \<^verbatim>\<open>hydra.get_set_test(spawner_entity, 3, "Configuration|Inclusion|Weight Max", 0.9)\<close>, whose
  value 0.9 is below 1, an \<^verbatim>\<open>idle_wait(2.0)\<close>, the second query of
  \<^verbatim>\<open>GetInstanceCountInAabb\<close>, a log line, and the store of
  \<^verbatim>\<open>test_success and num_found == 0\<close>. The value left in \<^verbatim>\<open>test_success\<close> is true exactly
  when the value before was true and the count equals 0.
\<close>

theorem second_count_check_expects_0:
  assumes "run_test E s = (Inr u, s')"
  shows "\<exists>pre old a sp g w box n1 n l.
     new_events s s' = pre @
       [Api (Call Hydra_get_set_test
               [sp, PyInt 3, PyStr ''Configuration|Inclusion|Weight Max'', PyFloat float_0_9] [])
          (Inr g),
        Api (Call General_idle_wait [PyFloat 2] []) (Inr w),
        Api (BusCall AreaSystemRequestBus Broadcast ''GetInstanceCountInAabb'' [box]) (Inr n),
        Api (Self_log [Lit ''Expected '', Interp (PyInt 0), Lit '' instances - Found '',
                       Interp n, Lit '' instances'']) (Inr l),
        Assign_test_success (py_and old (PyBool (py_eq n (PyInt 0))))]
     \<and> float_0_9 < 1
     \<and> Api (Call Dynveg_create_vegetation_area a []) (Inr sp) \<in> set pre
     \<and> filter (sets_property ''Configuration|Inclusion|Weight Max'') pre = []
     \<and> filter is_count_query pre =
          [Api (BusCall AreaSystemRequestBus Broadcast ''GetInstanceCountInAabb'' [box]) (Inr n1)]
     \<and> assigns pre \<noteq> [] \<and> last (assigns pre) = old
     \<and> test_success s' = py_and old (PyBool (py_eq n (PyInt 0)))
     \<and> (py_truthy (test_success s') \<longleftrightarrow> py_truthy old \<and> py_eq n (PyInt 0))
     \<and> (\<forall>m. n = PyInt m \<longrightarrow> (py_eq n (PyInt 0) \<longleftrightarrow> m = 0))"
proof -
  from assms obtain s1 sp s2 s3 s4 s5 box s6 where st:
    "step1 E s = (Inr (), s1)" "step2 E s1 = (Inr sp, s2)" "step3 E sp s2 = (Inr (), s3)"
    "step4 E s3 = (Inr (), s4)" "step5 E sp s4 = (Inr (), s5)" "step6 E sp s5 = (Inr box, s6)"
    "step7 E sp box s6 = (Inr (), s')"
    and ev: "new_events s s' = new_events s s1 @ new_events s1 s2 @ new_events s2 s3 @
       new_events s3 s4 @ new_events s4 s5 @ new_events s5 s6 @ new_events s6 s'"
    by (rule run_test_complete)
  let ?pre = "new_events s s1 @ new_events s1 s2 @ new_events s2 s3 @ new_events s3 s4 @
       new_events s4 s5 @ new_events s5 s6"
  let ?old = "test_success s6"
  from step2_complete[OF st(2)] obtain a
    where sp: "Api (Call Dynveg_create_vegetation_area a []) (Inr sp) \<in> set (new_events s1 s2)"
    by auto
  from step6_complete[OF st(6)] obtain n1
    where c6: "filter is_count_query (new_events s5 s6) =
          [Api (BusCall AreaSystemRequestBus Broadcast ''GetInstanceCountInAabb'' [box]) (Inr n1)]"
      and a6: "assigns (new_events s5 s6) = [test_success s6]"
    by auto
  from step7_complete[OF st(7)] obtain g w n l where n7: "new_events s6 s' =
       [Api (Call Hydra_get_set_test
               [sp, PyInt 3, PyStr ''Configuration|Inclusion|Weight Max'', PyFloat float_0_9] [])
          (Inr g),
        Api (Call General_idle_wait [PyFloat 2] []) (Inr w),
        Api (BusCall AreaSystemRequestBus Broadcast ''GetInstanceCountInAabb'' [box]) (Inr n),
        Api (Self_log [Lit ''Expected '', Interp (PyInt 0), Lit '' instances - Found '',
                       Interp n, Lit '' instances'']) (Inr l),
        Assign_test_success (py_and ?old (PyBool (py_eq n (PyInt 0))))]"
    and ts: "test_success s' = py_and ?old (PyBool (py_eq n (PyInt 0)))"
    by auto
  have e: "new_events s s' = ?pre @
       [Api (Call Hydra_get_set_test
               [sp, PyInt 3, PyStr ''Configuration|Inclusion|Weight Max'', PyFloat float_0_9] [])
          (Inr g),
        Api (Call General_idle_wait [PyFloat 2] []) (Inr w),
        Api (BusCall AreaSystemRequestBus Broadcast ''GetInstanceCountInAabb'' [box]) (Inr n),
        Api (Self_log [Lit ''Expected '', Interp (PyInt 0), Lit '' instances - Found '',
                       Interp n, Lit '' instances'']) (Inr l),
        Assign_test_success (py_and ?old (PyBool (py_eq n (PyInt 0))))]"
    using ev n7 by simp
  have lt: "float_0_9 < 1" by (simp add: float_0_9_def)
  have m1: "Api (Call Dynveg_create_vegetation_area a []) (Inr sp) \<in> set ?pre"
    using sp by simp
  have nw: "filter (sets_property ''Configuration|Inclusion|Weight Max'') ?pre = []"
    by (simp add: no_events[OF no_weight_max_script(1) st(1)]
        no_events[OF no_weight_max_script(2) st(2)] no_events[OF no_weight_max_script(3) st(3)]
        no_events[OF no_weight_max_script(4) st(4)] no_events[OF no_weight_max_script(5) st(5)]
        no_events[OF no_weight_max_script(6) st(6)])
  have nc: "filter is_count_query ?pre =
          [Api (BusCall AreaSystemRequestBus Broadcast ''GetInstanceCountInAabb'' [box]) (Inr n1)]"
    by (simp add: no_events[OF no_count_script(3) st(1)] no_events[OF no_count_script(4) st(2)]
        no_events[OF no_count_script(5) st(3)] no_events[OF no_count_script(6) st(4)]
        no_events[OF no_count_script(7) st(5)] c6)
  have as: "assigns ?pre \<noteq> []" "last (assigns ?pre) = ?old"
    by (simp_all add: assigns_append a6)
  have t: "py_truthy (test_success s') \<longleftrightarrow> py_truthy ?old \<and> py_eq n (PyInt 0)"
    unfolding ts by (rule py_and_truthy)
  have k: "\<forall>m. n = PyInt m \<longrightarrow> (py_eq n (PyInt 0) \<longleftrightarrow> m = 0)"
    by simp
  from e lt m1 nw nc as ts t k show ?thesis by blast
qed

theorem second_count_check_expects_0_witness:
  "fst (demo_run True) = Inr () \<and>
   (\<exists>pre g w box l old. demo_events True = pre @
       [Api (Call Hydra_get_set_test
               [PyObj 10, PyInt 3, PyStr ''Configuration|Inclusion|Weight Max'', PyFloat float_0_9] [])
          (Inr g),
        Api (Call General_idle_wait [PyFloat 2] []) (Inr w),
        Api (BusCall AreaSystemRequestBus Broadcast ''GetInstanceCountInAabb'' [box]) (Inr (PyInt 0)),
        Api (Self_log [Lit ''Expected '', Interp (PyInt 0), Lit '' instances - Found '',
                       Interp (PyInt 0), Lit '' instances'']) (Inr l),
        Assign_test_success (py_and old (PyBool True))])"
proof -
  obtain s' where r: "run_test (demo_engine True) demo_state = (Inr (), s')"
    "snd (demo_run True) = s'" "fst (demo_run True) = Inr ()"
    by (rule demo_run_returns)
  from second_count_check_expects_0[OF r(1)] obtain pre old a sp g w box n l
    where e: "new_events demo_state s' = pre @
       [Api (Call Hydra_get_set_test
               [sp, PyInt 3, PyStr ''Configuration|Inclusion|Weight Max'', PyFloat float_0_9] [])
          (Inr g),
        Api (Call General_idle_wait [PyFloat 2] []) (Inr w),
        Api (BusCall AreaSystemRequestBus Broadcast ''GetInstanceCountInAabb'' [box]) (Inr n),
        Api (Self_log [Lit ''Expected '', Interp (PyInt 0), Lit '' instances - Found '',
                       Interp n, Lit '' instances'']) (Inr l),
        Assign_test_success (py_and old (PyBool (py_eq n (PyInt 0))))]"
      and m: "Api (Call Dynveg_create_vegetation_area a []) (Inr sp) \<in> set pre"
    by blast
  note link = faithful_new_events[OF faithful_run_test r(1)]
  have "length pre + 2 < length (new_events demo_state s')"
    and "new_events demo_state s' ! (length pre + 2) =
      Api (BusCall AreaSystemRequestBus Broadcast ''GetInstanceCountInAabb'' [box]) (Inr n)"
    by (simp_all add: e nth_append)
  with link
  have "Inr n = demo_engine True (trace demo_state @ take (length pre + 2) (new_events demo_state s'))
      (BusCall AreaSystemRequestBus Broadcast ''GetInstanceCountInAabb'' [box])"
    by blast
  then have n: "n = PyInt 0"
    by (simp add: e demo_engine_def demo_answer_def)
  from m obtain j where j: "j < length pre"
    "pre ! j = Api (Call Dynveg_create_vegetation_area a []) (Inr sp)"
    by (auto simp: in_set_conv_nth)
  then have "j < length (new_events demo_state s')"
    and "new_events demo_state s' ! j = Api (Call Dynveg_create_vegetation_area a []) (Inr sp)"
    by (simp_all add: e nth_append)
  with link
  have "Inr sp = demo_engine True (trace demo_state @ take j (new_events demo_state s'))
      (Call Dynveg_create_vegetation_area a [])"
    by blast
  then have sp: "sp = PyObj 10"
    by (simp add: demo_engine_def demo_answer_def)
  from e n sp r show ?thesis unfolding demo_events_def by auto
qed

section \<open>How many queries, and over which box\<close>

lemma skip_bnd: "at_most P 0 p \<Longrightarrow> (\<And>v. at_most P n (f v)) \<Longrightarrow> at_most P n (bnd p f)"
  using at_most_bnd[of P 0 p n f] by simp

lemma here_bnd:
  "at_most P (Suc 0) p \<Longrightarrow> (\<And>v. at_most P 0 (f v)) \<Longrightarrow> at_most P (Suc 0) (bnd p f)"
  using at_most_bnd[of P "Suc 0" p 0 f] by simp

lemma one_count_step6: "at_most is_count_query (Suc 0) (step6 E sp)"
  unfolding step6_def
  apply (rule skip_bnd, rule none_api, simp)
  apply (rule skip_bnd, rule none_api, simp)
  apply (rule skip_bnd, rule none_api, simp)
  apply (rule here_bnd, rule one_api)
  apply (intro none_intros; simp)
  done

lemma one_count_step7: "at_most is_count_query (Suc 0) (step7 E sp box)"
  unfolding step7_def
  apply (rule skip_bnd, rule none_api, simp)
  apply (rule skip_bnd, rule none_api, simp)
  apply (rule here_bnd, rule one_api)
  apply (intro none_intros; simp)
  done

lemma two_counts_run_test: "at_most is_count_query (Suc 0 + Suc 0) (run_test E)"
  unfolding run_test_def
  apply (rule skip_bnd, rule no_count_script)
  apply (rule skip_bnd, rule no_count_script)
  apply (rule skip_bnd, rule no_count_script)
  apply (rule skip_bnd, rule no_count_script)
  apply (rule skip_bnd, rule no_count_script)
  apply (rule at_most_bnd, rule one_count_step6)
  apply (rule one_count_step7)
  done

lemma filter_or_empty:
  "filter P xs = [] \<Longrightarrow> filter Q xs = [] \<Longrightarrow> filter (\<lambda>x. P x \<or> Q x) xs = []"
  by (simp add: filter_empty_conv)

text \<open>
  Claim C6. No run of \<^verbatim>\<open>run_test\<close> makes more than two queries of
  \<^verbatim>\<open>GetInstanceCountInAabb\<close>. A run that returns makes exactly two; among the queries and
  the stores to \<^verbatim>\<open>test_success\<close> the order is: the store of the \<^verbatim>\<open>create_level\<close> result, the
  first query, the store of the comparison with 130, the second query, the store of the
  comparison with 0. Among the queries and the calls that set Weight Max the order is: the
  first query, the call \<^verbatim>\<open>get_set_test\<close> that sets Weight Max of component 3 of the spawner to
  0.9, the second query; so one query is made under each configuration of the filter.
\<close>

theorem exactly_two_count_queries:
  assumes "run_test E s = (r, s')"
  shows "length (filter is_count_query (new_events s s')) \<le> 2 \<and>
    (\<forall>u. r = Inr u \<longrightarrow> (\<exists>cl box n1 n2 sp g.
       filter (\<lambda>ev. is_count_query ev \<or> is_assign ev) (new_events s s') =
         [Assign_test_success cl,
          Api (BusCall AreaSystemRequestBus Broadcast ''GetInstanceCountInAabb'' [box]) (Inr n1),
          Assign_test_success (py_and cl (PyBool (py_eq n1 (PyInt 130)))),
          Api (BusCall AreaSystemRequestBus Broadcast ''GetInstanceCountInAabb'' [box]) (Inr n2),
          Assign_test_success (py_and (py_and cl (PyBool (py_eq n1 (PyInt 130))))
                                 (PyBool (py_eq n2 (PyInt 0))))]
       \<and> length (filter is_count_query (new_events s s')) = 2
       \<and> filter (\<lambda>ev. is_count_query ev \<or> sets_property ''Configuration|Inclusion|Weight Max'' ev)
           (new_events s s') =
         [Api (BusCall AreaSystemRequestBus Broadcast ''GetInstanceCountInAabb'' [box]) (Inr n1),
          Api (Call Hydra_get_set_test
                 [sp, PyInt 3, PyStr ''Configuration|Inclusion|Weight Max'', PyFloat float_0_9] [])
            (Inr g),
          Api (BusCall AreaSystemRequestBus Broadcast ''GetInstanceCountInAabb'' [box]) (Inr n2)]))"
proof (intro conjI allI impI)
  from at_mostD[OF two_counts_run_test assms]
  show "length (filter is_count_query (new_events s s')) \<le> 2" by simp
next
  fix u
  assume "r = Inr u"
  with assms have run: "run_test E s = (Inr u, s')" by simp
  let ?P = "\<lambda>ev. is_count_query ev \<or> is_assign ev"
  let ?Q = "\<lambda>ev. is_count_query ev \<or> sets_property ''Configuration|Inclusion|Weight Max'' ev"
  from run obtain s1 sp s2 s3 s4 s5 box s6 where st:
    "step1 E s = (Inr (), s1)" "step2 E s1 = (Inr sp, s2)" "step3 E sp s2 = (Inr (), s3)"
    "step4 E s3 = (Inr (), s4)" "step5 E sp s4 = (Inr (), s5)" "step6 E sp s5 = (Inr box, s6)"
    "step7 E sp box s6 = (Inr (), s')"
    and ev: "new_events s s' = new_events s s1 @ new_events s1 s2 @ new_events s2 s3 @
       new_events s3 s4 @ new_events s4 s5 @ new_events s5 s6 @ new_events s6 s'"
    by (rule run_test_complete)
  from step1_complete[OF st(1)] obtain cl
    where p1: "filter ?P (new_events s s1) = [Assign_test_success cl]"
      and c1: "filter is_count_query (new_events s s1) = []"
      and ts1: "test_success s1 = cl"
    by auto
  note z2 = filter_or_empty[OF no_events[OF no_count_script(4) st(2)]
      no_events[OF no_assign_script(3) st(2)]]
  note z3 = filter_or_empty[OF no_events[OF no_count_script(5) st(3)]
      no_events[OF no_assign_script(4) st(3)]]
  note z4 = filter_or_empty[OF no_events[OF no_count_script(6) st(4)]
      no_events[OF no_assign_script(5) st(4)]]
  note z5 = filter_or_empty[OF no_events[OF no_count_script(7) st(5)]
      no_events[OF no_assign_script(6) st(5)]]
  note y1 = filter_or_empty[OF no_events[OF no_count_script(3) st(1)]
      no_events[OF no_weight_max_script(1) st(1)]]
  note y2 = filter_or_empty[OF no_events[OF no_count_script(4) st(2)]
      no_events[OF no_weight_max_script(2) st(2)]]
  note y3 = filter_or_empty[OF no_events[OF no_count_script(5) st(3)]
      no_events[OF no_weight_max_script(3) st(3)]]
  note y4 = filter_or_empty[OF no_events[OF no_count_script(6) st(4)]
      no_events[OF no_weight_max_script(4) st(4)]]
  note y5 = filter_or_empty[OF no_events[OF no_count_script(7) st(5)]
      no_events[OF no_weight_max_script(5) st(5)]]
  note f2 = frame[OF no_assign_script(3) tracks_script(4) st(2)]
  note f3 = frame[OF no_assign_script(4) tracks_script(5) st(3)]
  note f4 = frame[OF no_assign_script(5) tracks_script(6) st(4)]
  note f5 = frame[OF no_assign_script(6) tracks_script(7) st(5)]
  from ts1 f2(2) f3(2) f4(2) f5(2) have ts5: "test_success s5 = cl" by simp
  from step6_complete[OF st(6)] ts5 obtain n1
    where p6: "filter ?P (new_events s5 s6) =
         [Api (BusCall AreaSystemRequestBus Broadcast ''GetInstanceCountInAabb'' [box]) (Inr n1),
          Assign_test_success (py_and cl (PyBool (py_eq n1 (PyInt 130))))]"
      and c6: "length (filter is_count_query (new_events s5 s6)) = 1"
      and q6: "filter ?Q (new_events s5 s6) =
         [Api (BusCall AreaSystemRequestBus Broadcast ''GetInstanceCountInAabb'' [box]) (Inr n1)]"
      and ts6: "test_success s6 = py_and cl (PyBool (py_eq n1 (PyInt 130)))"
    by auto
  from step7_complete[OF st(7)] ts6 obtain n2 g
    where p7: "filter ?P (new_events s6 s') =
         [Api (BusCall AreaSystemRequestBus Broadcast ''GetInstanceCountInAabb'' [box]) (Inr n2),
          Assign_test_success (py_and (py_and cl (PyBool (py_eq n1 (PyInt 130))))
                                 (PyBool (py_eq n2 (PyInt 0))))]"
      and c7: "length (filter is_count_query (new_events s6 s')) = 1"
      and q7: "filter ?Q (new_events s6 s') =
         [Api (Call Hydra_get_set_test
                 [sp, PyInt 3, PyStr ''Configuration|Inclusion|Weight Max'', PyFloat float_0_9] [])
            (Inr g),
          Api (BusCall AreaSystemRequestBus Broadcast ''GetInstanceCountInAabb'' [box]) (Inr n2)]"
    by auto
  have a: "filter ?P (new_events s s') =
         [Assign_test_success cl,
          Api (BusCall AreaSystemRequestBus Broadcast ''GetInstanceCountInAabb'' [box]) (Inr n1),
          Assign_test_success (py_and cl (PyBool (py_eq n1 (PyInt 130)))),
          Api (BusCall AreaSystemRequestBus Broadcast ''GetInstanceCountInAabb'' [box]) (Inr n2),
          Assign_test_success (py_and (py_and cl (PyBool (py_eq n1 (PyInt 130))))
                                 (PyBool (py_eq n2 (PyInt 0))))]"
    unfolding ev by (simp only: filter_append p1 z2 z3 z4 z5 p6 p7 append.simps)
  have b: "length (filter is_count_query (new_events s s')) = 2"
    unfolding ev
    by (simp add: c1 no_events[OF no_count_script(4) st(2)] no_events[OF no_count_script(5) st(3)]
        no_events[OF no_count_script(6) st(4)] no_events[OF no_count_script(7) st(5)] c6 c7)
  have c: "filter ?Q (new_events s s') =
         [Api (BusCall AreaSystemRequestBus Broadcast ''GetInstanceCountInAabb'' [box]) (Inr n1),
          Api (Call Hydra_get_set_test
                 [sp, PyInt 3, PyStr ''Configuration|Inclusion|Weight Max'', PyFloat float_0_9] [])
            (Inr g),
          Api (BusCall AreaSystemRequestBus Broadcast ''GetInstanceCountInAabb'' [box]) (Inr n2)]"
    unfolding ev by (simp only: filter_append y1 y2 y3 y4 y5 q6 q7 append.simps)
  show "\<exists>cl box n1 n2 sp g.
       filter ?P (new_events s s') =
         [Assign_test_success cl,
          Api (BusCall AreaSystemRequestBus Broadcast ''GetInstanceCountInAabb'' [box]) (Inr n1),
          Assign_test_success (py_and cl (PyBool (py_eq n1 (PyInt 130)))),
          Api (BusCall AreaSystemRequestBus Broadcast ''GetInstanceCountInAabb'' [box]) (Inr n2),
          Assign_test_success (py_and (py_and cl (PyBool (py_eq n1 (PyInt 130))))
                                 (PyBool (py_eq n2 (PyInt 0))))]
       \<and> length (filter is_count_query (new_events s s')) = 2
       \<and> filter ?Q (new_events s s') =
         [Api (BusCall AreaSystemRequestBus Broadcast ''GetInstanceCountInAabb'' [box]) (Inr n1),
          Api (Call Hydra_get_set_test
                 [sp, PyInt 3, PyStr ''Configuration|Inclusion|Weight Max'', PyFloat float_0_9] [])
            (Inr g),
          Api (BusCall AreaSystemRequestBus Broadcast ''GetInstanceCountInAabb'' [box]) (Inr n2)]"
    by (intro exI conjI) (rule a, rule b, rule c)
qed

theorem exactly_two_count_queries_witness:
  "fst (demo_run True) = Inr () \<and> length (filter is_count_query (demo_events True)) = 2"
proof -
  obtain s' where r: "run_test (demo_engine True) demo_state = (Inr (), s')"
    "snd (demo_run True) = s'" "fst (demo_run True) = Inr ()"
    by (rule demo_run_returns)
  from exactly_two_count_queries[OF r(1), THEN conjunct2, rule_format, OF refl]
  have "length (filter is_count_query (new_events demo_state s')) = 2"
    by (elim exE conjE)
  with r show ?thesis unfolding demo_events_def by simp
qed

lemma no_aabb_script:
  "at_most is_aabb_query 0 (step1 E)" "at_most is_aabb_query 0 (step2 E)"
  "at_most is_aabb_query 0 (step3 E sp)" "at_most is_aabb_query 0 (step4 E)"
  "at_most is_aabb_query 0 (step5 E sp)" "at_most is_aabb_query 0 (step7 E sp box)"
  unfolding script_defs by (intro none_intros; simp)+

lemma filter_or3_empty:
  "filter P xs = [] \<Longrightarrow> filter Q xs = [] \<Longrightarrow> filter R xs = [] \<Longrightarrow>
   filter (\<lambda>x. P x \<or> Q x \<or> R x) xs = []"
  by (simp add: filter_empty_conv)

text \<open>
  Claim C10. In a run of \<^verbatim>\<open>run_test\<close> that returns, \<^verbatim>\<open>GetEncompassingAabb\<close> is queried
  once, for the id read from the spawner entity, before the change of Weight Max; both
  count queries carry the box that this one query returned, the first before and the
  second after the change of Weight Max.
\<close>

theorem one_box_for_both_queries:
  assumes "run_test E s = (Inr u, s')"
  shows "\<exists>a sp i box n1 g n2.
     filter (\<lambda>ev. is_aabb_query ev \<or> is_count_query ev
                \<or> sets_property ''Configuration|Inclusion|Weight Max'' ev) (new_events s s') =
       [Api (BusCall ShapeComponentRequestsBus Event ''GetEncompassingAabb'' [i]) (Inr box),
        Api (BusCall AreaSystemRequestBus Broadcast ''GetInstanceCountInAabb'' [box]) (Inr n1),
        Api (Call Hydra_get_set_test
               [sp, PyInt 3, PyStr ''Configuration|Inclusion|Weight Max'', PyFloat float_0_9] [])
          (Inr g),
        Api (BusCall AreaSystemRequestBus Broadcast ''GetInstanceCountInAabb'' [box]) (Inr n2)]
     \<and> length (filter is_aabb_query (new_events s s')) = 1
     \<and> Api (Call Dynveg_create_vegetation_area a []) (Inr sp) \<in> set (new_events s s')
     \<and> Api (Call Entity_id [sp] []) (Inr i) \<in> set (new_events s s')"
proof -
  let ?W = "sets_property ''Configuration|Inclusion|Weight Max''"
  let ?P = "\<lambda>ev. is_aabb_query ev \<or> is_count_query ev \<or> ?W ev"
  from assms obtain s1 sp s2 s3 s4 s5 box s6 where st:
    "step1 E s = (Inr (), s1)" "step2 E s1 = (Inr sp, s2)" "step3 E sp s2 = (Inr (), s3)"
    "step4 E s3 = (Inr (), s4)" "step5 E sp s4 = (Inr (), s5)" "step6 E sp s5 = (Inr box, s6)"
    "step7 E sp box s6 = (Inr (), s')"
    and ev: "new_events s s' = new_events s s1 @ new_events s1 s2 @ new_events s2 s3 @
       new_events s3 s4 @ new_events s4 s5 @ new_events s5 s6 @ new_events s6 s'"
    by (rule run_test_complete)
  note z1 = filter_or3_empty[OF no_events[OF no_aabb_script(1) st(1)]
      no_events[OF no_count_script(3) st(1)] no_events[OF no_weight_max_script(1) st(1)]]
  note z2 = filter_or3_empty[OF no_events[OF no_aabb_script(2) st(2)]
      no_events[OF no_count_script(4) st(2)] no_events[OF no_weight_max_script(2) st(2)]]
  note z3 = filter_or3_empty[OF no_events[OF no_aabb_script(3) st(3)]
      no_events[OF no_count_script(5) st(3)] no_events[OF no_weight_max_script(3) st(3)]]
  note z4 = filter_or3_empty[OF no_events[OF no_aabb_script(4) st(4)]
      no_events[OF no_count_script(6) st(4)] no_events[OF no_weight_max_script(4) st(4)]]
  note z5 = filter_or3_empty[OF no_events[OF no_aabb_script(5) st(5)]
      no_events[OF no_count_script(7) st(5)] no_events[OF no_weight_max_script(5) st(5)]]
  from step2_complete[OF st(2)] obtain a
    where sp: "Api (Call Dynveg_create_vegetation_area a []) (Inr sp) \<in> set (new_events s1 s2)"
    by auto
  from step6_complete[OF st(6)] obtain i n1
    where p6: "filter ?P (new_events s5 s6) =
       [Api (BusCall ShapeComponentRequestsBus Event ''GetEncompassingAabb'' [i]) (Inr box),
        Api (BusCall AreaSystemRequestBus Broadcast ''GetInstanceCountInAabb'' [box]) (Inr n1)]"
      and b6: "length (filter is_aabb_query (new_events s5 s6)) = 1"
      and i6: "Api (Call Entity_id [sp] []) (Inr i) \<in> set (new_events s5 s6)"
    by auto
  from step7_complete[OF st(7)] obtain g n2
    where p7: "filter ?P (new_events s6 s') =
       [Api (Call Hydra_get_set_test
               [sp, PyInt 3, PyStr ''Configuration|Inclusion|Weight Max'', PyFloat float_0_9] [])
          (Inr g),
        Api (BusCall AreaSystemRequestBus Broadcast ''GetInstanceCountInAabb'' [box]) (Inr n2)]"
    by auto
  have a: "filter ?P (new_events s s') =
       [Api (BusCall ShapeComponentRequestsBus Event ''GetEncompassingAabb'' [i]) (Inr box),
        Api (BusCall AreaSystemRequestBus Broadcast ''GetInstanceCountInAabb'' [box]) (Inr n1),
        Api (Call Hydra_get_set_test
               [sp, PyInt 3, PyStr ''Configuration|Inclusion|Weight Max'', PyFloat float_0_9] [])
          (Inr g),
        Api (BusCall AreaSystemRequestBus Broadcast ''GetInstanceCountInAabb'' [box]) (Inr n2)]"
    unfolding ev by (simp only: filter_append z1 z2 z3 z4 z5 p6 p7 append.simps)
  have b: "length (filter is_aabb_query (new_events s s')) = 1"
    unfolding ev
    by (simp add: no_events[OF no_aabb_script(1) st(1)] no_events[OF no_aabb_script(2) st(2)]
        no_events[OF no_aabb_script(3) st(3)] no_events[OF no_aabb_script(4) st(4)]
        no_events[OF no_aabb_script(5) st(5)] no_events[OF no_aabb_script(6) st(7)] b6)
  have c: "Api (Call Dynveg_create_vegetation_area a []) (Inr sp) \<in> set (new_events s s')"
    and d: "Api (Call Entity_id [sp] []) (Inr i) \<in> set (new_events s s')"
    unfolding ev using sp i6 by simp_all
  from a b c d show ?thesis by blast
qed

theorem one_box_for_both_queries_witness:
  "fst (demo_run True) = Inr () \<and> length (filter is_aabb_query (demo_events True)) = 1 \<and>
   (\<exists>a sp i. Api (Call Dynveg_create_vegetation_area a []) (Inr sp) \<in> set (demo_events True)
      \<and> Api (Call Entity_id [sp] []) (Inr i) \<in> set (demo_events True))"
proof -
  obtain s' where r: "run_test (demo_engine True) demo_state = (Inr (), s')"
    "snd (demo_run True) = s'" "fst (demo_run True) = Inr ()"
    by (rule demo_run_returns)
  from one_box_for_both_queries[OF r(1)]
  have "length (filter is_aabb_query (new_events demo_state s')) = 1 \<and>
   (\<exists>a sp i. Api (Call Dynveg_create_vegetation_area a []) (Inr sp) \<in> set (new_events demo_state s')
      \<and> Api (Call Entity_id [sp] []) (Inr i) \<in> set (new_events demo_state s'))"
    by blast
  with r show ?thesis unfolding demo_events_def by simp
qed

section \<open>The scene the script builds\<close>

lemma no_create_set_script:
  "at_most (\<lambda>ev. is_create ev \<or> is_set_property ev) 0 (step1 E)"
  "at_most (\<lambda>ev. is_create ev \<or> is_set_property ev) 0 (step3 E sp)"
  "at_most (\<lambda>ev. is_create ev \<or> is_set_property ev) 0 (step6 E sp)"
  "at_most (\<lambda>ev. is_create ev \<or> is_set_property ev) 0 (step7 E sp box)"
  unfolding script_defs by (intro none_intros; simp)+

text \<open>
  Claim C7. In a run of \<^verbatim>\<open>run_test\<close> that returns, the calls that create an entity or set
  a component property are, in this order: one \<^verbatim>\<open>create_vegetation_area\<close> (the spawner), the
  first \<^verbatim>\<open>create_surface_entity\<close>, the store of terrainHole (1327698037) as generated tag of
  component 1 of that first surface entity, the second \<^verbatim>\<open>create_surface_entity\<close>, the
  store of terrain (3363197873) as generated tag of component 1 of the second one, and
  then the store of terrainHole in the inclusion list of component 3 of the spawner.
\<close>

theorem scene_entities_and_tags:
  assumes "run_test E s = (Inr u, s')"
  shows "\<exists>pos path sp p1 e1 c1 w1 p2 e2 c2 w2 c3 w3.
     filter (\<lambda>ev. is_create ev \<or> is_set_property ev) (new_events s s') =
       [Api (Call Dynveg_create_vegetation_area
               [PyStr ''Instance Spawner'', pos, PyFloat 10, PyFloat 10, PyFloat 10, path] []) (Inr sp),
        Api (Call Dynveg_create_surface_entity
               [PyStr ''Surface Entity 1'', p1, PyFloat 10, PyFloat 10, PyFloat 1] []) (Inr e1),
        Api (BusCall EditorComponentAPIBus Broadcast ''SetComponentProperty''
               [c1, PyStr ''Configuration|Generated Tags|[0]|Surface Tag'', PyInt 1327698037]) (Inr w1),
        Api (Call Dynveg_create_surface_entity
               [PyStr ''Surface Entity 2'', p2, PyFloat 10, PyFloat 10, PyFloat 1] []) (Inr e2),
        Api (BusCall EditorComponentAPIBus Broadcast ''SetComponentProperty''
               [c2, PyStr ''Configuration|Generated Tags|[0]|Surface Tag'', PyInt 3363197873]) (Inr w2),
        Api (BusCall EditorComponentAPIBus Broadcast ''SetComponentProperty''
               [c3, PyStr ''Configuration|Inclusion|Surface Tags|[0]|Surface Tag'', PyInt 1327698037])
          (Inr w3)]
     \<and> Api (Call Entity_components_getitem [e1, PyInt 1] []) (Inr c1) \<in> set (new_events s s')
     \<and> Api (Call Entity_components_getitem [e2, PyInt 1] []) (Inr c2) \<in> set (new_events s s')
     \<and> Api (Call Entity_components_getitem [sp, PyInt 3] []) (Inr c3) \<in> set (new_events s s')
     \<and> surface_tags ''terrainHole'' = Some (PyInt 1327698037)
     \<and> surface_tags ''terrain'' = Some (PyInt 3363197873)"
proof -
  let ?P = "\<lambda>ev. is_create ev \<or> is_set_property ev"
  from assms obtain s1 sp s2 s3 s4 s5 box s6 where st:
    "step1 E s = (Inr (), s1)" "step2 E s1 = (Inr sp, s2)" "step3 E sp s2 = (Inr (), s3)"
    "step4 E s3 = (Inr (), s4)" "step5 E sp s4 = (Inr (), s5)" "step6 E sp s5 = (Inr box, s6)"
    "step7 E sp box s6 = (Inr (), s')"
    and ev: "new_events s s' = new_events s s1 @ new_events s1 s2 @ new_events s2 s3 @
       new_events s3 s4 @ new_events s4 s5 @ new_events s5 s6 @ new_events s6 s'"
    by (rule run_test_complete)
  note z1 = no_events[OF no_create_set_script(1) st(1)]
  note z3 = no_events[OF no_create_set_script(2) st(3)]
  note z6 = no_events[OF no_create_set_script(3) st(6)]
  note z7 = no_events[OF no_create_set_script(4) st(7)]
  from step2_complete[OF st(2)] obtain pos path
    where p2: "filter ?P (new_events s1 s2) =
       [Api (Call Dynveg_create_vegetation_area
               [PyStr ''Instance Spawner'', pos, PyFloat 10, PyFloat 10, PyFloat 10, path] []) (Inr sp)]"
    by auto
  from step4_complete[OF st(4)] obtain p1 e1 c1 w1 q2 e2 c2 w2
    where p4: "filter ?P (new_events s3 s4) =
       [Api (Call Dynveg_create_surface_entity
               [PyStr ''Surface Entity 1'', p1, PyFloat 10, PyFloat 10, PyFloat 1] []) (Inr e1),
        Api (BusCall EditorComponentAPIBus Broadcast ''SetComponentProperty''
               [c1, PyStr ''Configuration|Generated Tags|[0]|Surface Tag'', PyInt 1327698037]) (Inr w1),
        Api (Call Dynveg_create_surface_entity
               [PyStr ''Surface Entity 2'', q2, PyFloat 10, PyFloat 10, PyFloat 1] []) (Inr e2),
        Api (BusCall EditorComponentAPIBus Broadcast ''SetComponentProperty''
               [c2, PyStr ''Configuration|Generated Tags|[0]|Surface Tag'', PyInt 3363197873]) (Inr w2)]"
      and m1: "Api (Call Entity_components_getitem [e1, PyInt 1] []) (Inr c1) \<in> set (new_events s3 s4)"
      and m2: "Api (Call Entity_components_getitem [e2, PyInt 1] []) (Inr c2) \<in> set (new_events s3 s4)"
    by auto
  from step5_complete[OF st(5)] obtain c3 w3
    where p5: "filter ?P (new_events s4 s5) =
       [Api (BusCall EditorComponentAPIBus Broadcast ''SetComponentProperty''
               [c3, PyStr ''Configuration|Inclusion|Surface Tags|[0]|Surface Tag'', PyInt 1327698037])
          (Inr w3)]"
      and m3: "Api (Call Entity_components_getitem [sp, PyInt 3] []) (Inr c3) \<in> set (new_events s4 s5)"
    by auto
  have a: "filter ?P (new_events s s') =
       [Api (Call Dynveg_create_vegetation_area
               [PyStr ''Instance Spawner'', pos, PyFloat 10, PyFloat 10, PyFloat 10, path] []) (Inr sp),
        Api (Call Dynveg_create_surface_entity
               [PyStr ''Surface Entity 1'', p1, PyFloat 10, PyFloat 10, PyFloat 1] []) (Inr e1),
        Api (BusCall EditorComponentAPIBus Broadcast ''SetComponentProperty''
               [c1, PyStr ''Configuration|Generated Tags|[0]|Surface Tag'', PyInt 1327698037]) (Inr w1),
        Api (Call Dynveg_create_surface_entity
               [PyStr ''Surface Entity 2'', q2, PyFloat 10, PyFloat 10, PyFloat 1] []) (Inr e2),
        Api (BusCall EditorComponentAPIBus Broadcast ''SetComponentProperty''
               [c2, PyStr ''Configuration|Generated Tags|[0]|Surface Tag'', PyInt 3363197873]) (Inr w2),
        Api (BusCall EditorComponentAPIBus Broadcast ''SetComponentProperty''
               [c3, PyStr ''Configuration|Inclusion|Surface Tags|[0]|Surface Tag'', PyInt 1327698037])
          (Inr w3)]"
    unfolding ev by (simp only: filter_append z1 p2 z3 p4 p5 z6 z7 append.simps)
  have b: "Api (Call Entity_components_getitem [e1, PyInt 1] []) (Inr c1) \<in> set (new_events s s')"
    "Api (Call Entity_components_getitem [e2, PyInt 1] []) (Inr c2) \<in> set (new_events s s')"
    "Api (Call Entity_components_getitem [sp, PyInt 3] []) (Inr c3) \<in> set (new_events s s')"
    unfolding ev using m1 m2 m3 by simp_all
  have c: "surface_tags ''terrainHole'' = Some (PyInt 1327698037)"
    "surface_tags ''terrain'' = Some (PyInt 3363197873)"
    by (simp_all add: surface_tags_def)
  from a b c show ?thesis by blast
qed

theorem scene_entities_and_tags_witness:
  "fst (demo_run True) = Inr () \<and>
   length (filter (\<lambda>ev. is_create ev \<or> is_set_property ev) (demo_events True)) = 6"
proof -
  obtain s' where r: "run_test (demo_engine True) demo_state = (Inr (), s')"
    "snd (demo_run True) = s'" "fst (demo_run True) = Inr ()"
    by (rule demo_run_returns)
  from scene_entities_and_tags[OF r(1)]
  have "length (filter (\<lambda>ev. is_create ev \<or> is_set_property ev) (new_events demo_state s')) = 6"
    by (elim exE conjE) simp
  with r show ?thesis unfolding demo_events_def by simp
qed

section \<open>The accumulator \<^verbatim>\<open>test_success\<close>\<close>

lemma conj_writes_truthy:
  "conj_writes v ws \<Longrightarrow> w \<in> set ws \<Longrightarrow> py_truthy w \<Longrightarrow> py_truthy v"
proof (induction ws arbitrary: v)
  case Nil
  then show ?case by simp
next
  case (Cons x xs)
  from Cons.prems(1) have x: "x = py_and v (PyBool True) \<or> x = py_and v (PyBool False)"
    and xs: "conj_writes x xs" by simp_all
  from x have xv: "py_truthy x \<Longrightarrow> py_truthy v" by (auto simp: py_and_def split: if_splits)
  show ?case
  proof (cases "w = x")
    case True
    with Cons.prems(3) xv show ?thesis by simp
  next
    case False
    with Cons.prems(2) have "w \<in> set xs" by simp
    from Cons.IH[OF xs this Cons.prems(3)] xv show ?thesis by simp
  qed
qed

lemma conj_writes_sorted:
  "conj_writes v ws \<Longrightarrow> sorted_wrt (\<lambda>a b. py_truthy b \<longrightarrow> py_truthy a) (v # ws)"
proof (induction ws arbitrary: v)
  case Nil
  then show ?case by simp
next
  case (Cons x xs)
  from Cons.prems have xs: "conj_writes x xs" by simp
  from Cons.IH[OF xs] have "sorted_wrt (\<lambda>a b. py_truthy b \<longrightarrow> py_truthy a) (x # xs)" .
  moreover have "\<forall>w\<in>set (x # xs). py_truthy w \<longrightarrow> py_truthy v"
    using conj_writes_truthy[OF Cons.prems] by blast
  ultimately show ?case by simp
qed

lemma length_assigns: "length (assigns evs) = length (filter is_assign evs)"
  by (induction evs rule: assigns.induct) simp_all

lemma accum_bnd:
  assumes p: "accum p" and f: "\<And>v. accum (f v)"
  shows "accum (bnd p f)"
  unfolding accum_def
proof (intro allI impI)
  fix s r s'
  assume "bnd p f s = (r, s')"
  then show "\<exists>evs. trace s' = trace s @ evs \<and>
      test_success s' = last (test_success s # assigns evs) \<and>
      conj_writes (test_success s) (assigns evs)"
  proof (cases rule: bnd_cases)
    case (fails e)
    with p show ?thesis unfolding accum_def by blast
  next
    case (continues v s1)
    from p continues(1) obtain evs1 where 1: "trace s1 = trace s @ evs1"
      "test_success s1 = last (test_success s # assigns evs1)"
      "conj_writes (test_success s) (assigns evs1)"
      unfolding accum_def by blast
    from f[of v] continues(2) obtain evs2 where 2: "trace s' = trace s1 @ evs2"
      "test_success s' = last (test_success s1 # assigns evs2)"
      "conj_writes (test_success s1) (assigns evs2)"
      unfolding accum_def by blast
    from 1 2 show ?thesis
      by (intro exI[of _ "evs1 @ evs2"])
        (simp add: assigns_append last_Cons_append conj_writes_append)
  qed
qed

lemma accum_frame:
  assumes "at_most is_assign 0 p" "tracks p"
  shows "accum p"
  unfolding accum_def
proof (intro allI impI)
  fix s r s'
  assume run: "p s = (r, s')"
  note f = frame[OF assms run]
  from tracksD(1)[OF assms(2) run] f
  show "\<exists>evs. trace s' = trace s @ evs \<and>
      test_success s' = last (test_success s # assigns evs) \<and>
      conj_writes (test_success s) (assigns evs)"
    by (intro exI[of _ "new_events s s'"]) simp
qed

lemma accum_api: "accum (api E c)"
  by (rule accum_frame) (simp_all add: none_api tracks_api)

lemma accum_conj_ret:
  "accum (bnd read_test_success (\<lambda>old.
           bnd (assign_test_success (py_and old (PyBool b))) (\<lambda>_. ret x)))"
  unfolding accum_def
  by (cases b) (simp_all add: bnd_def read_test_success_def assign_test_success_def ret_def)

lemma accum_conj_last:
  "accum (bnd read_test_success (\<lambda>old. assign_test_success (py_and old (PyBool b))))"
  unfolding accum_def
  by (cases b) (simp_all add: bnd_def read_test_success_def assign_test_success_def)

lemma accum_step6: "accum (step6 E sp)"
  unfolding step6_def by (intro accum_bnd accum_api accum_conj_ret)

lemma accum_step7: "accum (step7 E sp box)"
  unfolding step7_def by (intro accum_bnd accum_api accum_conj_last)

lemma accum_after_step1:
  "accum (bnd (step2 E) (\<lambda>spawner_entity.
     bnd (step3 E spawner_entity) (\<lambda>_.
     bnd (step4 E) (\<lambda>_.
     bnd (step5 E spawner_entity) (\<lambda>_.
     bnd (step6 E spawner_entity) (\<lambda>box.
     step7 E spawner_entity box))))))"
  by (intro accum_bnd accum_step6 accum_step7
      accum_frame[OF no_assign_script(3) tracks_script(4)]
      accum_frame[OF no_assign_script(4) tracks_script(5)]
      accum_frame[OF no_assign_script(5) tracks_script(6)]
      accum_frame[OF no_assign_script(6) tracks_script(7)])

lemma accumD:
  assumes "accum p" "p s = (r, s')"
  shows "trace s' = trace s @ new_events s s'"
    and "conj_writes (test_success s) (assigns (new_events s s'))"
proof -
  from assms obtain evs where e: "trace s' = trace s @ evs"
    "conj_writes (test_success s) (assigns evs)"
    unfolding accum_def by blast
  then have "new_events s s' = evs" by (simp add: new_events_def)
  with e show "trace s' = trace s @ new_events s s'"
    "conj_writes (test_success s) (assigns (new_events s s'))" by simp_all
qed

lemma one_assign_step1: "at_most is_assign (Suc 0) (step1 E)"
  unfolding step1_def
  apply (rule skip_bnd, rule none_self_args)
  apply (rule skip_bnd, rule none_api, simp)
  apply (rule here_bnd)
   apply (simp add: at_most_def assign_test_success_def)
  apply (intro none_intros; simp)
  done

lemma one_assign_step6: "at_most is_assign (Suc 0) (step6 E sp)"
  unfolding step6_def
  apply (rule skip_bnd, rule none_api, simp)
  apply (rule skip_bnd, rule none_api, simp)
  apply (rule skip_bnd, rule none_api, simp)
  apply (rule skip_bnd, rule none_api, simp)
  apply (rule skip_bnd, rule none_api, simp)
  apply (rule skip_bnd, rule none_read)
  apply (rule here_bnd)
   apply (simp add: at_most_def assign_test_success_def)
  apply (rule none_ret)
  done

lemma one_assign_step7: "at_most is_assign (Suc 0) (step7 E sp box)"
  unfolding step7_def
  apply (rule skip_bnd, rule none_api, simp)
  apply (rule skip_bnd, rule none_api, simp)
  apply (rule skip_bnd, rule none_api, simp)
  apply (rule skip_bnd, rule none_api, simp)
  apply (rule skip_bnd, rule none_read)
  apply (simp add: at_most_def assign_test_success_def)
  done

lemma three_assigns_run_test: "at_most is_assign (Suc 0 + (Suc 0 + Suc 0)) (run_test E)"
  unfolding run_test_def
  apply (rule at_most_bnd, rule one_assign_step1)
  apply (rule skip_bnd, rule no_assign_script)
  apply (rule skip_bnd, rule no_assign_script)
  apply (rule skip_bnd, rule no_assign_script)
  apply (rule skip_bnd, rule no_assign_script)
  apply (rule at_most_bnd, rule one_assign_step6)
  apply (rule one_assign_step7)
  done

lemma py_and_True: "py_and a (PyBool b) = PyBool True \<longleftrightarrow> py_truthy a \<and> b"
  by (auto simp: py_and_def)

lemma run_test_writes:
  assumes "run_test E s = (r, s')"
  shows "sorted_wrt (\<lambda>a b. py_truthy b \<longrightarrow> py_truthy a) (assigns (new_events s s'))"
    and "assigns (new_events s s') = [] \<or>
         conj_writes (hd (assigns (new_events s s'))) (tl (assigns (new_events s s')))"
proof -
  let ?A = "assigns (new_events s s')"
  have "sorted_wrt (\<lambda>a b. py_truthy b \<longrightarrow> py_truthy a) ?A \<and>
        (?A = [] \<or> conj_writes (hd ?A) (tl ?A))"
    using assms[unfolded run_test_def]
  proof (cases rule: bnd_cases)
    case (fails e)
    from at_mostD[OF one_assign_step1 fails(1)] have "length ?A \<le> 1"
      by (simp add: length_assigns)
    then have "?A = [] \<or> (\<exists>x. ?A = [x])"
      by (cases ?A) auto
    then show ?thesis by auto
  next
    case (continues v s1)
    from step1_complete[OF continues(1)] obtain cl
      where a1: "assigns (new_events s s1) = [cl]" and ts1: "test_success s1 = cl"
      by auto
    note rest = accumD[OF accum_after_step1 continues(2)]
    from new_events_trans(1)[OF tracksD(1)[OF tracks_script(3) continues(1)] rest(1)] a1
    have A: "?A = cl # assigns (new_events s1 s')"
      by (simp add: assigns_append)
    from rest(2) ts1 have c: "conj_writes cl (assigns (new_events s1 s'))" by simp
    from conj_writes_sorted[OF c] c A show ?thesis by simp
  qed
  then show "sorted_wrt (\<lambda>a b. py_truthy b \<longrightarrow> py_truthy a) ?A"
    and "?A = [] \<or> conj_writes (hd ?A) (tl ?A)" by simp_all
qed

text \<open>
  Claim C3. In every run of \<^verbatim>\<open>run_test\<close>, however it ends, the values stored to
  \<^verbatim>\<open>test_success\<close> never go from false to true: the first store is the result of
  \<^verbatim>\<open>create_level\<close> and each later one is the value before it conjoined with a bool by
  \<^verbatim>\<open>and\<close>; there are at most three stores, and the run leaves in \<^verbatim>\<open>test_success\<close> the last
  value stored. When the run returns, the final value is true exactly when
  \<^verbatim>\<open>create_level\<close> returned a true value, the first count equals 130 and the second
  equals 0.
\<close>

theorem test_success_only_decreases:
  assumes "run_test E s = (r, s')"
  shows "sorted_wrt (\<lambda>a b. py_truthy b \<longrightarrow> py_truthy a) (assigns (new_events s s'))
     \<and> (assigns (new_events s s') = [] \<or>
         conj_writes (hd (assigns (new_events s s'))) (tl (assigns (new_events s s'))))
     \<and> length (assigns (new_events s s')) \<le> 3
     \<and> test_success s' = last (test_success s # assigns (new_events s s'))
     \<and> (\<forall>u. r = Inr u \<longrightarrow> (\<exists>level kw cl box n1 n2.
          hd (new_events s s') = Api (Call Self_create_level [level] kw) (Inr cl)
          \<and> filter is_count_query (new_events s s') =
               [Api (BusCall AreaSystemRequestBus Broadcast ''GetInstanceCountInAabb'' [box]) (Inr n1),
                Api (BusCall AreaSystemRequestBus Broadcast ''GetInstanceCountInAabb'' [box]) (Inr n2)]
          \<and> assigns (new_events s s') =
               [cl, py_and cl (PyBool (py_eq n1 (PyInt 130))),
                py_and (py_and cl (PyBool (py_eq n1 (PyInt 130)))) (PyBool (py_eq n2 (PyInt 0)))]
          \<and> (py_truthy (test_success s') \<longleftrightarrow>
                py_truthy cl \<and> py_eq n1 (PyInt 130) \<and> py_eq n2 (PyInt 0))
          \<and> (test_success s' = PyBool True \<longleftrightarrow>
                py_truthy cl \<and> py_eq n1 (PyInt 130) \<and> py_eq n2 (PyInt 0))))"
proof (intro conjI allI impI)
  show "sorted_wrt (\<lambda>a b. py_truthy b \<longrightarrow> py_truthy a) (assigns (new_events s s'))"
    using assms by (rule run_test_writes(1))
  show "assigns (new_events s s') = [] \<or>
         conj_writes (hd (assigns (new_events s s'))) (tl (assigns (new_events s s')))"
    using assms by (rule run_test_writes(2))
  from at_mostD[OF three_assigns_run_test assms]
  show "length (assigns (new_events s s')) \<le> 3"
    by (simp add: length_assigns)
  show "test_success s' = last (test_success s # assigns (new_events s s'))"
    using tracks_run_test assms by (rule tracksD(3))
next
  fix u
  assume "r = Inr u"
  with assms have run: "run_test E s = (Inr u, s')" by simp
  from run obtain s1 sp s2 s3 s4 s5 box s6 where st:
    "step1 E s = (Inr (), s1)" "step2 E s1 = (Inr sp, s2)" "step3 E sp s2 = (Inr (), s3)"
    "step4 E s3 = (Inr (), s4)" "step5 E sp s4 = (Inr (), s5)" "step6 E sp s5 = (Inr box, s6)"
    "step7 E sp box s6 = (Inr (), s')"
    and ev: "new_events s s' = new_events s s1 @ new_events s1 s2 @ new_events s2 s3 @
       new_events s3 s4 @ new_events s4 s5 @ new_events s5 s6 @ new_events s6 s'"
    by (rule run_test_complete)
  from step1_complete[OF st(1)] obtain level kw cl
    where h1: "hd (new_events s s1) = Api (Call Self_create_level [level] kw) (Inr cl)"
      and ne1: "new_events s s1 \<noteq> []"
      and a1: "assigns (new_events s s1) = [cl]"
      and ts1: "test_success s1 = cl"
    by auto
  note f2 = frame[OF no_assign_script(3) tracks_script(4) st(2)]
  note f3 = frame[OF no_assign_script(4) tracks_script(5) st(3)]
  note f4 = frame[OF no_assign_script(5) tracks_script(6) st(4)]
  note f5 = frame[OF no_assign_script(6) tracks_script(7) st(5)]
  from ts1 f2(2) f3(2) f4(2) f5(2) have ts5: "test_success s5 = cl" by simp
  from step6_complete[OF st(6)] ts5 obtain n1
    where c6: "filter is_count_query (new_events s5 s6) =
               [Api (BusCall AreaSystemRequestBus Broadcast ''GetInstanceCountInAabb'' [box]) (Inr n1)]"
      and a6: "assigns (new_events s5 s6) = [py_and cl (PyBool (py_eq n1 (PyInt 130)))]"
      and ts6: "test_success s6 = py_and cl (PyBool (py_eq n1 (PyInt 130)))"
    by auto
  from step7_complete[OF st(7)] ts6 obtain n2
    where c7: "filter is_count_query (new_events s6 s') =
               [Api (BusCall AreaSystemRequestBus Broadcast ''GetInstanceCountInAabb'' [box]) (Inr n2)]"
      and a7: "assigns (new_events s6 s') =
               [py_and (py_and cl (PyBool (py_eq n1 (PyInt 130)))) (PyBool (py_eq n2 (PyInt 0)))]"
      and ts7: "test_success s' =
               py_and (py_and cl (PyBool (py_eq n1 (PyInt 130)))) (PyBool (py_eq n2 (PyInt 0)))"
    by auto
  have a: "hd (new_events s s') = Api (Call Self_create_level [level] kw) (Inr cl)"
    unfolding ev using h1 ne1 by simp
  have b: "filter is_count_query (new_events s s') =
               [Api (BusCall AreaSystemRequestBus Broadcast ''GetInstanceCountInAabb'' [box]) (Inr n1),
                Api (BusCall AreaSystemRequestBus Broadcast ''GetInstanceCountInAabb'' [box]) (Inr n2)]"
    unfolding ev
    by (simp add: no_events[OF no_count_script(3) st(1)] no_events[OF no_count_script(4) st(2)]
        no_events[OF no_count_script(5) st(3)] no_events[OF no_count_script(6) st(4)]
        no_events[OF no_count_script(7) st(5)] c6 c7)
  have c: "assigns (new_events s s') =
               [cl, py_and cl (PyBool (py_eq n1 (PyInt 130))),
                py_and (py_and cl (PyBool (py_eq n1 (PyInt 130)))) (PyBool (py_eq n2 (PyInt 0)))]"
    unfolding ev by (simp add: assigns_append a1 f2(1) f3(1) f4(1) f5(1) a6 a7)
  have d: "py_truthy (test_success s') \<longleftrightarrow>
                py_truthy cl \<and> py_eq n1 (PyInt 130) \<and> py_eq n2 (PyInt 0)"
    unfolding ts7 by (simp add: py_and_truthy)
  have e: "test_success s' = PyBool True \<longleftrightarrow>
                py_truthy cl \<and> py_eq n1 (PyInt 130) \<and> py_eq n2 (PyInt 0)"
    unfolding ts7 by (simp add: py_and_True py_and_truthy)
  from a b c d e show "\<exists>level kw cl box n1 n2.
          hd (new_events s s') = Api (Call Self_create_level [level] kw) (Inr cl)
          \<and> filter is_count_query (new_events s s') =
               [Api (BusCall AreaSystemRequestBus Broadcast ''GetInstanceCountInAabb'' [box]) (Inr n1),
                Api (BusCall AreaSystemRequestBus Broadcast ''GetInstanceCountInAabb'' [box]) (Inr n2)]
          \<and> assigns (new_events s s') =
               [cl, py_and cl (PyBool (py_eq n1 (PyInt 130))),
                py_and (py_and cl (PyBool (py_eq n1 (PyInt 130)))) (PyBool (py_eq n2 (PyInt 0)))]
          \<and> (py_truthy (test_success s') \<longleftrightarrow>
                py_truthy cl \<and> py_eq n1 (PyInt 130) \<and> py_eq n2 (PyInt 0))
          \<and> (test_success s' = PyBool True \<longleftrightarrow>
                py_truthy cl \<and> py_eq n1 (PyInt 130) \<and> py_eq n2 (PyInt 0))"
    by blast
qed

theorem test_success_only_decreases_witness:
  "fst (demo_run True) = Inr () \<and> length (assigns (demo_events True)) = 3 \<and>
   hd (assigns (demo_events True)) = PyBool True \<and>
   sorted_wrt (\<lambda>a b. py_truthy b \<longrightarrow> py_truthy a) (assigns (demo_events True))"
proof -
  obtain s' where r: "run_test (demo_engine True) demo_state = (Inr (), s')"
    "snd (demo_run True) = s'" "fst (demo_run True) = Inr ()"
    by (rule demo_run_returns)
  note t = test_success_only_decreases[OF r(1)]
  from t have srt: "sorted_wrt (\<lambda>a b. py_truthy b \<longrightarrow> py_truthy a)
      (assigns (new_events demo_state s'))"
    by blast
  note c = t[THEN conjunct2, THEN conjunct2, THEN conjunct2, THEN conjunct2, rule_format, OF refl]
  from c obtain level kw cl x y where h: "hd (new_events demo_state s') =
      Api (Call Self_create_level [level] kw) (Inr cl)"
    and as: "assigns (new_events demo_state s') = [cl, x, y]"
    by blast
  from as have len: "length (assigns (new_events demo_state s')) = 3"
    and hd: "hd (assigns (new_events demo_state s')) = cl"
    by simp_all
  from len have ne: "new_events demo_state s' \<noteq> []" by auto
  with h have "0 < length (new_events demo_state s')"
    and "new_events demo_state s' ! 0 = Api (Call Self_create_level [level] kw) (Inr cl)"
    by (simp_all add: hd_conv_nth)
  with faithful_new_events[OF faithful_run_test r(1)]
  have "Inr cl = demo_engine True (trace demo_state @ take 0 (new_events demo_state s'))
      (Call Self_create_level [level] kw)"
    by blast
  then have "cl = PyBool True" by (simp add: demo_engine_def demo_answer_def)
  with srt len hd r show ?thesis unfolding demo_events_def by simp
qed

section \<open>Waiting before the count queries\<close>

lemma settled_no_count_append:
  "filter is_count_query xs = [] \<Longrightarrow> (\<And>ph'. settled f ph' ys) \<Longrightarrow> settled f ph (xs @ ys)"
  by (induction xs arbitrary: ph) (auto split: if_splits)

lemma settles_bnd:
  assumes p: "settles f p m" and q: "\<And>v. settles m (q v) f'"
  shows "settles f (bnd p q) f'"
  unfolding settles_def
proof (intro allI impI)
  fix s r s'
  assume "bnd p q s = (r, s')"
  then show "\<exists>evs. trace s' = trace s @ evs \<and> (\<forall>ph. settled f ph evs) \<and>
      (\<forall>u. r = Inr u \<longrightarrow> (\<forall>ph ys. (\<forall>ph'. settled f' ph' ys) \<longrightarrow> settled f ph (evs @ ys)))"
  proof (cases rule: bnd_cases)
    case (fails e)
    from p[unfolded settles_def, rule_format, OF fails(1)]
    obtain evs where "trace s' = trace s @ evs" "\<forall>ph. settled f ph evs"
      by blast
    with fails(2) show ?thesis by (intro exI[of _ evs]) simp
  next
    case (continues v s1)
    from p[unfolded settles_def, rule_format, OF continues(1)]
    obtain evs1 where 1: "trace s1 = trace s @ evs1"
      and c1': "\<forall>ph ys. (\<forall>ph'. settled m ph' ys) \<longrightarrow> settled f ph (evs1 @ ys)"
      by blast
    have c1: "settled f ph (evs1 @ ys)" if "\<And>ph'. settled m ph' ys" for ph ys
      using c1' that by blast
    from q[of v, unfolded settles_def, rule_format, OF continues(2)]
    obtain evs2 where 2: "trace s' = trace s1 @ evs2"
      and a2: "\<forall>ph. settled m ph evs2"
      and c2': "\<forall>u. r = Inr u \<longrightarrow> (\<forall>ph ys. (\<forall>ph'. settled f' ph' ys) \<longrightarrow> settled m ph (evs2 @ ys))"
      by blast
    have c2: "settled m ph (evs2 @ ys)" if "r = Inr u" "\<And>ph'. settled f' ph' ys" for u ph ys
      using c2' that by blast
    have a: "settled f ph (evs1 @ evs2)" for ph
      using a2 by (intro c1) simp
    have c: "settled f ph ((evs1 @ evs2) @ ys)" if "r = Inr u" "\<And>ph'. settled f' ph' ys" for u ph ys
    proof -
      have "settled m ph' (evs2 @ ys)" for ph' using that by (rule c2)
      then have "settled f ph (evs1 @ (evs2 @ ys))" by (rule c1)
      then show ?thesis by simp
    qed
    from 1 2 a c show ?thesis by (intro exI[of _ "evs1 @ evs2"]) auto
  qed
qed

lemma settles_none:
  assumes "at_most is_count_query 0 p"
  shows "settles f p f"
  unfolding settles_def
proof (intro allI impI)
  fix s r s'
  assume run: "p s = (r, s')"
  from assms[unfolded at_most_def, rule_format, OF run]
  obtain evs where e: "trace s' = trace s @ evs" "length (filter is_count_query evs) \<le> 0"
    by blast
  then have n: "filter is_count_query evs = []" by simp
  have a: "settled f ph evs" for ph
    using settled_no_count_append[OF n, of f "[]" ph] by simp
  have c: "settled f ph (evs @ ys)" if "\<And>ph'. settled f ph' ys" for ph ys
    using n that by (rule settled_no_count_append)
  from e(1) a c show "\<exists>evs. trace s' = trace s @ evs \<and> (\<forall>ph. settled f ph evs) \<and>
      (\<forall>u. r = Inr u \<longrightarrow> (\<forall>ph ys. (\<forall>ph'. settled f ph' ys) \<longrightarrow> settled f ph (evs @ ys)))"
    by (intro exI[of _ evs]) auto
qed

lemma settles_step6: "settles True (step6 E sp) False"
  unfolding settles_def step6_def
  by (auto simp: bnd_def api_def ret_def read_test_success_def assign_test_success_def
      split: sum.splits)

lemma settles_step7: "settles False (step7 E sp box) False"
  unfolding settles_def step7_def
  by (auto simp: bnd_def api_def ret_def read_test_success_def assign_test_success_def
      split: sum.splits)

lemma settles_run_test: "settles True (run_test E) False"
  unfolding run_test_def
  apply (rule settles_bnd[where m = True], rule settles_none, rule no_count_script)
  apply (rule settles_bnd[where m = True], rule settles_none, rule no_count_script)
  apply (rule settles_bnd[where m = True], rule settles_none, rule no_count_script)
  apply (rule settles_bnd[where m = True], rule settles_none, rule no_count_script)
  apply (rule settles_bnd[where m = True], rule settles_none, rule no_count_script)
  apply (rule settles_bnd[where m = False], rule settles_step6)
  apply (rule settles_step7)
  done

lemma immediate_suffix: "immediate w (xs @ ys) \<Longrightarrow> \<exists>w'. immediate w' ys"
  by (induction xs arbitrary: w) (auto split: if_splits)

text \<open>
  Claim C5, as the script has it. In every run of \<^verbatim>\<open>run_test\<close>, however it ends, the
  first query of \<^verbatim>\<open>GetInstanceCountInAabb\<close> is preceded by exactly an \<^verbatim>\<open>idle_wait(2.0)\<close>
  that returned, the read of \<^verbatim>\<open>spawner_entity.id\<close> and the query of
  \<^verbatim>\<open>GetEncompassingAabb\<close>, in this order with nothing between them, and every later
  query is preceded immediately by an \<^verbatim>\<open>idle_wait(2.0)\<close> that returned. A run that returns
  ends with these eleven events: the wait, the read of the id, the box query, the first
  count query, its log line and its store, then the change of Weight Max, the wait, the
  second count query, its log line and its store; there is no count query before them.
\<close>

theorem waits_before_each_count_query:
  assumes "run_test E s = (r, s')"
  shows "settled True Unsettled (new_events s s') \<and>
    (\<forall>u. r = Inr u \<longrightarrow> (\<exists>pre sp w i box n1 l1 v1 g w2 n2 l2 v2.
       new_events s s' = pre @
         [Api (Call General_idle_wait [PyFloat 2] []) (Inr w),
          Api (Call Entity_id [sp] []) (Inr i),
          Api (BusCall ShapeComponentRequestsBus Event ''GetEncompassingAabb'' [i]) (Inr box),
          Api (BusCall AreaSystemRequestBus Broadcast ''GetInstanceCountInAabb'' [box]) (Inr n1),
          Api (Self_log [Lit ''Expected '', Interp (PyInt 130), Lit '' instances - Found '',
                         Interp n1, Lit '' instances'']) (Inr l1),
          Assign_test_success v1,
          Api (Call Hydra_get_set_test
                 [sp, PyInt 3, PyStr ''Configuration|Inclusion|Weight Max'', PyFloat float_0_9] [])
            (Inr g),
          Api (Call General_idle_wait [PyFloat 2] []) (Inr w2),
          Api (BusCall AreaSystemRequestBus Broadcast ''GetInstanceCountInAabb'' [box]) (Inr n2),
          Api (Self_log [Lit ''Expected '', Interp (PyInt 0), Lit '' instances - Found '',
                         Interp n2, Lit '' instances'']) (Inr l2),
          Assign_test_success v2]
       \<and> filter is_count_query pre = []))"
proof (intro conjI allI impI)
  from settles_run_test[unfolded settles_def, rule_format, OF assms]
  obtain evs where e: "trace s' = trace s @ evs" "\<forall>ph. settled True ph evs"
    by blast
  then have "new_events s s' = evs" by (simp add: new_events_def)
  with e show "settled True Unsettled (new_events s s')" by simp
next
  fix u
  assume "r = Inr u"
  with assms have run: "run_test E s = (Inr u, s')" by simp
  from run obtain s1 sp s2 s3 s4 s5 box s6 where st:
    "step1 E s = (Inr (), s1)" "step2 E s1 = (Inr sp, s2)" "step3 E sp s2 = (Inr (), s3)"
    "step4 E s3 = (Inr (), s4)" "step5 E sp s4 = (Inr (), s5)" "step6 E sp s5 = (Inr box, s6)"
    "step7 E sp box s6 = (Inr (), s')"
    and ev: "new_events s s' = new_events s s1 @ new_events s1 s2 @ new_events s2 s3 @
       new_events s3 s4 @ new_events s4 s5 @ new_events s5 s6 @ new_events s6 s'"
    by (rule run_test_complete)
  let ?pre = "new_events s s1 @ new_events s1 s2 @ new_events s2 s3 @ new_events s3 s4 @
       new_events s4 s5"
  from step6_complete[OF st(6)] obtain w i n1 l1 v1 where n6: "new_events s5 s6 =
         [Api (Call General_idle_wait [PyFloat 2] []) (Inr w),
          Api (Call Entity_id [sp] []) (Inr i),
          Api (BusCall ShapeComponentRequestsBus Event ''GetEncompassingAabb'' [i]) (Inr box),
          Api (BusCall AreaSystemRequestBus Broadcast ''GetInstanceCountInAabb'' [box]) (Inr n1),
          Api (Self_log [Lit ''Expected '', Interp (PyInt 130), Lit '' instances - Found '',
                         Interp n1, Lit '' instances'']) (Inr l1),
          Assign_test_success v1]"
    by blast
  from step7_complete[OF st(7)] obtain g w2 n2 l2 v2 where n7: "new_events s6 s' =
         [Api (Call Hydra_get_set_test
                 [sp, PyInt 3, PyStr ''Configuration|Inclusion|Weight Max'', PyFloat float_0_9] [])
            (Inr g),
          Api (Call General_idle_wait [PyFloat 2] []) (Inr w2),
          Api (BusCall AreaSystemRequestBus Broadcast ''GetInstanceCountInAabb'' [box]) (Inr n2),
          Api (Self_log [Lit ''Expected '', Interp (PyInt 0), Lit '' instances - Found '',
                         Interp n2, Lit '' instances'']) (Inr l2),
          Assign_test_success v2]"
    by blast
  have e: "new_events s s' = ?pre @
         [Api (Call General_idle_wait [PyFloat 2] []) (Inr w),
          Api (Call Entity_id [sp] []) (Inr i),
          Api (BusCall ShapeComponentRequestsBus Event ''GetEncompassingAabb'' [i]) (Inr box),
          Api (BusCall AreaSystemRequestBus Broadcast ''GetInstanceCountInAabb'' [box]) (Inr n1),
          Api (Self_log [Lit ''Expected '', Interp (PyInt 130), Lit '' instances - Found '',
                         Interp n1, Lit '' instances'']) (Inr l1),
          Assign_test_success v1,
          Api (Call Hydra_get_set_test
                 [sp, PyInt 3, PyStr ''Configuration|Inclusion|Weight Max'', PyFloat float_0_9] [])
            (Inr g),
          Api (Call General_idle_wait [PyFloat 2] []) (Inr w2),
          Api (BusCall AreaSystemRequestBus Broadcast ''GetInstanceCountInAabb'' [box]) (Inr n2),
          Api (Self_log [Lit ''Expected '', Interp (PyInt 0), Lit '' instances - Found '',
                         Interp n2, Lit '' instances'']) (Inr l2),
          Assign_test_success v2]"
    unfolding ev n6 n7 by simp
  have nc: "filter is_count_query ?pre = []"
    by (simp add: no_events[OF no_count_script(3) st(1)] no_events[OF no_count_script(4) st(2)]
        no_events[OF no_count_script(5) st(3)] no_events[OF no_count_script(6) st(4)]
        no_events[OF no_count_script(7) st(5)])
  show "\<exists>pre sp w i box n1 l1 v1 g w2 n2 l2 v2.
       new_events s s' = pre @
         [Api (Call General_idle_wait [PyFloat 2] []) (Inr w),
          Api (Call Entity_id [sp] []) (Inr i),
          Api (BusCall ShapeComponentRequestsBus Event ''GetEncompassingAabb'' [i]) (Inr box),
          Api (BusCall AreaSystemRequestBus Broadcast ''GetInstanceCountInAabb'' [box]) (Inr n1),
          Api (Self_log [Lit ''Expected '', Interp (PyInt 130), Lit '' instances - Found '',
                         Interp n1, Lit '' instances'']) (Inr l1),
          Assign_test_success v1,
          Api (Call Hydra_get_set_test
                 [sp, PyInt 3, PyStr ''Configuration|Inclusion|Weight Max'', PyFloat float_0_9] [])
            (Inr g),
          Api (Call General_idle_wait [PyFloat 2] []) (Inr w2),
          Api (BusCall AreaSystemRequestBus Broadcast ''GetInstanceCountInAabb'' [box]) (Inr n2),
          Api (Self_log [Lit ''Expected '', Interp (PyInt 0), Lit '' instances - Found '',
                         Interp n2, Lit '' instances'']) (Inr l2),
          Assign_test_success v2]
       \<and> filter is_count_query pre = []"
    by (intro exI conjI) (rule e, rule nc)
qed

theorem waits_before_each_count_query_witness:
  "fst (demo_run True) = Inr () \<and> settled True Unsettled (demo_events True) \<and>
   length (demo_events True) \<ge> 11"
proof -
  obtain s' where r: "run_test (demo_engine True) demo_state = (Inr (), s')"
    "snd (demo_run True) = s'" "fst (demo_run True) = Inr ()"
    by (rule demo_run_returns)
  note t = waits_before_each_count_query[OF r(1)]
  from t have a: "settled True Unsettled (new_events demo_state s')" by (rule conjunct1)
  from t[THEN conjunct2, rule_format, OF refl]
  have b: "length (new_events demo_state s') \<ge> 11"
    by (elim exE conjE) simp
  from a b r show ?thesis unfolding demo_events_def by simp
qed

text \<open>
  The claim as it was stated does not hold: in the sample run the event right before the
  first count query is the query of \<^verbatim>\<open>GetEncompassingAabb\<close>, not an \<^verbatim>\<open>idle_wait\<close>.
\<close>

theorem wait_not_immediately_before_first_query:
  "fst (demo_run True) = Inr () \<and> \<not> immediate False (demo_events True)"
proof -
  obtain s' where r: "run_test (demo_engine True) demo_state = (Inr (), s')"
    "snd (demo_run True) = s'" "fst (demo_run True) = Inr ()"
    by (rule demo_run_returns)
  from r(1) obtain s1 sp s2 s3 s4 s5 box s6 where st:
    "step6 (demo_engine True) sp s5 = (Inr box, s6)"
    and ev: "new_events demo_state s' = new_events demo_state s1 @ new_events s1 s2 @
       new_events s2 s3 @ new_events s3 s4 @ new_events s4 s5 @ new_events s5 s6 @ new_events s6 s'"
    by (rule run_test_complete)
  from step6_complete[OF st] obtain w i n l v where n6: "new_events s5 s6 =
      [Api (Call General_idle_wait [PyFloat 2] []) (Inr w),
       Api (Call Entity_id [sp] []) (Inr i),
       Api (BusCall ShapeComponentRequestsBus Event ''GetEncompassingAabb'' [i]) (Inr box),
       Api (BusCall AreaSystemRequestBus Broadcast ''GetInstanceCountInAabb'' [box]) (Inr n),
       Api (Self_log [Lit ''Expected '', Interp (PyInt 130), Lit '' instances - Found '',
                      Interp n, Lit '' instances'']) (Inr l),
       Assign_test_success v]"
    by auto
  have e: "new_events demo_state s' =
      (new_events demo_state s1 @ new_events s1 s2 @ new_events s2 s3 @ new_events s3 s4 @
       new_events s4 s5 @
       [Api (Call General_idle_wait [PyFloat 2] []) (Inr w), Api (Call Entity_id [sp] []) (Inr i)]) @
      (Api (BusCall ShapeComponentRequestsBus Event ''GetEncompassingAabb'' [i]) (Inr box) #
       Api (BusCall AreaSystemRequestBus Broadcast ''GetInstanceCountInAabb'' [box]) (Inr n) #
       Api (Self_log [Lit ''Expected '', Interp (PyInt 130), Lit '' instances - Found '',
                      Interp n, Lit '' instances'']) (Inr l) #
       Assign_test_success v # new_events s6 s')"
    unfolding ev n6 by simp
  have "\<not> immediate False (new_events demo_state s')"
  proof
    assume "immediate False (new_events demo_state s')"
    from immediate_suffix[OF this[unfolded e]] show False by simp
  qed
  with r show ?thesis unfolding demo_events_def by simp
qed

section \<open>The read-back of the surface tags\<close>

lemma no_store_readback_count_script:
  "at_most (\<lambda>ev. is_assign ev \<or> is_readback ev \<or> is_count_query ev) 0 (step2 E)"
  "at_most (\<lambda>ev. is_assign ev \<or> is_readback ev \<or> is_count_query ev) 0 (step3 E sp)"
  unfolding script_defs by (intro none_intros; simp)+

text \<open>
  Claim C9. Neither \<^verbatim>\<open>update_generated_surface_tag\<close> nor
  \<^verbatim>\<open>update_surface_tag_inclusion_list\<close> stores to \<^verbatim>\<open>test_success\<close>, however it ends and
  whatever the read-back gives. A run of \<^verbatim>\<open>run_test\<close> that returns stores to
  \<^verbatim>\<open>test_success\<close> exactly three times: the result of \<^verbatim>\<open>create_level\<close> before the three
  read-backs, and after them the two conjunctions with the count comparisons, in which
  no read-back value occurs.
\<close>

theorem readback_never_touches_test_success:
  "(\<forall>E ent idx tag s r s'. update_generated_surface_tag E ent idx tag s = (r, s') \<longrightarrow>
      test_success s' = test_success s \<and> filter is_assign (new_events s s') = [])
   \<and> (\<forall>E ent idx tag s r s'. update_surface_tag_inclusion_list E ent idx tag s = (r, s') \<longrightarrow>
      test_success s' = test_success s \<and> filter is_assign (new_events s s') = [])
   \<and> (\<forall>E s u s'. run_test E s = (Inr u, s') \<longrightarrow>
      (\<exists>cl c1 nv1 c2 nv2 c3 nv3 box n1 n2.
         filter (\<lambda>ev. is_assign ev \<or> is_readback ev \<or> is_count_query ev) (new_events s s') =
           [Assign_test_success cl,
            Api (Call Hydra_get_component_property_value
                   [c1, PyStr ''Configuration|Generated Tags|[0]|Surface Tag''] []) (Inr nv1),
            Api (Call Hydra_get_component_property_value
                   [c2, PyStr ''Configuration|Generated Tags|[0]|Surface Tag''] []) (Inr nv2),
            Api (Call Hydra_get_component_property_value
                   [c3, PyStr ''Configuration|Inclusion|Surface Tags|[0]|Surface Tag''] []) (Inr nv3),
            Api (BusCall AreaSystemRequestBus Broadcast ''GetInstanceCountInAabb'' [box]) (Inr n1),
            Assign_test_success (py_and cl (PyBool (py_eq n1 (PyInt 130)))),
            Api (BusCall AreaSystemRequestBus Broadcast ''GetInstanceCountInAabb'' [box]) (Inr n2),
            Assign_test_success (py_and (py_and cl (PyBool (py_eq n1 (PyInt 130))))
                                   (PyBool (py_eq n2 (PyInt 0))))]
         \<and> length (filter is_assign (new_events s s')) = 3
         \<and> test_success s' =
             py_and (py_and cl (PyBool (py_eq n1 (PyInt 130)))) (PyBool (py_eq n2 (PyInt 0)))))"
proof (intro conjI allI impI)
  fix E ent idx tag s r s'
  assume run: "update_generated_surface_tag E ent idx tag s = (r, s')"
  show "test_success s' = test_success s"
    using no_assign_script(1) tracks_script(1) run by (rule frame(2))
  show "filter is_assign (new_events s s') = []"
    using no_assign_script(1) run by (rule no_events)
next
  fix E ent idx tag s r s'
  assume run: "update_surface_tag_inclusion_list E ent idx tag s = (r, s')"
  show "test_success s' = test_success s"
    using no_assign_script(2) tracks_script(2) run by (rule frame(2))
  show "filter is_assign (new_events s s') = []"
    using no_assign_script(2) run by (rule no_events)
next
  fix E s u s'
  assume run: "run_test E s = (Inr u, s')"
  let ?P = "\<lambda>ev. is_assign ev \<or> is_readback ev \<or> is_count_query ev"
  from run obtain s1 sp s2 s3 s4 s5 box s6 where st:
    "step1 E s = (Inr (), s1)" "step2 E s1 = (Inr sp, s2)" "step3 E sp s2 = (Inr (), s3)"
    "step4 E s3 = (Inr (), s4)" "step5 E sp s4 = (Inr (), s5)" "step6 E sp s5 = (Inr box, s6)"
    "step7 E sp box s6 = (Inr (), s')"
    and ev: "new_events s s' = new_events s s1 @ new_events s1 s2 @ new_events s2 s3 @
       new_events s3 s4 @ new_events s4 s5 @ new_events s5 s6 @ new_events s6 s'"
    by (rule run_test_complete)
  from step1_complete[OF st(1)] obtain cl
    where p1: "filter ?P (new_events s s1) = [Assign_test_success cl]"
      and a1: "filter is_assign (new_events s s1) = [Assign_test_success cl]"
      and ts1: "test_success s1 = cl"
    by auto
  note z2 = no_events[OF no_store_readback_count_script(1) st(2)]
  note z3 = no_events[OF no_store_readback_count_script(2) st(3)]
  note f2 = frame[OF no_assign_script(3) tracks_script(4) st(2)]
  note f3 = frame[OF no_assign_script(4) tracks_script(5) st(3)]
  note f4 = frame[OF no_assign_script(5) tracks_script(6) st(4)]
  note f5 = frame[OF no_assign_script(6) tracks_script(7) st(5)]
  from ts1 f2(2) f3(2) f4(2) f5(2) have ts5: "test_success s5 = cl" by simp
  from step4_complete[OF st(4)] obtain c1 nv1 c2 nv2
    where p4: "filter ?P (new_events s3 s4) =
           [Api (Call Hydra_get_component_property_value
                   [c1, PyStr ''Configuration|Generated Tags|[0]|Surface Tag''] []) (Inr nv1),
            Api (Call Hydra_get_component_property_value
                   [c2, PyStr ''Configuration|Generated Tags|[0]|Surface Tag''] []) (Inr nv2)]"
    by auto
  from step5_complete[OF st(5)] obtain c3 nv3
    where p5: "filter ?P (new_events s4 s5) =
           [Api (Call Hydra_get_component_property_value
                   [c3, PyStr ''Configuration|Inclusion|Surface Tags|[0]|Surface Tag''] []) (Inr nv3)]"
    by auto
  from step6_complete[OF st(6)] ts5 obtain n1
    where p6: "filter ?P (new_events s5 s6) =
           [Api (BusCall AreaSystemRequestBus Broadcast ''GetInstanceCountInAabb'' [box]) (Inr n1),
            Assign_test_success (py_and cl (PyBool (py_eq n1 (PyInt 130))))]"
      and a6: "length (filter is_assign (new_events s5 s6)) = 1"
      and ts6: "test_success s6 = py_and cl (PyBool (py_eq n1 (PyInt 130)))"
    by auto
  from step7_complete[OF st(7)] ts6 obtain n2
    where p7: "filter ?P (new_events s6 s') =
           [Api (BusCall AreaSystemRequestBus Broadcast ''GetInstanceCountInAabb'' [box]) (Inr n2),
            Assign_test_success (py_and (py_and cl (PyBool (py_eq n1 (PyInt 130))))
                                   (PyBool (py_eq n2 (PyInt 0))))]"
      and a7: "length (filter is_assign (new_events s6 s')) = 1"
      and ts7: "test_success s' =
             py_and (py_and cl (PyBool (py_eq n1 (PyInt 130)))) (PyBool (py_eq n2 (PyInt 0)))"
    by auto
  have a: "filter ?P (new_events s s') =
           [Assign_test_success cl,
            Api (Call Hydra_get_component_property_value
                   [c1, PyStr ''Configuration|Generated Tags|[0]|Surface Tag''] []) (Inr nv1),
            Api (Call Hydra_get_component_property_value
                   [c2, PyStr ''Configuration|Generated Tags|[0]|Surface Tag''] []) (Inr nv2),
            Api (Call Hydra_get_component_property_value
                   [c3, PyStr ''Configuration|Inclusion|Surface Tags|[0]|Surface Tag''] []) (Inr nv3),
            Api (BusCall AreaSystemRequestBus Broadcast ''GetInstanceCountInAabb'' [box]) (Inr n1),
            Assign_test_success (py_and cl (PyBool (py_eq n1 (PyInt 130)))),
            Api (BusCall AreaSystemRequestBus Broadcast ''GetInstanceCountInAabb'' [box]) (Inr n2),
            Assign_test_success (py_and (py_and cl (PyBool (py_eq n1 (PyInt 130))))
                                   (PyBool (py_eq n2 (PyInt 0))))]"
    unfolding ev by (simp only: filter_append p1 z2 z3 p4 p5 p6 p7 append.simps)
  have b: "length (filter is_assign (new_events s s')) = 3"
    unfolding ev
    by (simp add: a1 no_events[OF no_assign_script(3) st(2)] no_events[OF no_assign_script(4) st(3)]
        no_events[OF no_assign_script(5) st(4)] no_events[OF no_assign_script(6) st(5)] a6 a7)
  from a b ts7 show "\<exists>cl c1 nv1 c2 nv2 c3 nv3 box n1 n2.
         filter ?P (new_events s s') =
           [Assign_test_success cl,
            Api (Call Hydra_get_component_property_value
                   [c1, PyStr ''Configuration|Generated Tags|[0]|Surface Tag''] []) (Inr nv1),
            Api (Call Hydra_get_component_property_value
                   [c2, PyStr ''Configuration|Generated Tags|[0]|Surface Tag''] []) (Inr nv2),
            Api (Call Hydra_get_component_property_value
                   [c3, PyStr ''Configuration|Inclusion|Surface Tags|[0]|Surface Tag''] []) (Inr nv3),
            Api (BusCall AreaSystemRequestBus Broadcast ''GetInstanceCountInAabb'' [box]) (Inr n1),
            Assign_test_success (py_and cl (PyBool (py_eq n1 (PyInt 130)))),
            Api (BusCall AreaSystemRequestBus Broadcast ''GetInstanceCountInAabb'' [box]) (Inr n2),
            Assign_test_success (py_and (py_and cl (PyBool (py_eq n1 (PyInt 130))))
                                   (PyBool (py_eq n2 (PyInt 0))))]
         \<and> length (filter is_assign (new_events s s')) = 3
         \<and> test_success s' =
             py_and (py_and cl (PyBool (py_eq n1 (PyInt 130)))) (PyBool (py_eq n2 (PyInt 0)))"
    by blast
qed

theorem readback_never_touches_test_success_witness:
  "test_success (snd (update_generated_surface_tag (demo_engine False) (PyObj 20) (PyInt 1)
      (PyInt 1327698037) demo_state)) = PyNone
   \<and> test_success (snd (update_surface_tag_inclusion_list (demo_engine False) (PyObj 10) (PyInt 3)
      (PyInt 1327698037) demo_state)) = PyNone
   \<and> fst (demo_run False) = Inr () \<and> length (filter is_assign (demo_events False)) = 3"
proof -
  note t = readback_never_touches_test_success
  have g: "update_generated_surface_tag (demo_engine False) (PyObj 20) (PyInt 1)
      (PyInt 1327698037) demo_state =
      (fst (update_generated_surface_tag (demo_engine False) (PyObj 20) (PyInt 1)
      (PyInt 1327698037) demo_state),
       snd (update_generated_surface_tag (demo_engine False) (PyObj 20) (PyInt 1)
      (PyInt 1327698037) demo_state))"
    by simp
  have i: "update_surface_tag_inclusion_list (demo_engine False) (PyObj 10) (PyInt 3)
      (PyInt 1327698037) demo_state =
      (fst (update_surface_tag_inclusion_list (demo_engine False) (PyObj 10) (PyInt 3)
      (PyInt 1327698037) demo_state),
       snd (update_surface_tag_inclusion_list (demo_engine False) (PyObj 10) (PyInt 3)
      (PyInt 1327698037) demo_state))"
    by simp
  obtain s' where r: "run_test (demo_engine False) demo_state = (Inr (), s')"
    "snd (demo_run False) = s'" "fst (demo_run False) = Inr ()"
    by (rule demo_run_returns)
  from t[THEN conjunct1, rule_format, OF g]
  have 1: "test_success (snd (update_generated_surface_tag (demo_engine False) (PyObj 20) (PyInt 1)
      (PyInt 1327698037) demo_state)) = PyNone"
    by (simp add: demo_state_def)
  from t[THEN conjunct2, THEN conjunct1, rule_format, OF i]
  have 2: "test_success (snd (update_surface_tag_inclusion_list (demo_engine False) (PyObj 10)
      (PyInt 3) (PyInt 1327698037) demo_state)) = PyNone"
    by (simp add: demo_state_def)
  from t[THEN conjunct2, THEN conjunct2, rule_format, OF r(1)]
  have 3: "length (filter is_assign (new_events demo_state s')) = 3"
    by blast
  from 1 2 3 r show ?thesis unfolding demo_events_def by simp
qed

lemma faithful_script:
  "faithful E (step1 E)" "faithful E (step5 E sp)" "faithful E (step6 E sp)"
  "faithful E (step7 E sp box)"
  unfolding script_defs by (intro faithful_intros)+

lemma returns_helpers_demo:
  "returns (update_generated_surface_tag (demo_engine b) ent idx tag)"
  "returns (update_surface_tag_inclusion_list (demo_engine b) ent idx tag)"
  unfolding script_defs by (intro returns_intros demo_engine_returns)+

text \<open>
  Claim C4, as the script has it. When \<^verbatim>\<open>update_generated_surface_tag\<close> or
  \<^verbatim>\<open>update_surface_tag_inclusion_list\<close> returns, it has set the property with
  \<^verbatim>\<open>SetComponentProperty\<close>, read it back at once with \<^verbatim>\<open>get_component_property_value\<close>
  from the same component and path, and compared the value read with the value set; the
  comparison chooses between the message of success and the message of failure, logged or
  printed, and \<^verbatim>\<open>test_success\<close> is as it was before.
\<close>

theorem readback_is_reported_only:
  "(\<forall>E ent idx tag s u s'. update_generated_surface_tag E ent idx tag s = (Inr u, s') \<longrightarrow>
      (\<exists>t g c w nv l. new_events s s' =
        [Api (Call Surface_data_SurfaceTag [] []) (Inr t),
         Api (Call Hydra_get_set_test [ent, idx, PyStr ''Configuration|Generated Tags'', PyList [t]] [])
           (Inr g),
         Api (Call Entity_components_getitem [ent, idx] []) (Inr c),
         Api (BusCall EditorComponentAPIBus Broadcast ''SetComponentProperty''
                [c, PyStr ''Configuration|Generated Tags|[0]|Surface Tag'', tag]) (Inr w),
         Api (Call Hydra_get_component_property_value
                [c, PyStr ''Configuration|Generated Tags|[0]|Surface Tag''] []) (Inr nv),
         Api (if py_eq nv tag
              then Self_log [Lit ''Generated surface tag of '', Interp tag, Lit '' is added successfully'']
              else Self_log [Lit ''Failed to add Generated surface tag of '', Interp tag]) (Inr l)])
      \<and> test_success s' = test_success s)
   \<and> (\<forall>E ent idx tag s u s'. update_surface_tag_inclusion_list E ent idx tag s = (Inr u, s') \<longrightarrow>
      (\<exists>t g c w nv l d. new_events s s' =
        [Api (Call Surface_data_SurfaceTag [] []) (Inr t),
         Api (Call Hydra_get_set_test
                [ent, idx, PyStr ''Configuration|Inclusion|Surface Tags'', PyList [t]] []) (Inr g),
         Api (Call Entity_components_getitem [ent, idx] []) (Inr c),
         Api (BusCall EditorComponentAPIBus Broadcast ''SetComponentProperty''
                [c, PyStr ''Configuration|Inclusion|Surface Tags|[0]|Surface Tag'', tag]) (Inr w),
         Api (Call Hydra_get_component_property_value
                [c, PyStr ''Configuration|Inclusion|Surface Tags|[0]|Surface Tag''] []) (Inr nv),
         Api (if py_eq nv tag
              then Print [Lit ''Inclusive surface mask filter of terrainHole is added successfully'']
              else Print [Lit ''Failed to add an Inclusive surface mask filter of terrainHole''])
           (Inr l),
         Api (Call General_idle_wait [PyFloat 2] []) (Inr d)])
      \<and> test_success s' = test_success s)"
proof (intro conjI allI impI)
  fix E ent idx tag s u s'
  assume run: "update_generated_surface_tag E ent idx tag s = (Inr u, s')"
  from run show "\<exists>t g c w nv l. new_events s s' =
        [Api (Call Surface_data_SurfaceTag [] []) (Inr t),
         Api (Call Hydra_get_set_test [ent, idx, PyStr ''Configuration|Generated Tags'', PyList [t]] [])
           (Inr g),
         Api (Call Entity_components_getitem [ent, idx] []) (Inr c),
         Api (BusCall EditorComponentAPIBus Broadcast ''SetComponentProperty''
                [c, PyStr ''Configuration|Generated Tags|[0]|Surface Tag'', tag]) (Inr w),
         Api (Call Hydra_get_component_property_value
                [c, PyStr ''Configuration|Generated Tags|[0]|Surface Tag''] []) (Inr nv),
         Api (if py_eq nv tag
              then Self_log [Lit ''Generated surface tag of '', Interp tag, Lit '' is added successfully'']
              else Self_log [Lit ''Failed to add Generated surface tag of '', Interp tag]) (Inr l)]"
    by (rule update_generated_complete)
  show "test_success s' = test_success s"
    using no_assign_script(1) tracks_script(1) run by (rule frame(2))
next
  fix E ent idx tag s u s'
  assume run: "update_surface_tag_inclusion_list E ent idx tag s = (Inr u, s')"
  from run show "\<exists>t g c w nv l d. new_events s s' =
        [Api (Call Surface_data_SurfaceTag [] []) (Inr t),
         Api (Call Hydra_get_set_test
                [ent, idx, PyStr ''Configuration|Inclusion|Surface Tags'', PyList [t]] []) (Inr g),
         Api (Call Entity_components_getitem [ent, idx] []) (Inr c),
         Api (BusCall EditorComponentAPIBus Broadcast ''SetComponentProperty''
                [c, PyStr ''Configuration|Inclusion|Surface Tags|[0]|Surface Tag'', tag]) (Inr w),
         Api (Call Hydra_get_component_property_value
                [c, PyStr ''Configuration|Inclusion|Surface Tags|[0]|Surface Tag''] []) (Inr nv),
         Api (if py_eq nv tag
              then Print [Lit ''Inclusive surface mask filter of terrainHole is added successfully'']
              else Print [Lit ''Failed to add an Inclusive surface mask filter of terrainHole''])
           (Inr l),
         Api (Call General_idle_wait [PyFloat 2] []) (Inr d)]"
    by (rule update_inclusion_complete)
  show "test_success s' = test_success s"
    using no_assign_script(2) tracks_script(2) run by (rule frame(2))
qed

theorem readback_is_reported_only_witness:
  "fst (update_generated_surface_tag (demo_engine False) (PyObj 20) (PyInt 1)
      (PyInt 1327698037) demo_state) = Inr ()
   \<and> test_success (snd (update_generated_surface_tag (demo_engine False) (PyObj 20) (PyInt 1)
      (PyInt 1327698037) demo_state)) = PyNone
   \<and> length (new_events demo_state (snd (update_generated_surface_tag (demo_engine False)
      (PyObj 20) (PyInt 1) (PyInt 1327698037) demo_state))) = 6
   \<and> fst (update_surface_tag_inclusion_list (demo_engine False) (PyObj 10) (PyInt 3)
      (PyInt 1327698037) demo_state) = Inr ()
   \<and> test_success (snd (update_surface_tag_inclusion_list (demo_engine False) (PyObj 10) (PyInt 3)
      (PyInt 1327698037) demo_state)) = PyNone
   \<and> length (new_events demo_state (snd (update_surface_tag_inclusion_list (demo_engine False)
      (PyObj 10) (PyInt 3) (PyInt 1327698037) demo_state))) = 7"
proof -
  note t = readback_is_reported_only
  have a0: "args demo_state ''level'' \<noteq> None" by (simp add: demo_state_def)
  from returns_helpers_demo(1) a0 obtain u1 s1
    where g: "update_generated_surface_tag (demo_engine False) (PyObj 20) (PyInt 1)
      (PyInt 1327698037) demo_state = (Inr u1, s1)"
    by (rule returnsD)
  from returns_helpers_demo(2) a0 obtain u2 s2
    where i: "update_surface_tag_inclusion_list (demo_engine False) (PyObj 10) (PyInt 3)
      (PyInt 1327698037) demo_state = (Inr u2, s2)"
    by (rule returnsD)
  from t[THEN conjunct1, rule_format, OF g]
  have 1: "length (new_events demo_state s1) = 6" "test_success s1 = PyNone"
    by (auto simp: demo_state_def)
  from t[THEN conjunct2, rule_format, OF i]
  have 2: "length (new_events demo_state s2) = 7" "test_success s2 = PyNone"
    by (auto simp: demo_state_def)
  from 1 2 show ?thesis by (simp add: g i)
qed

text \<open>
  The claim as it was stated does not hold. In the sample editor whose properties read
  back as \<^verbatim>\<open>None\<close>, the inclusion tag 1327698037 is set and \<^verbatim>\<open>None\<close> is read back, which is
  not equal to it; the run returns all the same and leaves \<^verbatim>\<open>test_success\<close> true.
\<close>

theorem readback_mismatch_does_not_fail_test:
  "fst (demo_run False) = Inr ()
   \<and> test_success (snd (demo_run False)) = PyBool True
   \<and> Api (BusCall EditorComponentAPIBus Broadcast ''SetComponentProperty''
          [PyObj 30, PyStr ''Configuration|Inclusion|Surface Tags|[0]|Surface Tag'', PyInt 1327698037])
        (Inr PyNone) \<in> set (demo_events False)
   \<and> Api (Call Hydra_get_component_property_value
          [PyObj 30, PyStr ''Configuration|Inclusion|Surface Tags|[0]|Surface Tag''] [])
        (Inr PyNone) \<in> set (demo_events False)
   \<and> \<not> py_eq PyNone (PyInt 1327698037)"
proof -
  let ?E = "demo_engine False"
  obtain s' where r: "run_test ?E demo_state = (Inr (), s')"
    "snd (demo_run False) = s'" "fst (demo_run False) = Inr ()"
    by (rule demo_run_returns)
  from r(1) obtain s1 sp s2 s3 s4 s5 box s6 where st:
    "step1 ?E demo_state = (Inr (), s1)" "step2 ?E s1 = (Inr sp, s2)" "step3 ?E sp s2 = (Inr (), s3)"
    "step4 ?E s3 = (Inr (), s4)" "step5 ?E sp s4 = (Inr (), s5)" "step6 ?E sp s5 = (Inr box, s6)"
    "step7 ?E sp box s6 = (Inr (), s')"
    and ev: "new_events demo_state s' = new_events demo_state s1 @ new_events s1 s2 @
       new_events s2 s3 @ new_events s3 s4 @ new_events s4 s5 @ new_events s5 s6 @ new_events s6 s'"
    by (rule run_test_complete)
  \<comment> \<open>step 1: the level is created\<close>
  from step1_complete[OF st(1)] obtain level cl v where n1: "new_events demo_state s1 =
      [Api (Call Self_create_level [level]
              [(''heightmap_resolution'', PyInt 1024),
               (''heightmap_meters_per_pixel'', PyInt 1),
               (''terrain_texture_resolution'', PyInt 4096),
               (''use_terrain'', PyBool False)]) (Inr cl),
       Assign_test_success cl,
       Api (Call General_set_current_view_position [PyFloat 512, PyFloat 480, PyFloat 38] []) (Inr v)]"
    and ts1: "test_success s1 = cl"
    by auto
  from faithful_new_events[OF faithful_script(1) st(1), rule_format, of 0] n1
  have cl: "cl = PyBool True"
    by (simp add: demo_engine_def demo_answer_def)
  note f2 = frame[OF no_assign_script(3) tracks_script(4) st(2)]
  note f3 = frame[OF no_assign_script(4) tracks_script(5) st(3)]
  note f4 = frame[OF no_assign_script(5) tracks_script(6) st(4)]
  note f5 = frame[OF no_assign_script(6) tracks_script(7) st(5)]
  from ts1 cl f2(2) f3(2) f4(2) f5(2) have ts5: "test_success s5 = PyBool True" by simp
  \<comment> \<open>step 5: the tag is set and read back\<close>
  from step5_complete[OF st(5)] obtain t g c w nv l d where n5: "new_events s4 s5 =
      [Api (Call Surface_data_SurfaceTag [] []) (Inr t),
       Api (Call Hydra_get_set_test
              [sp, PyInt 3, PyStr ''Configuration|Inclusion|Surface Tags'', PyList [t]] []) (Inr g),
       Api (Call Entity_components_getitem [sp, PyInt 3] []) (Inr c),
       Api (BusCall EditorComponentAPIBus Broadcast ''SetComponentProperty''
              [c, PyStr ''Configuration|Inclusion|Surface Tags|[0]|Surface Tag'', PyInt 1327698037])
         (Inr w),
       Api (Call Hydra_get_component_property_value
              [c, PyStr ''Configuration|Inclusion|Surface Tags|[0]|Surface Tag''] []) (Inr nv),
       Api (if py_eq nv (PyInt 1327698037)
            then Print [Lit ''Inclusive surface mask filter of terrainHole is added successfully'']
            else Print [Lit ''Failed to add an Inclusive surface mask filter of terrainHole'']) (Inr l),
       Api (Call General_idle_wait [PyFloat 2] []) (Inr d)]"
    by blast
  note link5 = faithful_new_events[OF faithful_script(2) st(5), rule_format]
  from link5[of 2] n5 have c: "c = PyObj 30"
    by (simp add: demo_engine_def demo_answer_def)
  from link5[of 3] n5 have w: "w = PyNone"
    by (simp add: demo_engine_def demo_answer_def)
  from link5[of 4] n5 have nv: "nv = PyNone"
    by (simp add: demo_engine_def demo_answer_def)
  \<comment> \<open>steps 6 and 7: the counts are 130 and 0\<close>
  from step6_complete[OF st(6)] ts5 obtain w6 i k1 l6 where n6: "new_events s5 s6 =
      [Api (Call General_idle_wait [PyFloat 2] []) (Inr w6),
       Api (Call Entity_id [sp] []) (Inr i),
       Api (BusCall ShapeComponentRequestsBus Event ''GetEncompassingAabb'' [i]) (Inr box),
       Api (BusCall AreaSystemRequestBus Broadcast ''GetInstanceCountInAabb'' [box]) (Inr k1),
       Api (Self_log [Lit ''Expected '', Interp (PyInt 130), Lit '' instances - Found '',
                      Interp k1, Lit '' instances'']) (Inr l6),
       Assign_test_success (py_and (PyBool True) (PyBool (py_eq k1 (PyInt 130))))]"
    and ts6: "test_success s6 = py_and (PyBool True) (PyBool (py_eq k1 (PyInt 130)))"
    by auto
  from faithful_new_events[OF faithful_script(3) st(6), rule_format, of 3] n6
  have k1: "k1 = PyInt 130"
    by (simp add: demo_engine_def demo_answer_def)
  from ts6 k1 have ts6': "test_success s6 = PyBool True" by (simp add: py_and_def)
  from step7_complete[OF st(7)] ts6' obtain g7 w7 k2 l7 where n7: "new_events s6 s' =
      [Api (Call Hydra_get_set_test
              [sp, PyInt 3, PyStr ''Configuration|Inclusion|Weight Max'', PyFloat float_0_9] [])
         (Inr g7),
       Api (Call General_idle_wait [PyFloat 2] []) (Inr w7),
       Api (BusCall AreaSystemRequestBus Broadcast ''GetInstanceCountInAabb'' [box]) (Inr k2),
       Api (Self_log [Lit ''Expected '', Interp (PyInt 0), Lit '' instances - Found '',
                      Interp k2, Lit '' instances'']) (Inr l7),
       Assign_test_success (py_and (PyBool True) (PyBool (py_eq k2 (PyInt 0))))]"
    and ts7: "test_success s' = py_and (PyBool True) (PyBool (py_eq k2 (PyInt 0)))"
    by auto
  from faithful_new_events[OF faithful_script(4) st(7), rule_format, of 2] n7
  have k2: "k2 = PyInt 0"
    by (simp add: demo_engine_def demo_answer_def)
  from ts7 k2 have final: "test_success s' = PyBool True" by (simp add: py_and_def)
  have m1: "Api (BusCall EditorComponentAPIBus Broadcast ''SetComponentProperty''
          [PyObj 30, PyStr ''Configuration|Inclusion|Surface Tags|[0]|Surface Tag'', PyInt 1327698037])
        (Inr PyNone) \<in> set (new_events demo_state s')"
    and m2: "Api (Call Hydra_get_component_property_value
          [PyObj 30, PyStr ''Configuration|Inclusion|Surface Tags|[0]|Surface Tag''] [])
        (Inr PyNone) \<in> set (new_events demo_state s')"
    unfolding ev n5 c w nv by simp_all
  have ne: "\<not> py_eq PyNone (PyInt 1327698037)" by simp
  from r final m1 m2 ne show ?thesis unfolding demo_events_def by simp
qed

end
